theory Spec2Isabelle
  imports Complex_Main "HOL-Library.Word" "HOL-Library.Signed_Division"
begin

section \<open>Velodyne raw data decoder (rawdata.cc)\<close>

text \<open>
  A shallow embedding of \<^verbatim>\<open>velodyne_pointcloud/src/lib/rawdata.cc\<close>: the configuration
  update (\<^verbatim>\<open>RawData::setParameters\<close>), the set-up step (\<^verbatim>\<open>RawData::setup\<close>), the decoder of
  the 32/64-beam packet layout (\<^verbatim>\<open>RawData::unpack\<close>) and the decoder of the 16-beam layout
  (\<^verbatim>\<open>RawData::unpack_vlp16\<close>).

  Conventions of the embedding.
  \<^item> In the correction model and in the configuration (distances, positions,
    intensities, the angles of the view) \<^verbatim>\<open>float\<close> and \<^verbatim>\<open>double\<close> values are idealised as
    real numbers: every arithmetic operation there is the exact one. The corrected
    azimuth of the 16-beam decoder is an integer code that is compared with the angles of
    the gate and that selects the entries of the trigonometric tables; there every
    operation on \<^verbatim>\<open>float\<close> values is rounded as the single precision format rounds it.
    A coordinate that can be NaN is a \<open>real option\<close>, \<open>None\<close> being NaN.
  \<^item> Counters, grid dimensions and indices (\<^verbatim>\<open>int\<close>, \<^verbatim>\<open>uint32_t\<close>, \<^verbatim>\<open>size_t\<close> in the source)
    are unbounded \<open>nat\<close>/\<open>int\<close>: a scan of \<open>P\<close> packets makes none of them larger than
    a few hundred times \<open>P\<close>, far from the 31 bits at which they would wrap. The 8-bit
    and 16-bit fields of a packet are words.
  \<^item> A C array of fixed size is a function from its index; where the index is computed
    from data (the trigonometric tables) the read is checked and a read out of bounds
    is an error value. An exception and a failed assertion are error values too.
  \<^item> \<^verbatim>\<open>rawdata.h\<close>, \<^verbatim>\<open>calibration.h\<close> and \<^verbatim>\<open>point_types.h\<close> are not among the sources. The
    constants of \<^verbatim>\<open>rawdata.h\<close> are the fields of a parameter \<open>K\<close>; the structures are
    records holding the fields that \<^verbatim>\<open>rawdata.cc\<close> reads and writes.
  \<^item> Log output is left out, with two exceptions: the messages of level error of the
    set-up step are part of its result, and the warning of an invalid block of the
    16-beam decoder is modelled with the throttling of the logging macro.
\<close>

subsection \<open>Data\<close>

text \<open>One block of a packet (\<^verbatim>\<open>raw_block_t\<close>) and the packet (\<^verbatim>\<open>raw_packet_t\<close>).\<close>

record raw_block =
  header :: "16 word"
  rotation :: "16 word"
  data :: "nat \<Rightarrow> 8 word"

record raw_packet =
  blocks :: "nat \<Rightarrow> raw_block"
  revolution :: "16 word"
  status :: "nat \<Rightarrow> 8 word"

text \<open>
  The constants that \<^verbatim>\<open>rawdata.cc\<close> takes from \<^verbatim>\<open>rawdata.h\<close>, and the function
  \<^verbatim>\<open>packet_interp_time\<close> declared there, applied to the packet whose time field it reads.
  \<open>LOG_PERIOD\<close> is the source's \<^verbatim>\<open>LOG_PERIOD_\<close>. The three timing constants of the 16-beam
  device are objects of type \<^verbatim>\<open>float\<close>, as are the variables \<^verbatim>\<open>t_beam\<close> and \<^verbatim>\<open>azimuth_diff\<close>
  that they are combined with: their values are numbers of the single precision format.
\<close>

record rawdata_h =
  RAW_SCAN_SIZE :: nat
  SCANS_PER_BLOCK :: nat
  ROTATION_RESOLUTION :: real
  ROTATION_MAX_UNITS :: nat
  DISTANCE_RESOLUTION :: real
  UPPER_BANK :: "16 word"
  LOWER_BANK :: "16 word"
  VLP16_FIRINGS_PER_BLOCK :: nat
  VLP16_SCANS_PER_FIRING :: nat
  VLP16_BLOCK_TDURATION :: real
  VLP16_DSR_TOFFSET :: real
  VLP16_FIRING_TOFFSET :: real
  BLOCKS_PER_PACKET :: nat
  PACKET_STATUS_SIZE :: nat
  SCANS_PER_PACKET :: nat
  LOG_PERIOD :: real
  packet_interp_time :: "raw_packet \<Rightarrow> real"

text \<open>\<^verbatim>\<open>velodyne_msgs::VelodynePacket\<close>, read through the cast to \<^verbatim>\<open>raw_packet_t\<close>, and the scan.\<close>

record VelodynePacket =
  stamp :: real
  raw :: raw_packet

record VelodyneScan =
  scan_stamp :: real
  scan_frame_id :: string
  packets :: "VelodynePacket list"

text \<open>The calibration of one laser and the calibration of the device.\<close>

record LaserCorrection =
  dist_correction :: real
  two_pt_correction_available :: bool
  dist_correction_x :: real
  dist_correction_y :: real
  vert_offset_correction :: real
  horiz_offset_correction :: real
  max_intensity :: real
  min_intensity :: real
  focal_distance :: real
  focal_slope :: real
  cos_rot_correction :: real
  sin_rot_correction :: real
  cos_vert_correction :: real
  sin_vert_correction :: real
  laser_ring :: int

record Calibration =
  laser_corrections :: "nat \<Rightarrow> LaserCorrection"
  num_lasers :: nat
  initialized :: bool

record Config =
  calibrationFile :: string
  min_range :: real
  max_range :: real
  min_angle :: int
  max_angle :: int
  tmp_min_angle :: real
  tmp_max_angle :: real
  frame_id :: string
  fixed_frame_id :: string

text \<open>
  A point of the output cloud and the organized cloud. \<open>points\<close> is row-major:
  the cell of column \<open>c\<close> and row \<open>r\<close> is the element \<open>r * width + c\<close>.
\<close>

record VPoint =
  x :: "real option"
  y :: "real option"
  z :: "real option"
  intensity :: real
  ring :: int

record VPointCloud =
  pc_stamp :: real
  pc_frame_id :: string
  width :: nat
  height :: nat
  points :: "VPoint list"

text \<open>
  The transform listener: a point with its time stamp and frame, and the two overloads
  of \<^verbatim>\<open>transformPoint\<close> that the decoders call. An exception of the listener is \<open>None\<close>.
\<close>

record PointStamped =
  t_stamp :: real
  t_frame_id :: string
  t_x :: real
  t_y :: real
  t_z :: real

record TransformListener =
  transformPoint :: "string \<Rightarrow> PointStamped \<Rightarrow> PointStamped option"
  transformPoint_fixed :: "string \<Rightarrow> real \<Rightarrow> PointStamped \<Rightarrow> string \<Rightarrow> PointStamped option"

text \<open>The decoder object; the members are named as in the source, without the final underscore.\<close>

record RawData =
  config :: Config
  calibration :: Calibration
  sin_rot_table :: "nat \<Rightarrow> real"
  cos_rot_table :: "nat \<Rightarrow> real"
  tf_listener :: "TransformListener option"

datatype error =
  out_of_range
  | UnorganizedPointCloudException
  | DivisionByZero
  | AssertionFailed
  | TableIndexOutOfBounds

subsection \<open>Configuration: setParameters\<close>

text \<open>C's \<^verbatim>\<open>fmod\<close> and the conversion of a \<^verbatim>\<open>double\<close> to \<^verbatim>\<open>int\<close>, which truncates towards zero.\<close>

definition double_to_int :: "real \<Rightarrow> int" where
  "double_to_int r = (if 0 \<le> r then \<lfloor>r\<rfloor> else \<lceil>r\<rceil>)"

definition fmod :: "real \<Rightarrow> real \<Rightarrow> real" where
  "fmod a b = a - b * of_int (double_to_int (a / b))"

text \<open>
  Lines 67 and 72: an angle in radians, taken into \<open>[0, 2 pi]\<close> and converted to the
  hardware's hundredths of a degree. The source writes the two lines once for the
  minimum and once for the maximum.
\<close>

definition hardware_angle :: "real \<Rightarrow> int" where
  "hardware_angle a =
     (let tmp = fmod (fmod a (2 * pi) + 2 * pi) (2 * pi)
      in double_to_int (100 * (2 * pi - tmp) * 180 / pi + 0.5))"

definition setParameters ::
  "Config \<Rightarrow> real \<Rightarrow> real \<Rightarrow> real \<Rightarrow> real \<Rightarrow> string \<Rightarrow> string \<Rightarrow> Config" where
  "setParameters cfg min_range' max_range' view_direction view_width frame_id' fixed_frame_id' =
     (let tmp_min = view_direction + view_width / 2;
          tmp_max = view_direction - view_width / 2;
          tmp_min = fmod (fmod tmp_min (2 * pi) + 2 * pi) (2 * pi);
          tmp_max = fmod (fmod tmp_max (2 * pi) + 2 * pi) (2 * pi);
          min_a = double_to_int (100 * (2 * pi - tmp_min) * 180 / pi + 0.5);
          max_a = double_to_int (100 * (2 * pi - tmp_max) * 180 / pi + 0.5)
      in cfg\<lparr> min_range := min_range',
               max_range := max_range',
               min_angle := (if min_a = max_a then 0 else min_a),
               max_angle := (if min_a = max_a then 36000 else max_a),
               tmp_min_angle := tmp_min,
               tmp_max_angle := tmp_max,
               frame_id := frame_id',
               fixed_frame_id := fixed_frame_id' \<rparr>)"

subsection \<open>The gates\<close>

text \<open>
  The angle condition of lines 197-202 and 454-459, the same text in both decoders: the
  legacy decoder applies it to the block's rotation code, the 16-beam decoder to the
  corrected azimuth of the beam.
\<close>

definition angle_gate :: "int \<Rightarrow> int \<Rightarrow> int \<Rightarrow> bool" where
  "angle_gate rot min_a max_a =
     ((rot \<ge> min_a \<and> rot \<le> max_a \<and> min_a < max_a)
      \<or> (min_a > max_a \<and> (rot \<le> max_a \<or> rot \<ge> min_a)))"

text \<open>
  Modelled from the spec: \<^verbatim>\<open>pointInRange\<close> is defined in \<^verbatim>\<open>rawdata.h\<close>, which is not among
  the sources; the specification gives it as true if and only if the distance lies
  between the minimum and the maximum range, both included.
\<close>

definition pointInRange :: "Config \<Rightarrow> real \<Rightarrow> bool" where
  "pointInRange cfg rng = (rng \<ge> min_range cfg \<and> rng \<le> max_range cfg)"

subsection \<open>The output cloud\<close>

text \<open>The point that fills a new cloud (lines 152-155 and 378-381).\<close>

definition nan_point :: VPoint where
  "nan_point = \<lparr> x = None, y = None, z = None, intensity = 0, ring = - 1 \<rparr>"

text \<open>\<^verbatim>\<open>std::vector::resize(n, val)\<close>: the first \<open>n\<close> elements are kept, new ones are \<open>val\<close>.\<close>

definition resize :: "'a list \<Rightarrow> nat \<Rightarrow> 'a \<Rightarrow> 'a list" where
  "resize xs n val = take n xs @ replicate (n - length xs) val"

text \<open>
  \<^verbatim>\<open>pcl::PointCloud::at(column, row)\<close> of the point cloud library: it refuses a cloud of
  height 1 or less, and reads element \<open>row * width + column\<close> through \<^verbatim>\<open>std::vector::at\<close>,
  which throws when the index is not below the size (a negative index, converted to an
  unsigned one, is not). The result is the index of the cell.
\<close>

definition pc_at :: "VPointCloud \<Rightarrow> int \<Rightarrow> int \<Rightarrow> error + nat" where
  "pc_at pc column row =
     (if height pc > 1 then
        (let n = row * int (width pc) + column
         in if 0 \<le> n \<and> n < int (length (points pc)) then Inr (nat n) else Inl out_of_range)
      else Inl UnorganizedPointCloudException)"

text \<open>An assignment through the reference that \<^verbatim>\<open>at\<close> returns: \<^verbatim>\<open>pc.at(col, row).f = v\<close>.\<close>

definition pc_assign :: "VPointCloud \<Rightarrow> int \<Rightarrow> int \<Rightarrow> (VPoint \<Rightarrow> VPoint) \<Rightarrow> error + VPointCloud" where
  "pc_assign pc column row f =
     (case pc_at pc column row of
        Inl e \<Rightarrow> Inl e
      | Inr n \<Rightarrow> Inr (pc\<lparr> points := (points pc)[n := f (points pc ! n)] \<rparr>))"

text \<open>
  A read of one of the two trigonometric tables, arrays of \<^verbatim>\<open>ROTATION_MAX_UNITS\<close> floats.
  The source does not check the index; a read outside the array is the error value.
\<close>

definition table_lookup :: "rawdata_h \<Rightarrow> (nat \<Rightarrow> real) \<Rightarrow> int \<Rightarrow> error + real" where
  "table_lookup K table i =
     (if 0 \<le> i \<and> i < int (ROTATION_MAX_UNITS K) then Inr (table (nat i))
      else Inl TableIndexOutOfBounds)"

text \<open>\<^verbatim>\<open>union two_bytes\<close>: the 16-bit distance code of two bytes, the low byte first.\<close>

definition two_bytes :: "8 word \<Rightarrow> 8 word \<Rightarrow> 16 word" where
  "two_bytes b0 b1 = word_of_nat (unat b0 + 256 * unat b1)"

text \<open>Loops: the body is run for each index in turn and the first error ends the loop.\<close>

fun for_loop :: "'i list \<Rightarrow> ('i \<Rightarrow> 's \<Rightarrow> error + 's) \<Rightarrow> 's \<Rightarrow> error + 's" where
  "for_loop [] body s = Inr s"
| "for_loop (i # ns) body s =
     (case body i s of Inl e \<Rightarrow> Inl e | Inr s' \<Rightarrow> for_loop ns body s')"

subsection \<open>The legacy decoder: unpack\<close>

text \<open>
  Lines 203-283, the position of one reading: the result is the point in the output
  convention (\<open>x_coord\<close>, \<open>y_coord\<close>, \<open>z_coord\<close>) and the corrected distance that the range
  gate tests. \<open>cos_rot\<close> and \<open>sin_rot\<close> are the table entries of the block's rotation.
\<close>

definition unpack_position ::
  "rawdata_h \<Rightarrow> LaserCorrection \<Rightarrow> real \<Rightarrow> real \<Rightarrow> 16 word \<Rightarrow> real \<times> real \<times> real \<times> real" where
  "unpack_position K corrections cos_rot sin_rot tmp =
     (let distance = real (unat tmp) * DISTANCE_RESOLUTION K;
          distance = distance + dist_correction corrections;
          cos_vert_angle = cos_vert_correction corrections;
          sin_vert_angle = sin_vert_correction corrections;
          cos_rot_c = cos_rot_correction corrections;
          sin_rot_c = sin_rot_correction corrections;
          cos_rot_angle = cos_rot * cos_rot_c + sin_rot * sin_rot_c;
          sin_rot_angle = sin_rot * cos_rot_c - cos_rot * sin_rot_c;
          horiz_offset = horiz_offset_correction corrections;
          vert_offset = vert_offset_correction corrections;
          xy_distance = distance * cos_vert_angle - vert_offset * sin_vert_angle;
          xx = xy_distance * sin_rot_angle - horiz_offset * cos_rot_angle;
          yy = xy_distance * cos_rot_angle + horiz_offset * sin_rot_angle;
          xx = (if xx < 0 then - xx else xx);
          yy = (if yy < 0 then - yy else yy);
          distance_corr_x =
            (if two_pt_correction_available corrections
             then (dist_correction corrections - dist_correction_x corrections)
                    * (xx - 2.4) / (25.04 - 2.4)
                  + dist_correction_x corrections - dist_correction corrections
             else 0);
          distance_corr_y =
            (if two_pt_correction_available corrections
             then (dist_correction corrections - dist_correction_y corrections)
                    * (yy - 1.93) / (25.04 - 1.93)
                  + dist_correction_y corrections - dist_correction corrections
             else 0);
          distance_x = distance + distance_corr_x;
          xy_distance = distance_x * cos_vert_angle - vert_offset * sin_vert_angle;
          px = xy_distance * sin_rot_angle - horiz_offset * cos_rot_angle;
          distance_y = distance + distance_corr_y;
          xy_distance = distance_y * cos_vert_angle - vert_offset * sin_vert_angle;
          py = xy_distance * cos_rot_angle + horiz_offset * sin_rot_angle;
          pz = distance_y * sin_vert_angle + vert_offset * cos_vert_angle
      in (py, - px, pz, distance))"

text \<open>
  Lines 287-299, the intensity of one reading: the distance code is converted to
  \<^verbatim>\<open>float\<close> before the division by 65535. \<^verbatim>\<open>abs\<close> is taken as the absolute value of a
  floating-point number.
\<close>

definition unpack_intensity :: "LaserCorrection \<Rightarrow> 16 word \<Rightarrow> 8 word \<Rightarrow> real" where
  "unpack_intensity corrections tmp raw_intensity =
     (let min_i = min_intensity corrections;
          max_i = max_intensity corrections;
          intensity = real (unat raw_intensity);
          focal_offset = 256 * (1 - focal_distance corrections / 13100)
                             * (1 - focal_distance corrections / 13100);
          f_slope = focal_slope corrections;
          intensity = intensity + f_slope * \<bar>focal_offset - 256 *
            (1 - real (unat tmp) / 65535) * (1 - real (unat tmp) / 65535)\<bar>;
          intensity = (if intensity < min_i then min_i else intensity);
          intensity = (if intensity > max_i then max_i else intensity)
      in intensity)"

text \<open>
  Lines 301-353, the end of the body of the innermost loop: the cell of the reading, the
  counter, and the writes to the cloud. \<open>n_points\<close> and \<open>pc\<close> are the counter and the
  cloud before the reading; \<open>x_coord\<close>, \<open>y_coord\<close>, \<open>z_coord\<close>, \<open>distance\<close> and \<open>intensity'\<close> are
  the values computed for it. The division of line 302 is the first use of \<open>num_lasers\<close>
  as a divisor when these lines are read alone; \<open>unpack\<close> has divided by it before
  (line 150). The three assignments of the coordinates go to one cell and are one update.
\<close>

definition unpack_store ::
  "RawData \<Rightarrow> VelodyneScan \<Rightarrow> VelodynePacket \<Rightarrow> LaserCorrection
     \<Rightarrow> real \<Rightarrow> real \<Rightarrow> real \<Rightarrow> real \<Rightarrow> real
     \<Rightarrow> nat \<Rightarrow> VPointCloud \<Rightarrow> error + nat \<times> VPointCloud" where
  "unpack_store rd scanMsg pkt corrections x_coord y_coord z_coord distance intensity' n_points pc =
     (let cfg = config rd;
          lasers = num_lasers (calibration rd)
      in if lasers = 0 then Inl DivisionByZero
         else
           (let col = int (n_points div lasers);
                row = int lasers - 1 - laser_ring corrections;
                n_points = n_points + 1
            in case pc_assign pc col row (\<lambda>p. p\<lparr> ring := laser_ring corrections \<rparr>) of
                 Inl e \<Rightarrow> Inl e
               | Inr pc \<Rightarrow>
                 if \<not> pointInRange cfg distance then Inr (n_points, pc)
                 else
                   (case pc_assign pc col row (\<lambda>p. p\<lparr> intensity := intensity' \<rparr>) of
                      Inl e \<Rightarrow> Inl e
                    | Inr pc \<Rightarrow>
                      if tf_listener rd = None \<or> frame_id cfg = [] then
                        (case pc_assign pc col row
                                (\<lambda>p. p\<lparr> x := Some x_coord, y := Some y_coord,
                                         z := Some z_coord \<rparr>) of
                           Inl e \<Rightarrow> Inl e
                         | Inr pc \<Rightarrow> Inr (n_points, pc))
                      else
                        (case tf_listener rd of
                           None \<Rightarrow> Inr (n_points, pc)
                         | Some tf \<Rightarrow>
                           (case transformPoint tf (pc_frame_id pc)
                                   \<lparr> t_stamp = stamp pkt,
                                     t_frame_id = scan_frame_id scanMsg,
                                     t_x = x_coord, t_y = y_coord, t_z = z_coord \<rparr> of
                              None \<Rightarrow> Inr (n_points, pc)
                            | Some t_point \<Rightarrow>
                              (case pc_assign pc col row
                                      (\<lambda>p. p\<lparr> x := Some (t_x t_point),
                                               y := Some (t_y t_point),
                                               z := Some (t_z t_point) \<rparr>) of
                                 Inl e \<Rightarrow> Inl e
                               | Inr pc \<Rightarrow> Inr (n_points, pc)))))))"

text \<open>
  Lines 180-355, one reading \<open>j\<close> of block \<open>i\<close> of a packet. The state is the counter
  \<open>n_points\<close> and the cloud. The offset \<open>k\<close> of the reading in the block's data, which the
  source advances by \<^verbatim>\<open>RAW_SCAN_SIZE\<close> with \<open>j\<close>, is \<open>j * RAW_SCAN_SIZE\<close>; the laser number is
  a \<^verbatim>\<open>uint8_t\<close>.
\<close>

definition unpack_laser :: "rawdata_h \<Rightarrow> raw_block \<Rightarrow> nat \<Rightarrow> nat" where
  "unpack_laser K blk j =
     (let bank_origin = (if header blk = LOWER_BANK K then 32 else 0)
      in (j + bank_origin) mod 256)"

definition unpack_reading ::
  "rawdata_h \<Rightarrow> RawData \<Rightarrow> VelodyneScan \<Rightarrow> VelodynePacket \<Rightarrow> nat \<Rightarrow> nat
     \<Rightarrow> nat \<times> VPointCloud \<Rightarrow> error + nat \<times> VPointCloud" where
  "unpack_reading K rd scanMsg pkt i j st =
     (let blk = blocks (raw pkt) i;
          k = j * RAW_SCAN_SIZE K;
          laser_number = unpack_laser K blk j;
          corrections = laser_corrections (calibration rd) laser_number;
          tmp = two_bytes (data blk k) (data blk (k + 1));
          cfg = config rd
      in if angle_gate (uint (rotation blk)) (min_angle cfg) (max_angle cfg) then
           (case table_lookup K (cos_rot_table rd) (uint (rotation blk)) of
              Inl e \<Rightarrow> Inl e
            | Inr cos_rot \<Rightarrow>
           (case table_lookup K (sin_rot_table rd) (uint (rotation blk)) of
              Inl e \<Rightarrow> Inl e
            | Inr sin_rot \<Rightarrow>
           (let (x_coord, y_coord, z_coord, distance) =
                  unpack_position K corrections cos_rot sin_rot tmp;
                intensity' = unpack_intensity corrections tmp (data blk (k + 2))
            in unpack_store rd scanMsg pkt corrections x_coord y_coord z_coord distance
                 intensity' (fst st) (snd st))))
         else Inr st)"

text \<open>Lines 170-356 and 166-357: the loops over the readings of a block, the blocks of a
  packet and the packets of the scan.\<close>

definition unpack_block ::
  "rawdata_h \<Rightarrow> RawData \<Rightarrow> VelodyneScan \<Rightarrow> VelodynePacket \<Rightarrow> nat
     \<Rightarrow> nat \<times> VPointCloud \<Rightarrow> error + nat \<times> VPointCloud" where
  "unpack_block K rd scanMsg pkt i =
     for_loop [0..<SCANS_PER_BLOCK K] (\<lambda>j. unpack_reading K rd scanMsg pkt i j)"

definition unpack_packet ::
  "rawdata_h \<Rightarrow> RawData \<Rightarrow> VelodyneScan \<Rightarrow> nat \<Rightarrow> nat \<times> VPointCloud \<Rightarrow> error + nat \<times> VPointCloud" where
  "unpack_packet K rd scanMsg next =
     for_loop [0..<BLOCKS_PER_PACKET K] (\<lambda>i. unpack_block K rd scanMsg (packets scanMsg ! next) i)"

definition unpack_packets ::
  "rawdata_h \<Rightarrow> RawData \<Rightarrow> VelodyneScan \<Rightarrow> nat \<times> VPointCloud \<Rightarrow> error + nat \<times> VPointCloud" where
  "unpack_packets K rd scanMsg =
     for_loop [0..<length (packets scanMsg)] (\<lambda>next. unpack_packet K rd scanMsg next)"

text \<open>
  Lines 146-162: the header, the dimensions and the frame of the cloud of the legacy
  decoder. The width is a quotient by \<open>num_lasers\<close>.
\<close>

definition unpack_init :: "rawdata_h \<Rightarrow> RawData \<Rightarrow> VelodyneScan \<Rightarrow> VPointCloud \<Rightarrow> error + VPointCloud" where
  "unpack_init K rd scanMsg pc =
     (let lasers = num_lasers (calibration rd)
      in if lasers = 0 then Inl DivisionByZero
         else
           (let w = length (packets scanMsg) * SCANS_PER_PACKET K div lasers;
                h = lasers
            in Inr (pc\<lparr> pc_stamp := scan_stamp scanMsg,
                         width := w,
                         height := h,
                         points := resize (points pc) (w * h) nan_point,
                         pc_frame_id :=
                           (if tf_listener rd = None \<or> frame_id (config rd) = []
                            then scan_frame_id scanMsg else frame_id (config rd)) \<rparr>)))"

subsection \<open>The 16-beam decoder: unpack_vlp16\<close>

text \<open>C's \<^verbatim>\<open>round\<close>, which rounds a half away from zero, and the cast \<^verbatim>\<open>(uint8_t)\<close> of a float
  (defined by the language only for values from 0 to 255).\<close>

definition c_round :: "real \<Rightarrow> real" where
  "c_round r = (if 0 \<le> r then of_int \<lfloor>r + 1 / 2\<rfloor> else of_int \<lceil>r - 1 / 2\<rceil>)"

definition float_to_uint8 :: "real \<Rightarrow> real" where
  "float_to_uint8 r = of_int (double_to_int r mod 256)"

text \<open>Lines 462-541, the position of one reading, written out a second time in the source.\<close>

definition vlp16_position ::
  "rawdata_h \<Rightarrow> LaserCorrection \<Rightarrow> real \<Rightarrow> real \<Rightarrow> 16 word \<Rightarrow> real \<times> real \<times> real \<times> real" where
  "vlp16_position K corrections cos_rot sin_rot tmp =
     (let distance = real (unat tmp) * DISTANCE_RESOLUTION K;
          distance = distance + dist_correction corrections;
          cos_vert_angle = cos_vert_correction corrections;
          sin_vert_angle = sin_vert_correction corrections;
          cos_rot_c = cos_rot_correction corrections;
          sin_rot_c = sin_rot_correction corrections;
          cos_rot_angle = cos_rot * cos_rot_c + sin_rot * sin_rot_c;
          sin_rot_angle = sin_rot * cos_rot_c - cos_rot * sin_rot_c;
          horiz_offset = horiz_offset_correction corrections;
          vert_offset = vert_offset_correction corrections;
          xy_distance = distance * cos_vert_angle - vert_offset * sin_vert_angle;
          xx = xy_distance * sin_rot_angle - horiz_offset * cos_rot_angle;
          yy = xy_distance * cos_rot_angle + horiz_offset * sin_rot_angle;
          xx = (if xx < 0 then - xx else xx);
          yy = (if yy < 0 then - yy else yy);
          distance_corr_x =
            (if two_pt_correction_available corrections
             then (dist_correction corrections - dist_correction_x corrections)
                    * (xx - 2.4) / (25.04 - 2.4)
                  + dist_correction_x corrections - dist_correction corrections
             else 0);
          distance_corr_y =
            (if two_pt_correction_available corrections
             then (dist_correction corrections - dist_correction_y corrections)
                    * (yy - 1.93) / (25.04 - 1.93)
                  + dist_correction_y corrections - dist_correction corrections
             else 0);
          distance_x = distance + distance_corr_x;
          xy_distance = distance_x * cos_vert_angle - vert_offset * sin_vert_angle;
          px = xy_distance * sin_rot_angle - horiz_offset * cos_rot_angle;
          distance_y = distance + distance_corr_y;
          xy_distance = distance_y * cos_vert_angle - vert_offset * sin_vert_angle;
          py = xy_distance * cos_rot_angle + horiz_offset * sin_rot_angle;
          pz = distance_y * sin_vert_angle + vert_offset * cos_vert_angle
      in (py, - px, pz, distance))"

text \<open>
  Lines 544-556, the intensity of one reading. Here the distance code is not converted:
  \<^verbatim>\<open>tmp.uint/65535\<close> is a division of integers, and the factor \<^verbatim>\<open>256 * (1 - q) * (1 - q)\<close>
  is an integer.
\<close>

definition vlp16_intensity :: "LaserCorrection \<Rightarrow> 16 word \<Rightarrow> 8 word \<Rightarrow> real" where
  "vlp16_intensity corrections tmp raw_intensity =
     (let min_i = min_intensity corrections;
          max_i = max_intensity corrections;
          intensity = real (unat raw_intensity);
          focal_offset = 256 * (1 - focal_distance corrections / 13100)
                             * (1 - focal_distance corrections / 13100);
          f_slope = focal_slope corrections;
          intensity = intensity + f_slope * \<bar>focal_offset - of_int (256 *
            (1 - uint tmp div 65535) * (1 - uint tmp div 65535))\<bar>;
          intensity = (if intensity < min_i then min_i else intensity);
          intensity = (if intensity > max_i then max_i else intensity)
      in intensity)"

text \<open>Lines 423-430: the azimuth difference of a block and the new value of
  \<^verbatim>\<open>last_azimuth_diff\<close>. The rotation codes are promoted to \<^verbatim>\<open>int\<close>; \<^verbatim>\<open>%\<close> truncates.\<close>

definition vlp16_azimuth_diff :: "rawdata_h \<Rightarrow> raw_packet \<Rightarrow> nat \<Rightarrow> int \<Rightarrow> real \<Rightarrow> real \<times> real" where
  "vlp16_azimuth_diff K rw block i_diff last_azimuth_diff =
     (if int block < int (BLOCKS_PER_PACKET K) - i_diff then
        (let azimuth_diff =
               of_int ((36000 + uint (rotation (blocks rw (nat (int block + i_diff))))
                         - uint (rotation (blocks rw block))) smod 36000)
         in (azimuth_diff, azimuth_diff))
      else (last_azimuth_diff, last_azimuth_diff))"

text \<open>
  Single precision. The type \<^verbatim>\<open>float\<close> is the binary32 format of IEEE 754: 24 significant
  bits and exponents from -126 to 127. The result of an operation is the exact result
  rounded to the nearest number of the format, and of two nearest numbers to the one
  whose last bit is 0. \<open>pow2 e\<close> is \<open>2^e\<close>; \<open>float_exponent r\<close> is the exponent \<open>e\<close> of the
  numbers of the format around \<open>r\<close>: the one with \<open>2^e \<le> |r| < 2^(e + 1)\<close>, but -126 for a
  smaller \<open>r\<close> (the subnormal numbers) and 127 for a larger one; the numbers of the format
  with this exponent are the multiples of \<open>2^(e - 23)\<close>. \<open>float_of r\<close> is the result of the
  rounding. A result beyond the largest number of the format, which the machine replaces
  by an infinity, is not modelled: the values of the decoder are far below it.
\<close>

definition pow2 :: "int \<Rightarrow> real" where
  "pow2 e = (if 0 \<le> e then 2 ^ nat e else 1 / 2 ^ nat (- e))"

fun float_exponent_from :: "nat \<Rightarrow> int \<Rightarrow> real \<Rightarrow> int" where
  "float_exponent_from 0 e a = e"
| "float_exponent_from (Suc n) e a =
     (if pow2 (e + 1) \<le> a then float_exponent_from n (e + 1) a else e)"

definition float_exponent :: "real \<Rightarrow> int" where
  "float_exponent r = float_exponent_from 253 (- 126) \<bar>r\<bar>"

definition round_even :: "real \<Rightarrow> int" where
  "round_even r =
     (let n = \<lfloor>r\<rfloor>
      in if r - of_int n < 1 / 2 then n
         else if 1 / 2 < r - of_int n then n + 1
         else if even n then n else n + 1)"

definition float_of :: "real \<Rightarrow> real" where
  "float_of r = (let q = pow2 (float_exponent r - 23) in of_int (round_even (r / q)) * q)"

text \<open>
  Line 436, the firing time of a beam in its block: the two products and the sum are
  operations on \<^verbatim>\<open>float\<close> values (the loop counters are converted, exactly).
\<close>

definition vlp16_t_beam :: "rawdata_h \<Rightarrow> nat \<Rightarrow> nat \<Rightarrow> real" where
  "vlp16_t_beam K firing dsr =
     float_of (float_of (real dsr * VLP16_DSR_TOFFSET K)
               + float_of (real firing * VLP16_FIRING_TOFFSET K))"

text \<open>
  Lines 447 and 448, the corrected azimuth: the product, the quotient and the sum are
  operations on \<^verbatim>\<open>float\<close> values, in the order in which C groups them; \<^verbatim>\<open>round\<close> of a
  \<^verbatim>\<open>float\<close> is exact. \<open>azimuth\<close> and \<open>azimuth_diff\<close> are the values of the variables of these
  names: integers below \<open>2^16\<close>, which the conversion to \<^verbatim>\<open>float\<close> of lines 423 and 425 does
  not change. The conversion of the rounded sum to \<^verbatim>\<open>int\<close> is taken without the bound of
  31 bits, like the other integers of the embedding.
\<close>

definition vlp16_azimuth_corrected :: "rawdata_h \<Rightarrow> real \<Rightarrow> real \<Rightarrow> nat \<Rightarrow> nat \<Rightarrow> int" where
  "vlp16_azimuth_corrected K azimuth azimuth_diff firing dsr =
     (let t_beam = vlp16_t_beam K firing dsr;
          azimuth_corrected_f =
            float_of (azimuth + float_of (float_of (azimuth_diff * t_beam) / VLP16_BLOCK_TDURATION K))
      in double_to_int (c_round azimuth_corrected_f) smod 36000)"

text \<open>Lines 565-575: the row and the column of a reading.\<close>

definition vlp16_col :: "rawdata_h \<Rightarrow> bool \<Rightarrow> nat \<Rightarrow> nat \<Rightarrow> nat \<Rightarrow> nat" where
  "vlp16_col K dual_return packet block firing =
     (if dual_return
      then packet * BLOCKS_PER_PACKET K * VLP16_FIRINGS_PER_BLOCK K
             + (block div 2) * 2 * VLP16_FIRINGS_PER_BLOCK K
             + firing * 2
             + block mod 2
      else packet * BLOCKS_PER_PACKET K * VLP16_FIRINGS_PER_BLOCK K
             + block * VLP16_FIRINGS_PER_BLOCK K
             + firing)"

text \<open>
  Lines 558-612, the end of the body of the innermost loop: the point with the ring of
  the laser is assigned to the cell, and the position and the intensity are written if
  the range gate and the transform let them. \<open>t_time\<close> is the time stamp given to the
  transform. The assignments that follow one another to the same cell are one update.
\<close>

definition vlp16_store ::
  "rawdata_h \<Rightarrow> RawData \<Rightarrow> VelodyneScan \<Rightarrow> LaserCorrection
     \<Rightarrow> real \<Rightarrow> real \<Rightarrow> real \<Rightarrow> real \<Rightarrow> real \<Rightarrow> real \<Rightarrow> nat
     \<Rightarrow> VPointCloud \<Rightarrow> error + VPointCloud" where
  "vlp16_store K rd scanMsg corrections x_coord y_coord z_coord distance intensity' t_time col pc =
     (let cfg = config rd;
          point = \<lparr> x = None, y = None, z = None, intensity = 0,
                    ring = laser_ring corrections \<rparr>;
          row = int (num_lasers (calibration rd)) - 1 - ring point
      in case pc_assign pc (int col) row (\<lambda>p. point) of
           Inl e \<Rightarrow> Inl e
         | Inr pc \<Rightarrow>
           if \<not> pointInRange cfg distance then Inr pc
           else if tf_listener rd = None \<or> frame_id cfg = [] then
             pc_assign pc (int col) row
               (\<lambda>p. p\<lparr> x := Some x_coord, y := Some y_coord, z := Some z_coord,
                        intensity := float_to_uint8 intensity' \<rparr>)
           else
             (case tf_listener rd of
                None \<Rightarrow> Inr pc
              | Some tf \<Rightarrow>
                (case transformPoint_fixed tf (frame_id cfg) (scan_stamp scanMsg)
                        \<lparr> t_stamp = t_time,
                          t_frame_id = scan_frame_id scanMsg,
                          t_x = x_coord, t_y = y_coord, t_z = z_coord \<rparr>
                        (fixed_frame_id cfg) of
                   None \<Rightarrow> Inr pc
                 | Some t_point \<Rightarrow>
                   pc_assign pc (int col) row
                     (\<lambda>p. p\<lparr> x := Some (t_x t_point), y := Some (t_y t_point),
                              z := Some (t_z t_point),
                              intensity := float_to_uint8 intensity' \<rparr>))))"

text \<open>
  Lines 434-614, one beam \<open>dsr\<close> of firing \<open>firing\<close> of a block. The offset \<open>k\<close>, which the
  source advances by \<^verbatim>\<open>RAW_SCAN_SIZE\<close> with every beam of the block, is written in closed
  form. The line written to the file \<^verbatim>\<open>azimuth_corrected.txt\<close> is left out.
\<close>

definition vlp16_reading ::
  "rawdata_h \<Rightarrow> RawData \<Rightarrow> VelodyneScan \<Rightarrow> nat \<Rightarrow> bool \<Rightarrow> nat \<Rightarrow> real \<Rightarrow> real \<Rightarrow> nat \<Rightarrow> nat
     \<Rightarrow> VPointCloud \<Rightarrow> error + VPointCloud" where
  "vlp16_reading K rd scanMsg packet dual_return block azimuth azimuth_diff firing dsr pc =
     (let pkt = packets scanMsg ! packet;
          blk = blocks (raw pkt) block;
          k = (firing * VLP16_SCANS_PER_FIRING K + dsr) * RAW_SCAN_SIZE K;
          t_beam = vlp16_t_beam K firing dsr;
          corrections = laser_corrections (calibration rd) dsr;
          tmp = two_bytes (data blk k) (data blk (k + 1));
          azimuth_corrected = vlp16_azimuth_corrected K azimuth azimuth_diff firing dsr;
          cfg = config rd
      in if angle_gate azimuth_corrected (min_angle cfg) (max_angle cfg) then
           (case table_lookup K (cos_rot_table rd) azimuth_corrected of
              Inl e \<Rightarrow> Inl e
            | Inr cos_rot \<Rightarrow>
           (case table_lookup K (sin_rot_table rd) azimuth_corrected of
              Inl e \<Rightarrow> Inl e
            | Inr sin_rot \<Rightarrow>
           (let (x_coord, y_coord, z_coord, distance) =
                  vlp16_position K corrections cos_rot sin_rot tmp;
                intensity' = vlp16_intensity corrections tmp (data blk (k + 2))
            in vlp16_store K rd scanMsg corrections x_coord y_coord z_coord distance intensity'
                 (stamp pkt + (real block * VLP16_BLOCK_TDURATION K + t_beam) * (1 / 1000000))
                 (vlp16_col K dual_return packet block firing) pc)))
         else Inr pc)"

text \<open>
  A loop whose body can end the whole function: \<^verbatim>\<open>return\<close> inside the loop over the
  blocks (line 419) leaves the loop over the packets too.
\<close>

datatype 's flow = Continue 's | Return 's

fun for_loop_return :: "nat list \<Rightarrow> (nat \<Rightarrow> 's \<Rightarrow> error + 's flow) \<Rightarrow> 's \<Rightarrow> error + 's flow" where
  "for_loop_return [] body s = Inr (Continue s)"
| "for_loop_return (i # ns) body s =
     (case body i s of
        Inl e \<Rightarrow> Inl e
      | Inr (Return s') \<Rightarrow> Inr (Return s')
      | Inr (Continue s') \<Rightarrow> for_loop_return ns body s')"

text \<open>Lines 411-616, one block: the state is \<^verbatim>\<open>last_azimuth_diff\<close> and the cloud.\<close>

definition vlp16_block ::
  "rawdata_h \<Rightarrow> RawData \<Rightarrow> VelodyneScan \<Rightarrow> nat \<Rightarrow> bool \<Rightarrow> nat
     \<Rightarrow> real \<times> VPointCloud \<Rightarrow> error + (real \<times> VPointCloud) flow" where
  "vlp16_block K rd scanMsg packet dual_return block st =
     (let rw = raw (packets scanMsg ! packet);
          i_diff = 1 + (if dual_return then 1 else 0)
      in if UPPER_BANK K \<noteq> header (blocks rw block) then Inr (Return st)
         else
           (let azimuth = of_int (uint (rotation (blocks rw block)));
                (azimuth_diff, last_azimuth_diff) = vlp16_azimuth_diff K rw block i_diff (fst st)
            in case for_loop [0..<VLP16_FIRINGS_PER_BLOCK K]
                      (\<lambda>firing. for_loop [0..<VLP16_SCANS_PER_FIRING K]
                         (\<lambda>dsr. vlp16_reading K rd scanMsg packet dual_return block
                                   azimuth azimuth_diff firing dsr))
                      (snd st) of
                 Inl e \<Rightarrow> Inl e
               | Inr pc \<Rightarrow> Inr (Continue (last_azimuth_diff, pc))))"

text \<open>Lines 391-617, one packet: the assertion on the packet's time, the return mode
  read from the status bytes, and the loop over the blocks. The index of the status byte
  is written for a \<^verbatim>\<open>PACKET_STATUS_SIZE\<close> of at least 2 (it is 4 in the packet format).\<close>

definition vlp16_packet ::
  "rawdata_h \<Rightarrow> RawData \<Rightarrow> VelodyneScan \<Rightarrow> nat
     \<Rightarrow> real \<times> VPointCloud \<Rightarrow> error + (real \<times> VPointCloud) flow" where
  "vlp16_packet K rd scanMsg packet st =
     (let rw = raw (packets scanMsg ! packet)
      in if \<not> packet_interp_time K rw < 3600 * 1000000 then Inl AssertionFailed
         else
           (let dual_return = (status rw (PACKET_STATUS_SIZE K - 2) = 0x39)
            in for_loop_return [0..<BLOCKS_PER_PACKET K]
                 (\<lambda>block. vlp16_block K rd scanMsg packet dual_return block) st))"

text \<open>Lines 372-388: the header, the dimensions and the frame of the cloud.\<close>

definition vlp16_init :: "rawdata_h \<Rightarrow> RawData \<Rightarrow> VelodyneScan \<Rightarrow> VPointCloud \<Rightarrow> VPointCloud" where
  "vlp16_init K rd scanMsg pc =
     (let w = length (packets scanMsg) * BLOCKS_PER_PACKET K * VLP16_FIRINGS_PER_BLOCK K;
          h = num_lasers (calibration rd)
      in pc\<lparr> pc_stamp := scan_stamp scanMsg,
              width := w,
              height := h,
              points := resize (points pc) (w * h) nan_point,
              pc_frame_id :=
                (if tf_listener rd = None \<or> frame_id (config rd) = []
                 then scan_frame_id scanMsg else frame_id (config rd)) \<rparr>)"

text \<open>
  The decoders. The result is the cloud and whether the warning of an invalid block
  was requested (the decoder then returned early).
\<close>

definition unpack_vlp16 ::
  "rawdata_h \<Rightarrow> RawData \<Rightarrow> VelodyneScan \<Rightarrow> VPointCloud \<Rightarrow> error + VPointCloud \<times> bool" where
  "unpack_vlp16 K rd scanMsg pc =
     (case for_loop_return [0..<length (packets scanMsg)] (\<lambda>packet. vlp16_packet K rd scanMsg packet)
             (0, vlp16_init K rd scanMsg pc) of
        Inl e \<Rightarrow> Inl e
      | Inr (Continue st) \<Rightarrow> Inr (snd st, False)
      | Inr (Return st) \<Rightarrow> Inr (snd st, True))"

definition unpack ::
  "rawdata_h \<Rightarrow> RawData \<Rightarrow> VelodyneScan \<Rightarrow> VPointCloud \<Rightarrow> error + VPointCloud \<times> bool" where
  "unpack K rd scanMsg pc =
     (if num_lasers (calibration rd) = 16 then unpack_vlp16 K rd scanMsg pc
      else
        (case unpack_init K rd scanMsg pc of
           Inl e \<Rightarrow> Inl e
         | Inr pc0 \<Rightarrow>
           (case unpack_packets K rd scanMsg (0, pc0) of
              Inl e \<Rightarrow> Inl e
            | Inr st \<Rightarrow> Inr (snd st, False))))"

subsection \<open>The warning of an invalid block\<close>

text \<open>
  \<^verbatim>\<open>ROS_WARN_STREAM_THROTTLE\<close>, the macro of the logging library (rosconsole) that line 416
  uses with the period \<^verbatim>\<open>LOG_PERIOD_\<close>. The statement has a static variable for the time of
  its last output, which is 0 when the program starts. When it is reached it reads the
  clock; it prints if the time now is at least one period after the last output (or is
  before the last output, the clock having been set back), and then stores the time now.
  The clock is a parameter: \<open>now\<close> is the time at which the statement is reached. The
  result is whether the message is printed, and the new value of the static variable.
\<close>

definition ROS_WARN_STREAM_THROTTLE :: "real \<Rightarrow> real \<Rightarrow> real \<Rightarrow> bool \<times> real" where
  "ROS_WARN_STREAM_THROTTLE period now last_hit =
     (if last_hit + period \<le> now \<or> now < last_hit then (True, now) else (False, last_hit))"

text \<open>
  The 16-beam decoder with the warning statement. \<open>unpack_vlp16\<close> reports whether it has
  reached line 416, which it does at most once in a call and as its last step; the
  statement is run then. The result is the cloud, whether the warning is printed, and
  the static variable of the statement after the call.
\<close>

definition unpack_vlp16_warn ::
  "rawdata_h \<Rightarrow> RawData \<Rightarrow> VelodyneScan \<Rightarrow> real \<Rightarrow> real \<Rightarrow> VPointCloud
     \<Rightarrow> error + VPointCloud \<times> bool \<times> real" where
  "unpack_vlp16_warn K rd scanMsg now last_hit pc =
     (case unpack_vlp16 K rd scanMsg pc of
        Inl e \<Rightarrow> Inl e
      | Inr r \<Rightarrow>
          if snd r then Inr (fst r, ROS_WARN_STREAM_THROTTLE (LOG_PERIOD K) now last_hit)
          else Inr (fst r, False, last_hit))"

text \<open>
  Calls of the decoder one after the other in one program, each with its time, its scan
  and its cloud: the times at which the warning is printed. An error ends the program.
\<close>

fun unpack_vlp16_calls ::
  "rawdata_h \<Rightarrow> RawData \<Rightarrow> (real \<times> VelodyneScan \<times> VPointCloud) list \<Rightarrow> real \<Rightarrow> real list" where
  "unpack_vlp16_calls K rd [] last_hit = []"
| "unpack_vlp16_calls K rd (c # cs) last_hit =
     (case unpack_vlp16_warn K rd (fst (snd c)) (fst c) last_hit (snd (snd c)) of
        Inl e \<Rightarrow> []
      | Inr r \<Rightarrow>
          (if fst (snd r) then [fst c] else [])
          @ unpack_vlp16_calls K rd cs (snd (snd r)))"

subsection \<open>Set-up\<close>

text \<open>
  Lines 96-131. The parameter server, the package path and the calibration reader are
  parameters: \<open>calibration_param\<close> is the value of the parameter \<^verbatim>\<open>calibration\<close> if it is
  set, \<open>pkgPath\<close> the path of the package, and \<open>read f c\<close> the calibration that
  \<^verbatim>\<open>Calibration::read\<close> leaves when it is called on \<open>c\<close> with the file \<open>f\<close>. The result is the
  returned code, the decoder object, and the messages of level error in the order in
  which they are logged. The two messages of level info and the opening of the file
  \<^verbatim>\<open>azimuth_corrected.txt\<close> are left out. The counter of the loop over the tables has 16
  bits: the loop is written for a \<^verbatim>\<open>ROTATION_MAX_UNITS\<close> that the counter can reach.
\<close>

definition from_degrees :: "real \<Rightarrow> real" where
  "from_degrees d = d * pi / 180"

definition RawData_setup ::
  "rawdata_h \<Rightarrow> string option \<Rightarrow> string \<Rightarrow> (string \<Rightarrow> Calibration \<Rightarrow> Calibration)
     \<Rightarrow> TransformListener option \<Rightarrow> RawData \<Rightarrow> int \<times> RawData \<times> string list" where
  "RawData_setup K calibration_param pkgPath read tf rd =
     (let file = (case calibration_param of
                    Some f \<Rightarrow> f
                  | None \<Rightarrow> pkgPath @ ''/params/64e_utexas.yaml'');
          log = (case calibration_param of
                   Some f \<Rightarrow> []
                 | None \<Rightarrow> [''No calibration angles specified! Using test values!'']);
          rd = rd\<lparr> config := (config rd)\<lparr> calibrationFile := file \<rparr> \<rparr>;
          rd = rd\<lparr> calibration := read file (calibration rd) \<rparr>
      in if \<not> initialized (calibration rd) then
           (- 1, rd, log @ [''Unable to open calibration file: '' @ file])
         else
           (0, rd\<lparr> cos_rot_table :=
                      (\<lambda>rot_index. if rot_index < ROTATION_MAX_UNITS K
                         then cos (from_degrees (ROTATION_RESOLUTION K * real rot_index))
                         else cos_rot_table rd rot_index),
                    sin_rot_table :=
                      (\<lambda>rot_index. if rot_index < ROTATION_MAX_UNITS K
                         then sin (from_degrees (ROTATION_RESOLUTION K * real rot_index))
                         else sin_rot_table rd rot_index),
                    tf_listener := tf \<rparr>, log))"

subsection \<open>The readings of a scan in the order of the legacy decoder\<close>

text \<open>
  The specification's view of the legacy decoder: the readings of a scan, each named by
  its packet, block and position in the block, in the order packets, blocks, readings;
  the readings whose block passes the angle gate; and the body of the innermost loop
  folded over a list of readings.
\<close>

definition legacy_readings :: "rawdata_h \<Rightarrow> VelodyneScan \<Rightarrow> (nat \<times> nat \<times> nat) list" where
  "legacy_readings K scanMsg =
     concat (map (\<lambda>next.
       concat (map (\<lambda>i. map (\<lambda>j. (next, i, j)) [0..<SCANS_PER_BLOCK K])
                 [0..<BLOCKS_PER_PACKET K]))
       [0..<length (packets scanMsg)])"

definition legacy_gated :: "RawData \<Rightarrow> VelodyneScan \<Rightarrow> nat \<times> nat \<times> nat \<Rightarrow> bool" where
  "legacy_gated rd scanMsg r =
     angle_gate (uint (rotation (blocks (raw (packets scanMsg ! fst r)) (fst (snd r)))))
       (min_angle (config rd)) (max_angle (config rd))"

definition legacy_fold ::
  "rawdata_h \<Rightarrow> RawData \<Rightarrow> VelodyneScan \<Rightarrow> (nat \<times> nat \<times> nat) list
     \<Rightarrow> nat \<times> VPointCloud \<Rightarrow> error + nat \<times> VPointCloud" where
  "legacy_fold K rd scanMsg rs =
     for_loop rs (\<lambda>r. unpack_reading K rd scanMsg (packets scanMsg ! fst r) (fst (snd r)) (snd (snd r)))"

subsection \<open>Example values\<close>

text \<open>
  Values for the examples: the constants of the Velodyne packet format (twelve blocks of
  32 readings of three bytes in a packet; two firings of 16 beams in a block of the
  16-beam device; for the duration of a block, the time between two beams and the time
  between two firings the numbers of the single precision format that are nearest to
  110.592, 2.304 and 55.296, which are \<open>14495515 / 2^17\<close>, \<open>9663676 / 2^22\<close> and
  \<open>14495515 / 2^18\<close>), a laser calibration, a decoder object whose tables are those that
  the set-up step builds, and a scan of one packet whose readings all have the distance
  code 1000 and the reflectivity 100.
\<close>

definition velodyne_h :: rawdata_h where
  "velodyne_h =
     \<lparr> RAW_SCAN_SIZE = 3, SCANS_PER_BLOCK = 32, ROTATION_RESOLUTION = 0.01,
       ROTATION_MAX_UNITS = 36000, DISTANCE_RESOLUTION = 0.002,
       UPPER_BANK = 0xeeff, LOWER_BANK = 0xddff,
       VLP16_FIRINGS_PER_BLOCK = 2, VLP16_SCANS_PER_FIRING = 16,
       VLP16_BLOCK_TDURATION = 14495515 / 131072, VLP16_DSR_TOFFSET = 9663676 / 4194304,
       VLP16_FIRING_TOFFSET = 14495515 / 262144,
       BLOCKS_PER_PACKET = 12, PACKET_STATUS_SIZE = 4, SCANS_PER_PACKET = 384,
       LOG_PERIOD = 1, packet_interp_time = (\<lambda>p. 0) \<rparr>"

definition example_correction :: LaserCorrection where
  "example_correction =
     \<lparr> dist_correction = 0, two_pt_correction_available = False,
       dist_correction_x = 0, dist_correction_y = 0,
       vert_offset_correction = 0, horiz_offset_correction = 0,
       max_intensity = 255, min_intensity = 0, focal_distance = 0, focal_slope = 1,
       cos_rot_correction = 1, sin_rot_correction = 0,
       cos_vert_correction = 1, sin_vert_correction = 0, laser_ring = 0 \<rparr>"

definition example_config :: Config where
  "example_config =
     \<lparr> calibrationFile = [], min_range = 0.4, max_range = 130,
       min_angle = 0, max_angle = 36000, tmp_min_angle = 0, tmp_max_angle = 0,
       frame_id = [], fixed_frame_id = [] \<rparr>"

definition example_calibration :: "nat \<Rightarrow> Calibration" where
  "example_calibration lasers =
     \<lparr> laser_corrections = (\<lambda>k. example_correction\<lparr> laser_ring := int (k mod lasers) \<rparr>),
       num_lasers = lasers, initialized = True \<rparr>"

definition example_rd :: "nat \<Rightarrow> RawData" where
  "example_rd lasers =
     \<lparr> config = example_config, calibration = example_calibration lasers,
       sin_rot_table = (\<lambda>i. sin (from_degrees (0.01 * real i))),
       cos_rot_table = (\<lambda>i. cos (from_degrees (0.01 * real i))),
       tf_listener = None \<rparr>"

definition example_block :: raw_block where
  "example_block =
     \<lparr> header = 0xeeff, rotation = 0,
       data = (\<lambda>k. if k mod 3 = 0 then 0xE8 else if k mod 3 = 1 then 0x03 else 100) \<rparr>"

definition example_packet :: VelodynePacket where
  "example_packet =
     \<lparr> stamp = 0,
       raw = \<lparr> blocks = (\<lambda>i. example_block), revolution = 0, status = (\<lambda>i. 0x37) \<rparr> \<rparr>"

definition example_scan :: VelodyneScan where
  "example_scan = \<lparr> scan_stamp = 0, scan_frame_id = ''velodyne'', packets = [example_packet] \<rparr>"

definition empty_cloud :: VPointCloud where
  "empty_cloud = \<lparr> pc_stamp = 0, pc_frame_id = [], width = 0, height = 0, points = [] \<rparr>"

text \<open>A packet of the 16-beam device whose first block is 10 hundredths of a degree
  before the full turn and whose other blocks are 30 hundredths after it.\<close>

definition example_turn :: raw_packet where
  "example_turn =
     \<lparr> blocks = (\<lambda>i. example_block\<lparr> rotation := (if i = 0 then 35990 else 30) \<rparr>),
       revolution = 0, status = (\<lambda>i. 0x37) \<rparr>"

text \<open>A scan of the 16-beam device whose first block is at 100 hundredths of a degree and
  whose other blocks are at 140.\<close>

definition example_window_scan :: VelodyneScan where
  "example_window_scan =
     example_scan\<lparr> packets :=
       [example_packet\<lparr> raw := (raw example_packet)\<lparr> blocks :=
          (\<lambda>i. example_block\<lparr> rotation := (if i = 0 then 100 else 140) \<rparr>) \<rparr> \<rparr>] \<rparr>"

text \<open>A decoder of 32 beams whose calibration gives the ring 99 to the laser numbers after
  those of the 32 beams, and a scan whose blocks carry the marker of the lower bank.\<close>

definition example_rd_32 :: RawData where
  "example_rd_32 =
     (example_rd 32)\<lparr> calibration := (example_calibration 32)\<lparr> laser_corrections :=
        (\<lambda>k. example_correction\<lparr> laser_ring := (if k < 32 then int k else 99) \<rparr>) \<rparr> \<rparr>"

definition example_lower_scan :: VelodyneScan where
  "example_lower_scan =
     example_scan\<lparr> packets :=
       [example_packet\<lparr> raw := (raw example_packet)\<lparr> blocks :=
          (\<lambda>i. example_block\<lparr> header := 0xddff \<rparr>) \<rparr> \<rparr>] \<rparr>"

text \<open>The calibration file that the set-up step reads (lines 99-106).\<close>

definition setup_file :: "string option \<Rightarrow> string \<Rightarrow> string" where
  "setup_file calibration_param pkgPath =
     (case calibration_param of Some f \<Rightarrow> f | None \<Rightarrow> pkgPath @ ''/params/64e_utexas.yaml'')"

text \<open>A calibration reader for the examples: two files can be read, any other cannot.\<close>

definition example_read :: "string \<Rightarrow> Calibration \<Rightarrow> Calibration" where
  "example_read f c =
     (if f = ''/opt/velodyne_pointcloud/params/64e_utexas.yaml'' then example_calibration 64
      else if f = ''/opt/five.yaml'' then example_calibration 5
      else c\<lparr> initialized := False \<rparr>)"

subsection \<open>Values of a reading, for the statements\<close>

text \<open>
  Names for values that the bodies of the loops compute: the corrected distance that
  the range gate tests (lines 203-204 and 462-463), the calibration and the distance
  code of a reading of the legacy layout (lines 186-194), and the value of the cell of
  a reading after the writes of lines 308-353 (legacy decoder, from the cell's value
  before) and of lines 559-612 (16-beam decoder).
\<close>

definition reading_distance :: "rawdata_h \<Rightarrow> LaserCorrection \<Rightarrow> 16 word \<Rightarrow> real" where
  "reading_distance K corrections tmp =
     real (unat tmp) * DISTANCE_RESOLUTION K + dist_correction corrections"

definition unpack_corrections :: "rawdata_h \<Rightarrow> RawData \<Rightarrow> VelodynePacket \<Rightarrow> nat \<Rightarrow> nat \<Rightarrow> LaserCorrection" where
  "unpack_corrections K rd pkt i j =
     laser_corrections (calibration rd) (unpack_laser K (blocks (raw pkt) i) j)"

definition unpack_code :: "rawdata_h \<Rightarrow> VelodynePacket \<Rightarrow> nat \<Rightarrow> nat \<Rightarrow> 16 word" where
  "unpack_code K pkt i j =
     two_bytes (data (blocks (raw pkt) i) (j * RAW_SCAN_SIZE K))
       (data (blocks (raw pkt) i) (j * RAW_SCAN_SIZE K + 1))"

definition vlp16_code :: "rawdata_h \<Rightarrow> VelodynePacket \<Rightarrow> nat \<Rightarrow> nat \<Rightarrow> nat \<Rightarrow> 16 word" where
  "vlp16_code K pkt block firing dsr =
     two_bytes
       (data (blocks (raw pkt) block) ((firing * VLP16_SCANS_PER_FIRING K + dsr) * RAW_SCAN_SIZE K))
       (data (blocks (raw pkt) block) ((firing * VLP16_SCANS_PER_FIRING K + dsr) * RAW_SCAN_SIZE K + 1))"

definition unpack_cell ::
  "RawData \<Rightarrow> VelodyneScan \<Rightarrow> VelodynePacket \<Rightarrow> LaserCorrection
     \<Rightarrow> real \<Rightarrow> real \<Rightarrow> real \<Rightarrow> real \<Rightarrow> real \<Rightarrow> string \<Rightarrow> VPoint \<Rightarrow> VPoint" where
  "unpack_cell rd scanMsg pkt corrections x_coord y_coord z_coord distance intensity' target p =
     (let p0 = p\<lparr> ring := laser_ring corrections \<rparr>;
          p1 = p0\<lparr> intensity := intensity' \<rparr>
      in if \<not> pointInRange (config rd) distance then p0
         else if tf_listener rd = None \<or> frame_id (config rd) = [] then
           p1\<lparr> x := Some x_coord, y := Some y_coord, z := Some z_coord \<rparr>
         else
           (case tf_listener rd of
              None \<Rightarrow> p1
            | Some tf \<Rightarrow>
              (case transformPoint tf target
                      \<lparr> t_stamp = stamp pkt, t_frame_id = scan_frame_id scanMsg,
                        t_x = x_coord, t_y = y_coord, t_z = z_coord \<rparr> of
                 None \<Rightarrow> p1
               | Some t_point \<Rightarrow>
                 p1\<lparr> x := Some (t_x t_point), y := Some (t_y t_point),
                      z := Some (t_z t_point) \<rparr>)))"

definition vlp16_cell ::
  "RawData \<Rightarrow> VelodyneScan \<Rightarrow> LaserCorrection
     \<Rightarrow> real \<Rightarrow> real \<Rightarrow> real \<Rightarrow> real \<Rightarrow> real \<Rightarrow> real \<Rightarrow> VPoint" where
  "vlp16_cell rd scanMsg corrections x_coord y_coord z_coord distance intensity' t_time =
     (let point = \<lparr> x = None, y = None, z = None, intensity = 0,
                    ring = laser_ring corrections \<rparr>;
          full = point\<lparr> intensity := float_to_uint8 intensity' \<rparr>
      in if \<not> pointInRange (config rd) distance then point
         else if tf_listener rd = None \<or> frame_id (config rd) = [] then
           full\<lparr> x := Some x_coord, y := Some y_coord, z := Some z_coord \<rparr>
         else
           (case tf_listener rd of
              None \<Rightarrow> point
            | Some tf \<Rightarrow>
              (case transformPoint_fixed tf (frame_id (config rd)) (scan_stamp scanMsg)
                      \<lparr> t_stamp = t_time, t_frame_id = scan_frame_id scanMsg,
                        t_x = x_coord, t_y = y_coord, t_z = z_coord \<rparr>
                      (fixed_frame_id (config rd)) of
                 None \<Rightarrow> point
               | Some t_point \<Rightarrow>
                 full\<lparr> x := Some (t_x t_point), y := Some (t_y t_point),
                        z := Some (t_z t_point) \<rparr>)))"

text \<open>
  The value that a decoder leaves in the cell of a reading that passes the angle gate,
  the values of the reading put together. In the 16-beam decoder the calibration of the
  beam, the distance code, the position computed with the table entries of the corrected
  azimuth, the intensity and the time given to the transform are those of lines 436-556
  and 593; in the legacy decoder the table entries are those of the rotation code of the
  block (lines 186-299), \<open>target\<close> is the frame of the cloud and \<open>p\<close> the value of the cell
  before.
\<close>

definition vlp16_written ::
  "rawdata_h \<Rightarrow> RawData \<Rightarrow> VelodyneScan \<Rightarrow> nat \<Rightarrow> nat \<Rightarrow> real \<Rightarrow> real \<Rightarrow> nat \<Rightarrow> nat \<Rightarrow> VPoint" where
  "vlp16_written K rd scanMsg packet block az d firing dsr =
     (let pkt = packets scanMsg ! packet;
          c = laser_corrections (calibration rd) dsr;
          tmp = vlp16_code K pkt block firing dsr;
          r = nat (vlp16_azimuth_corrected K az d firing dsr);
          pos = vlp16_position K c (cos_rot_table rd r) (sin_rot_table rd r) tmp
      in vlp16_cell rd scanMsg c (fst pos) (fst (snd pos)) (fst (snd (snd pos)))
           (reading_distance K c tmp)
           (vlp16_intensity c tmp
              (data (blocks (raw pkt) block)
                 ((firing * VLP16_SCANS_PER_FIRING K + dsr) * RAW_SCAN_SIZE K + 2)))
           (stamp pkt + (real block * VLP16_BLOCK_TDURATION K + vlp16_t_beam K firing dsr)
                          * (1 / 1000000)))"

definition unpack_written ::
  "rawdata_h \<Rightarrow> RawData \<Rightarrow> VelodyneScan \<Rightarrow> VelodynePacket \<Rightarrow> nat \<Rightarrow> nat \<Rightarrow> string \<Rightarrow> VPoint \<Rightarrow> VPoint" where
  "unpack_written K rd scanMsg pkt i j target p =
     (let c = unpack_corrections K rd pkt i j;
          tmp = unpack_code K pkt i j;
          r = nat (uint (rotation (blocks (raw pkt) i)));
          pos = unpack_position K c (cos_rot_table rd r) (sin_rot_table rd r) tmp
      in unpack_cell rd scanMsg pkt c (fst pos) (fst (snd pos)) (fst (snd (snd pos)))
           (reading_distance K c tmp)
           (unpack_intensity c tmp (data (blocks (raw pkt) i) (j * RAW_SCAN_SIZE K + 2)))
           target p)"

text \<open>More example values: a cloud of default points, a transform listener that always
  fails, and the intensity of the reading of the example packet in the legacy decoder.\<close>

definition example_cloud :: "nat \<Rightarrow> nat \<Rightarrow> VPointCloud" where
  "example_cloud w h =
     \<lparr> pc_stamp = 0, pc_frame_id = ''velodyne'', width = w, height = h,
       points = replicate (w * h) nan_point \<rparr>"

definition failing_listener :: TransformListener where
  "failing_listener =
     \<lparr> transformPoint = (\<lambda>target p. None),
       transformPoint_fixed = (\<lambda>target t p fixed. None) \<rparr>"

definition example_intensity :: real where
  "example_intensity = 100 + (256 - 256 * (64535 / 65535) * (64535 / 65535))"

subsection \<open>Conditions of the bounds\<close>

text \<open>
  Predicates for the statements about bounds: a cloud with the given width and height
  and as many points as cells; a calibration that gives every beam, from 0 to
  \<open>num_lasers - 1\<close>, a ring in \<open>[0, num_lasers)\<close>; a scan for which every laser number that
  the decoder looks up in the calibration is the number of a beam (in the legacy decoder
  the position of the reading in its block, plus 32 in a block of the lower bank; in the
  16-beam decoder the numbers below \<^verbatim>\<open>VLP16_SCANS_PER_FIRING\<close>); timing constants of the
  16-beam device that are not negative, with a positive block duration; a set of columns
  outside of which every cell of the cloud holds the default point; the state of the
  16-beam decoder with a non-negative last azimuth difference; a result of a loop that
  is an error of a given kind or a state with a given property; the return mode of a
  packet (line 403); the width that the 16-beam decoder gives the cloud (line 376); and
  a scan whose rotation codes are all below 36000.
\<close>

definition cloud_dims :: "nat \<Rightarrow> nat \<Rightarrow> VPointCloud \<Rightarrow> bool" where
  "cloud_dims w h pc = (width pc = w \<and> height pc = h \<and> length (points pc) = w * h)"

definition rings_valid :: "RawData \<Rightarrow> bool" where
  "rings_valid rd =
     (\<forall>k. k < num_lasers (calibration rd) \<longrightarrow>
          0 \<le> laser_ring (laser_corrections (calibration rd) k) \<and>
          laser_ring (laser_corrections (calibration rd) k) < int (num_lasers (calibration rd)))"

definition legacy_lasers_valid :: "rawdata_h \<Rightarrow> RawData \<Rightarrow> VelodyneScan \<Rightarrow> bool" where
  "legacy_lasers_valid K rd scanMsg =
     (\<forall>packet block j.
        packet < length (packets scanMsg) \<and> block < BLOCKS_PER_PACKET K \<and> j < SCANS_PER_BLOCK K \<longrightarrow>
          unpack_laser K (blocks (raw (packets scanMsg ! packet)) block) j
            < num_lasers (calibration rd))"

definition vlp16_lasers_valid :: "rawdata_h \<Rightarrow> RawData \<Rightarrow> bool" where
  "vlp16_lasers_valid K rd = (VLP16_SCANS_PER_FIRING K \<le> num_lasers (calibration rd))"

definition lasers_valid :: "rawdata_h \<Rightarrow> RawData \<Rightarrow> VelodyneScan \<Rightarrow> bool" where
  "lasers_valid K rd scanMsg =
     (if num_lasers (calibration rd) = 16 then vlp16_lasers_valid K rd
      else legacy_lasers_valid K rd scanMsg)"

definition timing_valid :: "rawdata_h \<Rightarrow> bool" where
  "timing_valid K =
     (0 \<le> VLP16_DSR_TOFFSET K \<and> 0 \<le> VLP16_FIRING_TOFFSET K \<and> 0 < VLP16_BLOCK_TDURATION K)"

definition untouched :: "nat set \<Rightarrow> VPointCloud \<Rightarrow> bool" where
  "untouched C pc =
     (\<forall>m. m < length (points pc) \<and> m mod width pc \<notin> C \<longrightarrow> points pc ! m = nan_point)"

definition cloud_inv :: "nat \<Rightarrow> nat \<Rightarrow> nat set \<Rightarrow> VPointCloud \<Rightarrow> bool" where
  "cloud_inv w h C pc = (cloud_dims w h pc \<and> untouched C pc)"

definition vlp16_inv :: "nat \<Rightarrow> nat \<Rightarrow> nat set \<Rightarrow> real \<times> VPointCloud \<Rightarrow> bool" where
  "vlp16_inv w h C st = (0 \<le> fst st \<and> cloud_inv w h C (snd st))"

definition flow_ok :: "(error \<Rightarrow> bool) \<Rightarrow> ('s \<Rightarrow> bool) \<Rightarrow> error + 's flow \<Rightarrow> bool" where
  "flow_ok E I r = (case r of Inl e \<Rightarrow> E e | Inr (Continue s) \<Rightarrow> I s | Inr (Return s) \<Rightarrow> I s)"

definition vlp16_dual :: "rawdata_h \<Rightarrow> VelodyneScan \<Rightarrow> nat \<Rightarrow> bool" where
  "vlp16_dual K scanMsg packet =
     (status (raw (packets scanMsg ! packet)) (PACKET_STATUS_SIZE K - 2) = 0x39)"

definition vlp16_width :: "rawdata_h \<Rightarrow> VelodyneScan \<Rightarrow> nat" where
  "vlp16_width K scanMsg =
     length (packets scanMsg) * BLOCKS_PER_PACKET K * VLP16_FIRINGS_PER_BLOCK K"

definition rotations_valid :: "rawdata_h \<Rightarrow> VelodyneScan \<Rightarrow> bool" where
  "rotations_valid K scanMsg =
     (\<forall>packet block. packet < length (packets scanMsg) \<and> block < BLOCKS_PER_PACKET K \<longrightarrow>
        uint (rotation (blocks (raw (packets scanMsg ! packet)) block)) < 36000)"

subsection \<open>The blocks before an invalid block\<close>

text \<open>
  For the statement about an invalid block \<open>b\<close> of packet \<open>q\<close>: the columns of the readings
  of the blocks that come before it in the scan, the condition that these blocks carry
  the marker of the upper bank, the condition that their rotation codes are below 36000,
  and the condition that the assertion on the time holds for the packets up to \<open>q\<close>.
  \<open>spaced p ts\<close> says of a list of times in the order of their events that any two of
  them are at least \<open>p\<close> apart. The last definition is an example: a scan of one packet
  whose block 3 has the header 0 and the rotation code 40000.
\<close>

definition columns_before :: "rawdata_h \<Rightarrow> VelodyneScan \<Rightarrow> nat \<Rightarrow> nat \<Rightarrow> nat set" where
  "columns_before K scanMsg q b =
     {c. \<exists>packet block firing.
           c = vlp16_col K (vlp16_dual K scanMsg packet) packet block firing \<and>
           firing < VLP16_FIRINGS_PER_BLOCK K \<and> block < BLOCKS_PER_PACKET K \<and>
           (packet < q \<or> packet = q \<and> block < b)}"

definition headers_valid_before :: "rawdata_h \<Rightarrow> VelodyneScan \<Rightarrow> nat \<Rightarrow> nat \<Rightarrow> bool" where
  "headers_valid_before K scanMsg q b =
     (\<forall>packet block. block < BLOCKS_PER_PACKET K \<and> (packet < q \<or> packet = q \<and> block < b) \<longrightarrow>
        UPPER_BANK K = header (blocks (raw (packets scanMsg ! packet)) block))"

definition rotations_valid_before :: "rawdata_h \<Rightarrow> VelodyneScan \<Rightarrow> nat \<Rightarrow> nat \<Rightarrow> bool" where
  "rotations_valid_before K scanMsg q b =
     (\<forall>packet block. block < BLOCKS_PER_PACKET K \<and> (packet < q \<or> packet = q \<and> block < b) \<longrightarrow>
        uint (rotation (blocks (raw (packets scanMsg ! packet)) block)) < 36000)"

fun spaced :: "real \<Rightarrow> real list \<Rightarrow> bool" where
  "spaced p [] = True"
| "spaced p (t # ts) = ((\<forall>u \<in> set ts. t + p \<le> u) \<and> spaced p ts)"

definition times_valid_upto :: "rawdata_h \<Rightarrow> VelodyneScan \<Rightarrow> nat \<Rightarrow> bool" where
  "times_valid_upto K scanMsg q =
     (\<forall>packet. packet \<le> q \<longrightarrow>
        packet_interp_time K (raw (packets scanMsg ! packet)) < 3600 * 1000000)"

definition example_bad_scan :: VelodyneScan where
  "example_bad_scan =
     example_scan\<lparr> packets :=
       [example_packet\<lparr> raw := (raw example_packet)\<lparr> blocks :=
          (\<lambda>i. if i = 3 then example_block\<lparr> header := 0, rotation := 40000 \<rparr>
               else example_block) \<rparr> \<rparr>] \<rparr>"

section \<open>Properties\<close>

subsection \<open>The two copies of the correction model\<close>

lemma position_paths_agree:
  "vlp16_position K c cr sr tmp = unpack_position K c cr sr tmp"
  unfolding vlp16_position_def unpack_position_def by (rule refl)

text \<open>
  C1. The claim is that both decoders compute the same coordinates and the same clamped
  intensity, with the quotient of the distance code by 65535 taken as a real number.
  The coordinates agree (\<open>position_paths_agree\<close>), the intensities do not: for the
  distance code 32768 and the reflectivity 10, with focal distance 0 and focal slope 1,
  the 16-beam decoder divides integers, gets the quotient 0 and leaves the intensity at
  10, where the legacy decoder adds about 192.
\<close>

theorem intensity_paths_differ:
  "vlp16_intensity example_correction 32768 10 = 10 \<and>
   unpack_intensity example_correction 32768 10
     = 10 + (256 - 256 * (32767 / 65535) * (32767 / 65535)) \<and>
   unpack_intensity example_correction 32768 10 > 202 \<and>
   vlp16_position K example_correction cr sr 32768
     = unpack_position K example_correction cr sr 32768"
  apply (intro conjI)
     apply (simp add: vlp16_intensity_def example_correction_def Let_def)
    apply (simp add: unpack_intensity_def example_correction_def Let_def)
   apply (simp add: unpack_intensity_def example_correction_def Let_def)
  apply (rule position_paths_agree)
  done

subsection \<open>Single precision\<close>

lemma pow2_powr: "pow2 e = 2 powr (of_int e)"
proof (cases "0 \<le> e")
  case True
  then show ?thesis by (simp add: pow2_def powr_realpow [symmetric])
next
  case False
  then have "pow2 e = 1 / 2 ^ nat (- e)" by (simp add: pow2_def)
  also have "\<dots> = 1 / 2 powr (of_int (- e))"
    using False by (simp add: powr_realpow [symmetric])
  also have "\<dots> = 2 powr (of_int e)" by (simp add: powr_minus divide_inverse)
  finally show ?thesis .
qed

lemma pow2_pos: "0 < pow2 e"
  by (simp add: pow2_powr)

lemma pow2_mono: "e \<le> e' \<Longrightarrow> pow2 e \<le> pow2 e'"
  by (simp add: pow2_powr)

lemma float_exponent_from_eq:
  "e0 \<le> e \<Longrightarrow> nat (e - e0) \<le> n \<Longrightarrow> a < pow2 (e + 1) \<Longrightarrow> (e0 < e \<Longrightarrow> pow2 e \<le> a)
     \<Longrightarrow> float_exponent_from n e0 a = e"
proof (induction n arbitrary: e0)
  case 0
  then show ?case by simp
next
  case (Suc n)
  show ?case
  proof (cases "e0 = e")
    case True
    with Suc.prems(3) show ?thesis by simp
  next
    case False
    with Suc.prems(1) have lt: "e0 < e" by simp
    then have "pow2 (e0 + 1) \<le> pow2 e" by (intro pow2_mono) simp
    with Suc.prems(4) [OF lt] have "pow2 (e0 + 1) \<le> a" by simp
    moreover have "float_exponent_from n (e0 + 1) a = e"
      using Suc.prems lt by (intro Suc.IH) simp_all
    ultimately show ?thesis by simp
  qed
qed

lemma float_exponent_eq:
  assumes "- 126 \<le> e" "e \<le> 127" "pow2 e \<le> \<bar>r\<bar>" "\<bar>r\<bar> < pow2 (e + 1)"
  shows "float_exponent r = e"
  unfolding float_exponent_def
  using assms by (intro float_exponent_from_eq) simp_all

lemma float_of_eq:
  assumes "- 126 \<le> e" "e \<le> 127" "pow2 e \<le> \<bar>r\<bar>" "\<bar>r\<bar> < pow2 (e + 1)"
  shows "float_of r = of_int (round_even (r / pow2 (e - 23))) * pow2 (e - 23)"
  by (simp add: float_of_def Let_def float_exponent_eq [OF assms])

lemma float_of_zero: "float_of 0 = 0"
  by (simp add: float_of_def round_even_def)

lemma round_even_nonneg: "0 \<le> r \<Longrightarrow> 0 \<le> round_even r"
  by (simp add: round_even_def Let_def)

lemma float_of_nonneg: "0 \<le> r \<Longrightarrow> 0 \<le> float_of r"
  unfolding float_of_def Let_def
  by (intro mult_nonneg_nonneg of_int_nonneg round_even_nonneg divide_nonneg_pos pow2_pos
      less_imp_le [OF pow2_pos])

lemma velodyne_h_simps:
  "RAW_SCAN_SIZE velodyne_h = 3" "SCANS_PER_BLOCK velodyne_h = 32"
  "ROTATION_MAX_UNITS velodyne_h = 36000" "DISTANCE_RESOLUTION velodyne_h = 0.002"
  "UPPER_BANK velodyne_h = 0xeeff" "LOWER_BANK velodyne_h = 0xddff"
  "VLP16_FIRINGS_PER_BLOCK velodyne_h = 2" "VLP16_SCANS_PER_FIRING velodyne_h = 16"
  "VLP16_BLOCK_TDURATION velodyne_h = 14495515 / 131072"
  "VLP16_DSR_TOFFSET velodyne_h = 9663676 / 4194304"
  "VLP16_FIRING_TOFFSET velodyne_h = 14495515 / 262144" "BLOCKS_PER_PACKET velodyne_h = 12"
  "PACKET_STATUS_SIZE velodyne_h = 4" "SCANS_PER_PACKET velodyne_h = 384"
  "LOG_PERIOD velodyne_h = 1" "packet_interp_time velodyne_h p = 0"
  by (simp_all add: velodyne_h_def)

text \<open>The constants of the example are numbers of the format, the nearest to the decimal ones.\<close>

lemma velodyne_h_floats:
  "float_of 110.592 = VLP16_BLOCK_TDURATION velodyne_h"
  "float_of 2.304 = VLP16_DSR_TOFFSET velodyne_h"
  "float_of 55.296 = VLP16_FIRING_TOFFSET velodyne_h"
    apply (subst float_of_eq [where e = 6]; simp add: pow2_def round_even_def velodyne_h_simps)
   apply (subst float_of_eq [where e = 1]; simp add: pow2_def round_even_def velodyne_h_simps)
  apply (subst float_of_eq [where e = 5]; simp add: pow2_def round_even_def velodyne_h_simps)
  done

lemma float_of_eqI:
  assumes "- 126 \<le> e" "e \<le> 127" "pow2 e \<le> \<bar>r\<bar>" "\<bar>r\<bar> < pow2 (e + 1)"
    and "of_int (round_even (r / pow2 (e - 23))) * pow2 (e - 23) = v"
  shows "float_of r = v"
  using float_of_eq [OF assms(1-4)] assms(5) by simp

lemma example_t_beam:
  "vlp16_t_beam velodyne_h 0 0 = 0"
  "vlp16_t_beam velodyne_h 0 3 = 14495514 / 2097152"
  "vlp16_t_beam velodyne_h 1 15 = 11777606 / 131072"
  "vlp16_t_beam velodyne_h 0 12 = 7247757 / 262144"
proof -
  have z: "float_of (real 0 * c) = 0" for c by (simp add: float_of_zero)
  have z': "float_of (0 + 0) = 0" by (simp add: float_of_zero)
  show "vlp16_t_beam velodyne_h 0 0 = 0"
    by (simp only: vlp16_t_beam_def z z')
  have a: "float_of (real 3 * VLP16_DSR_TOFFSET velodyne_h) = 14495514 / 2097152"
    by (rule float_of_eqI [where e = 2]) (simp_all add: velodyne_h_simps pow2_def round_even_def)
  have a': "float_of (14495514 / 2097152 + 0) = 14495514 / 2097152"
    by (rule float_of_eqI [where e = 2]) (simp_all add: pow2_def round_even_def)
  show "vlp16_t_beam velodyne_h 0 3 = 14495514 / 2097152"
    by (simp only: vlp16_t_beam_def a z a')
  have b: "float_of (real 15 * VLP16_DSR_TOFFSET velodyne_h) = 9059696 / 262144"
    by (rule float_of_eqI [where e = 5]) (simp_all add: velodyne_h_simps pow2_def round_even_def)
  have c: "float_of (real 1 * VLP16_FIRING_TOFFSET velodyne_h) = 14495515 / 262144"
    by (rule float_of_eqI [where e = 5]) (simp_all add: velodyne_h_simps pow2_def round_even_def)
  have d: "float_of (9059696 / 262144 + 14495515 / 262144) = 11777606 / 131072"
    by (rule float_of_eqI [where e = 6]) (simp_all add: pow2_def round_even_def)
  show "vlp16_t_beam velodyne_h 1 15 = 11777606 / 131072"
    by (simp only: vlp16_t_beam_def b c d)
  have e: "float_of (real 12 * VLP16_DSR_TOFFSET velodyne_h) = 7247757 / 262144"
    by (rule float_of_eqI [where e = 4]) (simp_all add: velodyne_h_simps pow2_def round_even_def)
  have e': "float_of (7247757 / 262144 + 0) = 7247757 / 262144"
    by (rule float_of_eqI [where e = 4]) (simp_all add: pow2_def round_even_def)
  show "vlp16_t_beam velodyne_h 0 12 = 7247757 / 262144"
    by (simp only: vlp16_t_beam_def e z e')
qed

lemma example_azimuth:
  "vlp16_azimuth_corrected velodyne_h 0 0 firing dsr = 0"
  "vlp16_azimuth_corrected velodyne_h 35990 40 0 3 = 35993"
  "vlp16_azimuth_corrected velodyne_h 35990 40 1 15 = 23"
  "vlp16_azimuth_corrected velodyne_h 100 40 1 15 = 133"
  "vlp16_azimuth_corrected velodyne_h 0 2 0 12 = 0"
proof -
  have z: "float_of (0 + float_of (float_of (0 * t) / c)) = 0" for t c
    by (simp add: float_of_zero)
  have r0: "double_to_int (c_round 0) smod 36000 = 0"
    by (simp add: c_round_def double_to_int_def)
  show "vlp16_azimuth_corrected velodyne_h 0 0 firing dsr = 0"
    by (simp only: vlp16_azimuth_corrected_def Let_def z r0)
  have a1: "float_of (40 * (14495514 / 2097152)) = 566231 / 2048"
    by (rule float_of_eqI [where e = 8]) (simp_all add: pow2_def round_even_def)
  have a2: "float_of (566231 / 2048 / VLP16_BLOCK_TDURATION velodyne_h) = 10485759 / 4194304"
    by (rule float_of_eqI [where e = 1]) (simp_all add: velodyne_h_simps pow2_def round_even_def)
  have a3: "float_of (35990 + 10485759 / 4194304) = 71985 / 2"
    by (rule float_of_eqI [where e = 15]) (simp_all add: pow2_def round_even_def)
  have a4: "double_to_int (c_round (71985 / 2)) smod 36000 = 35993"
    by (simp add: c_round_def double_to_int_def smod_int_alt_def sgn_if)
  show "vlp16_azimuth_corrected velodyne_h 35990 40 0 3 = 35993"
    by (simp only: vlp16_azimuth_corrected_def Let_def example_t_beam a1 a2 a3 a4)
  have b1: "float_of (40 * (11777606 / 131072)) = 1840251 / 512"
    by (rule float_of_eqI [where e = 11]) (simp_all add: pow2_def round_even_def)
  have b2: "float_of (1840251 / 512 / VLP16_BLOCK_TDURATION velodyne_h) = 65 / 2"
    by (rule float_of_eqI [where e = 5]) (simp_all add: velodyne_h_simps pow2_def round_even_def)
  have b3: "float_of (35990 + 65 / 2) = 72045 / 2"
    by (rule float_of_eqI [where e = 15]) (simp_all add: pow2_def round_even_def)
  have b4: "double_to_int (c_round (72045 / 2)) smod 36000 = 23"
    by (simp add: c_round_def double_to_int_def smod_int_alt_def sgn_if)
  show "vlp16_azimuth_corrected velodyne_h 35990 40 1 15 = 23"
    by (simp only: vlp16_azimuth_corrected_def Let_def example_t_beam b1 b2 b3 b4)
  have c3: "float_of (100 + 65 / 2) = 265 / 2"
    by (rule float_of_eqI [where e = 7]) (simp_all add: pow2_def round_even_def)
  have c4: "double_to_int (c_round (265 / 2)) smod 36000 = 133"
    by (simp add: c_round_def double_to_int_def smod_int_alt_def sgn_if)
  show "vlp16_azimuth_corrected velodyne_h 100 40 1 15 = 133"
    by (simp only: vlp16_azimuth_corrected_def Let_def example_t_beam b1 b2 c3 c4)
  have d1: "float_of (2 * (7247757 / 262144)) = 7247757 / 131072"
    by (rule float_of_eqI [where e = 5]) (simp_all add: pow2_def round_even_def)
  have d2: "float_of (7247757 / 131072 / VLP16_BLOCK_TDURATION velodyne_h) = 16777215 / 33554432"
    by (rule float_of_eqI [where e = "- 2"]) (simp_all add: velodyne_h_simps pow2_def round_even_def)
  have d3: "float_of (0 + 16777215 / 33554432) = 16777215 / 33554432"
    by (rule float_of_eqI [where e = "- 2"]) (simp_all add: pow2_def round_even_def)
  have d4: "double_to_int (c_round (16777215 / 33554432)) smod 36000 = 0"
    by (simp add: c_round_def double_to_int_def)
  show "vlp16_azimuth_corrected velodyne_h 0 2 0 12 = 0"
    by (simp only: vlp16_azimuth_corrected_def Let_def example_t_beam d1 d2 d3 d4)
qed

subsection \<open>The writes of one reading\<close>

lemma pc_at_Inr:
  "pc_at pc c r = Inr n \<Longrightarrow>
     n < length (points pc) \<and> int n = r * int (width pc) + c \<and> 1 < height pc"
  by (auto simp: pc_at_def Let_def split: if_splits)

lemma pc_at_points_update:
  "length ps = length (points pc) \<Longrightarrow> pc_at (pc\<lparr> points := ps \<rparr>) c r = pc_at pc c r"
  by (simp add: pc_at_def)

lemma pc_assign_Inr:
  "pc_at pc c r = Inr n \<Longrightarrow>
     pc_assign pc c r f = Inr (pc\<lparr> points := (points pc)[n := f (points pc ! n)] \<rparr>)"
  by (simp add: pc_assign_def)

lemma pc_assign_Inl: "pc_at pc c r = Inl e \<Longrightarrow> pc_assign pc c r f = Inl e"
  by (simp add: pc_assign_def)

lemma unpack_store_Inr:
  assumes at: "pc_at pc (int (n div num_lasers (calibration rd)))
                 (int (num_lasers (calibration rd)) - 1 - laser_ring c) = Inr idx"
    and L: "num_lasers (calibration rd) \<noteq> 0"
  shows "unpack_store rd scanMsg pkt c xc yc zc d i n pc =
           Inr (n + 1, pc\<lparr> points := (points pc)[idx :=
                  unpack_cell rd scanMsg pkt c xc yc zc d i (pc_frame_id pc) (points pc ! idx)] \<rparr>)"
proof -
  from at have idx: "idx < length (points pc)" by (simp add: pc_at_Inr)
  show ?thesis
    using L idx
    by (simp add: unpack_store_def unpack_cell_def Let_def pc_assign_Inr [OF at]
        pc_assign_def pc_at_points_update at
        split: option.split)
qed

lemma unpack_store_Inl:
  assumes at: "pc_at pc (int (n div num_lasers (calibration rd)))
                 (int (num_lasers (calibration rd)) - 1 - laser_ring c) = Inl e"
    and L: "num_lasers (calibration rd) \<noteq> 0"
  shows "unpack_store rd scanMsg pkt c xc yc zc d i n pc = Inl e"
  using L by (simp add: unpack_store_def Let_def pc_assign_Inl [OF at])

lemma unpack_store_zero:
  "num_lasers (calibration rd) = 0 \<Longrightarrow>
     unpack_store rd scanMsg pkt c xc yc zc d i n pc = Inl DivisionByZero"
  by (simp add: unpack_store_def)

lemma vlp16_store_Inr:
  assumes at: "pc_at pc (int col) (int (num_lasers (calibration rd)) - 1 - laser_ring c) = Inr idx"
  shows "vlp16_store K rd scanMsg c xc yc zc d i t col pc =
           Inr (pc\<lparr> points := (points pc)[idx := vlp16_cell rd scanMsg c xc yc zc d i t] \<rparr>)"
proof -
  from at have idx: "idx < length (points pc)" by (simp add: pc_at_Inr)
  show ?thesis
    using idx
    by (simp add: vlp16_store_def vlp16_cell_def Let_def pc_assign_Inr [OF at]
        pc_assign_def pc_at_points_update at
        split: option.split)
qed

lemma vlp16_store_Inl:
  assumes at: "pc_at pc (int col) (int (num_lasers (calibration rd)) - 1 - laser_ring c) = Inl e"
  shows "vlp16_store K rd scanMsg c xc yc zc d i t col pc = Inl e"
  by (simp add: vlp16_store_def Let_def pc_assign_Inl [OF at])

lemma table_lookup_Inr:
  "0 \<le> i \<Longrightarrow> i < int (ROTATION_MAX_UNITS K) \<Longrightarrow> table_lookup K t i = Inr (t (nat i))"
  by (simp add: table_lookup_def)

lemma unpack_position_distance:
  "snd (snd (snd (unpack_position K c cr sr tmp))) = reading_distance K c tmp"
  by (simp add: unpack_position_def reading_distance_def Let_def)

lemma unpack_reading_gated:
  assumes "angle_gate (uint (rotation (blocks (raw pkt) i))) (min_angle (config rd)) (max_angle (config rd))"
    and "uint (rotation (blocks (raw pkt) i)) < int (ROTATION_MAX_UNITS K)"
  shows "unpack_reading K rd scanMsg pkt i j st =
     (let c = unpack_corrections K rd pkt i j;
          tmp = unpack_code K pkt i j;
          r = nat (uint (rotation (blocks (raw pkt) i)));
          pos = unpack_position K c (cos_rot_table rd r) (sin_rot_table rd r) tmp
      in unpack_store rd scanMsg pkt c (fst pos) (fst (snd pos)) (fst (snd (snd pos)))
           (reading_distance K c tmp)
           (unpack_intensity c tmp (data (blocks (raw pkt) i) (j * RAW_SCAN_SIZE K + 2)))
           (fst st) (snd st))"
  using assms
  unfolding unpack_reading_def Let_def unpack_corrections_def unpack_code_def
  by (simp add: table_lookup_Inr case_prod_beta unpack_position_distance)

lemma vlp16_position_distance:
  "snd (snd (snd (vlp16_position K c cr sr tmp))) = reading_distance K c tmp"
  by (simp add: vlp16_position_def reading_distance_def Let_def)

lemma vlp16_reading_gated:
  assumes "angle_gate (vlp16_azimuth_corrected K az d firing dsr) (min_angle (config rd)) (max_angle (config rd))"
    and "0 \<le> vlp16_azimuth_corrected K az d firing dsr"
    and "vlp16_azimuth_corrected K az d firing dsr < int (ROTATION_MAX_UNITS K)"
  shows "vlp16_reading K rd scanMsg packet dual block az d firing dsr pc =
     (let pkt = packets scanMsg ! packet;
          c = laser_corrections (calibration rd) dsr;
          tmp = vlp16_code K pkt block firing dsr;
          r = nat (vlp16_azimuth_corrected K az d firing dsr);
          pos = vlp16_position K c (cos_rot_table rd r) (sin_rot_table rd r) tmp
      in vlp16_store K rd scanMsg c (fst pos) (fst (snd pos)) (fst (snd (snd pos)))
           (reading_distance K c tmp)
           (vlp16_intensity c tmp
              (data (blocks (raw pkt) block)
                 ((firing * VLP16_SCANS_PER_FIRING K + dsr) * RAW_SCAN_SIZE K + 2)))
           (stamp pkt + (real block * VLP16_BLOCK_TDURATION K + vlp16_t_beam K firing dsr)
                          * (1 / 1000000))
           (vlp16_col K dual packet block firing) pc)"
  using assms
  unfolding vlp16_reading_def Let_def vlp16_code_def
  by (simp add: table_lookup_Inr case_prod_beta vlp16_position_distance)

lemma unpack_cell_out_of_range:
  "\<not> pointInRange (config rd) d \<Longrightarrow>
     unpack_cell rd scanMsg pkt c xc yc zc d i target p = p\<lparr> ring := laser_ring c \<rparr>"
  by (simp add: unpack_cell_def)

lemma vlp16_cell_out_of_range:
  "\<not> pointInRange (config rd) d \<Longrightarrow>
     vlp16_cell rd scanMsg c xc yc zc d i t = nan_point\<lparr> ring := laser_ring c \<rparr>"
  by (simp add: vlp16_cell_def nan_point_def)

lemma unpack_reading_skip:
  "\<not> angle_gate (uint (rotation (blocks (raw pkt) i))) (min_angle (config rd)) (max_angle (config rd))
   \<Longrightarrow> unpack_reading K rd scanMsg pkt i j st = Inr st"
  unfolding unpack_reading_def Let_def by (rule if_not_P)

lemma vlp16_reading_skip:
  "\<not> angle_gate (vlp16_azimuth_corrected K az d firing dsr) (min_angle (config rd)) (max_angle (config rd))
   \<Longrightarrow> vlp16_reading K rd scanMsg packet dual block az d firing dsr pc = Inr pc"
  unfolding vlp16_reading_def Let_def by (rule if_not_P)

lemmas example_defs =
  example_rd_def example_calibration_def example_correction_def example_config_def
  example_packet_def example_block_def example_scan_def example_cloud_def

lemma example_reading_values:
  "unpack_corrections velodyne_h
     (example_rd lasers\<lparr> config := cfg, tf_listener := tf \<rparr>) example_packet 0 0
     = example_correction\<lparr> laser_ring := int (0 mod lasers) \<rparr>"
  "unpack_code velodyne_h example_packet 0 0 = 1000"
  "vlp16_code velodyne_h (packets example_scan ! 0) 0 0 0 = 1000"
  "reading_distance velodyne_h (example_correction\<lparr> laser_ring := r \<rparr>) 1000 = 2"
  by (simp_all add: unpack_corrections_def unpack_laser_def unpack_code_def vlp16_code_def
      two_bytes_def reading_distance_def velodyne_h_simps example_defs)

lemma example_rd_simps:
  "num_lasers (calibration (example_rd lasers)) = lasers"
  "laser_corrections (calibration (example_rd lasers)) k
     = example_correction\<lparr> laser_ring := int (k mod lasers) \<rparr>"
  "config (example_rd lasers) = example_config"
  "tf_listener (example_rd lasers) = None"
  "cos_rot_table (example_rd lasers) 0 = 1"
  "sin_rot_table (example_rd lasers) 0 = 0"
  by (simp_all add: example_rd_def example_calibration_def from_degrees_def)

lemma example_cloud_at:
  "pc_at (example_cloud 12 32) 0 31 = Inr 372"
  "pc_at (example_cloud 24 16) 0 15 = Inr 360"
  by (simp_all add: pc_at_def example_cloud_def)

lemma unpack_reading_written:
  assumes "angle_gate (uint (rotation (blocks (raw pkt) i))) (min_angle (config rd)) (max_angle (config rd))"
    and "uint (rotation (blocks (raw pkt) i)) < int (ROTATION_MAX_UNITS K)"
    and "num_lasers (calibration rd) \<noteq> 0"
    and "pc_at pc (int (n div num_lasers (calibration rd)))
           (int (num_lasers (calibration rd)) - 1 - laser_ring (unpack_corrections K rd pkt i j)) = Inr idx"
  shows "unpack_reading K rd scanMsg pkt i j (n, pc) =
           Inr (n + 1, pc\<lparr> points := (points pc)[idx :=
                  unpack_written K rd scanMsg pkt i j (pc_frame_id pc) (points pc ! idx)] \<rparr>)"
  using assms
  by (simp add: unpack_reading_gated Let_def unpack_store_Inr unpack_written_def)

lemma vlp16_reading_written:
  assumes "angle_gate (vlp16_azimuth_corrected K az d firing dsr) (min_angle (config rd)) (max_angle (config rd))"
    and "0 \<le> vlp16_azimuth_corrected K az d firing dsr"
    and "vlp16_azimuth_corrected K az d firing dsr < int (ROTATION_MAX_UNITS K)"
    and "pc_at pc (int (vlp16_col K dual packet block firing))
           (int (num_lasers (calibration rd)) - 1 - laser_ring (laser_corrections (calibration rd) dsr)) = Inr idx"
  shows "vlp16_reading K rd scanMsg packet dual block az d firing dsr pc =
           Inr (pc\<lparr> points := (points pc)[idx :=
                  vlp16_written K rd scanMsg packet block az d firing dsr] \<rparr>)"
  using assms
  by (simp add: vlp16_reading_gated Let_def vlp16_store_Inr vlp16_written_def)

lemma example_corrections:
  "unpack_corrections velodyne_h rd example_packet 0 0 = laser_corrections (calibration rd) 0"
  by (simp add: unpack_corrections_def unpack_laser_def velodyne_h_simps example_packet_def
      example_block_def)

lemma example_written:
  "unpack_written velodyne_h (example_rd lasers) example_scan example_packet 0 0 target nan_point
     = \<lparr> x = Some 2, y = Some 0, z = Some 0, intensity = example_intensity,
         ring = int (0 mod lasers) \<rparr>"
  "vlp16_written velodyne_h (example_rd lasers) example_scan 0 0 0 0 0 0
     = \<lparr> x = Some 2, y = Some 0, z = Some 0, intensity = 100, ring = int (0 mod lasers) \<rparr>"
proof -
  have pos: "unpack_position velodyne_h (example_correction\<lparr> laser_ring := r \<rparr>) 1 0 1000 = (2, 0, 0, 2)" for r
    by (simp add: unpack_position_def example_correction_def velodyne_h_simps Let_def)
  have int1: "unpack_intensity (example_correction\<lparr> laser_ring := r \<rparr>) 1000 100 = example_intensity" for r
    by (simp add: unpack_intensity_def example_intensity_def example_correction_def Let_def)
  have int2: "vlp16_intensity (example_correction\<lparr> laser_ring := r \<rparr>) 1000 100 = 100" for r
    by (simp add: vlp16_intensity_def example_correction_def Let_def)
  have d2: "data (blocks (raw example_packet) 0) (Suc (Suc 0)) = 100"
    "data (blocks (raw (packets example_scan ! 0)) 0) (Suc (Suc 0)) = 100"
    by (simp_all add: example_packet_def example_block_def example_scan_def)
  have rot: "uint (rotation (blocks (raw example_packet) 0)) = 0"
    by (simp add: example_packet_def example_block_def)
  have u8: "float_to_uint8 100 = 100"
    by (simp add: float_to_uint8_def double_to_int_def)
  show "unpack_written velodyne_h (example_rd lasers) example_scan example_packet 0 0 target nan_point
     = \<lparr> x = Some 2, y = Some 0, z = Some 0, intensity = example_intensity,
         ring = int (0 mod lasers) \<rparr>"
    by (simp add: unpack_written_def Let_def example_corrections example_reading_values rot example_rd_simps pos int1 d2
        velodyne_h_simps unpack_cell_def pointInRange_def example_config_def nan_point_def
        del: One_nat_def)
  show "vlp16_written velodyne_h (example_rd lasers) example_scan 0 0 0 0 0 0
     = \<lparr> x = Some 2, y = Some 0, z = Some 0, intensity = 100, ring = int (0 mod lasers) \<rparr>"
    by (simp add: vlp16_written_def Let_def example_reading_values example_azimuth example_rd_simps
        position_paths_agree pos int2 d2 velodyne_h_simps vlp16_cell_def pointInRange_def
        example_config_def u8 del: One_nat_def)
qed

subsection \<open>The angle gate and its configuration\<close>

lemma angle_gate_lt: "min_a < max_a \<Longrightarrow> angle_gate code min_a max_a \<longleftrightarrow> min_a \<le> code \<and> code \<le> max_a"
  by (auto simp: angle_gate_def)

lemma angle_gate_gt: "min_a > max_a \<Longrightarrow> angle_gate code min_a max_a \<longleftrightarrow> code \<ge> min_a \<or> code \<le> max_a"
  by (auto simp: angle_gate_def)

lemma angle_gate_eq: "\<not> angle_gate code a a"
  by (auto simp: angle_gate_def)

lemma setParameters_angles:
  "min_angle (setParameters cfg mr xr vd vw f ff) =
     (if hardware_angle (vd + vw / 2) = hardware_angle (vd - vw / 2) then 0 else hardware_angle (vd + vw / 2))"
  "max_angle (setParameters cfg mr xr vd vw f ff) =
     (if hardware_angle (vd + vw / 2) = hardware_angle (vd - vw / 2) then 36000 else hardware_angle (vd - vw / 2))"
  by (simp_all add: setParameters_def hardware_angle_def Let_def)

text \<open>
  C3. The claim is that in both decoders a reading is processed exactly when the
  rotation code of its block is in the window. In the 16-beam decoder the gate is not
  applied to the rotation code of the block but to the corrected azimuth of the beam
  (lines 454-459). In the example the window is from 0 to 100 and the first block has
  the rotation code 100, which is in the window; the azimuth difference to the next
  block is 40, the corrected azimuth of beam 15 of firing 1 is 133, and the decoder
  skips the reading: the cloud is unchanged.
\<close>

theorem angle_window_counterexample:
  "uint (rotation (blocks (raw (packets example_window_scan ! 0)) 0)) = 100 \<and>
   angle_gate 100 0 100 \<and>
   vlp16_azimuth_diff velodyne_h (raw (packets example_window_scan ! 0)) 0 1 0 = (40, 40) \<and>
   vlp16_azimuth_corrected velodyne_h 100 40 1 15 = 133 \<and>
   vlp16_reading velodyne_h ((example_rd 16)\<lparr> config := example_config\<lparr> max_angle := 100 \<rparr> \<rparr>)
     example_window_scan 0 False 0 100 40 1 15 (example_cloud 24 16) = Inr (example_cloud 24 16)"
proof -
  let ?rd = "(example_rd 16)\<lparr> config := example_config\<lparr> max_angle := 100 \<rparr> \<rparr>"
  have r: "uint (rotation (blocks (raw (packets example_window_scan ! 0)) 0)) = 100"
    by (simp add: example_window_scan_def)
  have g: "angle_gate 100 0 100" by (simp add: angle_gate_def)
  have d: "vlp16_azimuth_diff velodyne_h (raw (packets example_window_scan ! 0)) 0 1 0 = (40, 40)"
    by (simp add: vlp16_azimuth_diff_def example_window_scan_def velodyne_h_simps Let_def
        smod_int_alt_def sgn_if)
  have n: "\<not> angle_gate (vlp16_azimuth_corrected velodyne_h 100 40 1 15)
              (min_angle (config ?rd)) (max_angle (config ?rd))"
    by (simp only: example_azimuth(4)) (simp add: example_config_def angle_gate_def)
  from r g d example_azimuth(4) vlp16_reading_skip [OF n] show ?thesis by simp
qed

text \<open>
  C3, amended. With \<open>min_a < max_a\<close> the gate passes exactly the codes from \<open>min_a\<close> to
  \<open>max_a\<close>; with \<open>min_a > max_a\<close> exactly the codes that are at least \<open>min_a\<close> or at most
  \<open>max_a\<close>. The legacy decoder applies the gate to the rotation code of the block, the
  16-beam decoder to the corrected azimuth of the beam. A reading that the gate refuses
  leaves the state as it is. A reading that the gate passes is processed: when the code
  is below the size of the tables and the cell of the reading is in the cloud, the
  legacy decoder advances its counter and both decoders leave in the cell the value
  computed for the reading. After \<open>setParameters\<close> the two angles differ, and when the two
  converted angles are equal they are 0 and 36000, so that every rotation code from 0 to
  36000 passes.
\<close>

theorem angle_window:
  "(min_a < max_a \<longrightarrow> (angle_gate code min_a max_a \<longleftrightarrow> min_a \<le> code \<and> code \<le> max_a)) \<and>
   (min_a > max_a \<longrightarrow> (angle_gate code min_a max_a \<longleftrightarrow> code \<ge> min_a \<or> code \<le> max_a)) \<and>
   (\<not> angle_gate (uint (rotation (blocks (raw pkt) i))) (min_angle (config rd)) (max_angle (config rd))
      \<longrightarrow> unpack_reading K rd scanMsg pkt i j (n, pc) = Inr (n, pc)) \<and>
   (angle_gate (uint (rotation (blocks (raw pkt) i))) (min_angle (config rd)) (max_angle (config rd)) \<and>
    uint (rotation (blocks (raw pkt) i)) < int (ROTATION_MAX_UNITS K) \<and>
    num_lasers (calibration rd) \<noteq> 0 \<and>
    pc_at pc (int (n div num_lasers (calibration rd)))
      (int (num_lasers (calibration rd)) - 1 - laser_ring (unpack_corrections K rd pkt i j)) = Inr idx
      \<longrightarrow> unpack_reading K rd scanMsg pkt i j (n, pc) =
            Inr (n + 1, pc\<lparr> points := (points pc)[idx :=
                   unpack_written K rd scanMsg pkt i j (pc_frame_id pc) (points pc ! idx)] \<rparr>)) \<and>
   (\<not> angle_gate (vlp16_azimuth_corrected K az d firing dsr) (min_angle (config rd)) (max_angle (config rd))
      \<longrightarrow> vlp16_reading K rd scanMsg packet dual block az d firing dsr pc = Inr pc) \<and>
   (angle_gate (vlp16_azimuth_corrected K az d firing dsr) (min_angle (config rd)) (max_angle (config rd)) \<and>
    0 \<le> vlp16_azimuth_corrected K az d firing dsr \<and>
    vlp16_azimuth_corrected K az d firing dsr < int (ROTATION_MAX_UNITS K) \<and>
    pc_at pc (int (vlp16_col K dual packet block firing))
      (int (num_lasers (calibration rd)) - 1 - laser_ring (laser_corrections (calibration rd) dsr)) = Inr idx'
      \<longrightarrow> vlp16_reading K rd scanMsg packet dual block az d firing dsr pc =
            Inr (pc\<lparr> points := (points pc)[idx' :=
                   vlp16_written K rd scanMsg packet block az d firing dsr] \<rparr>)) \<and>
   min_angle (setParameters cfg mr xr vd vw f ff) \<noteq> max_angle (setParameters cfg mr xr vd vw f ff) \<and>
   (hardware_angle (vd + vw / 2) = hardware_angle (vd - vw / 2) \<longrightarrow>
      min_angle (setParameters cfg mr xr vd vw f ff) = 0 \<and>
      max_angle (setParameters cfg mr xr vd vw f ff) = 36000 \<and>
      (\<forall>rot. 0 \<le> rot \<and> rot \<le> 36000 \<longrightarrow>
         angle_gate rot (min_angle (setParameters cfg mr xr vd vw f ff))
           (max_angle (setParameters cfg mr xr vd vw f ff))))"
proof (intro conjI impI allI)
  show "angle_gate code min_a max_a \<longleftrightarrow> min_a \<le> code \<and> code \<le> max_a" if "min_a < max_a"
    using that by (rule angle_gate_lt)
  show "angle_gate code min_a max_a \<longleftrightarrow> code \<ge> min_a \<or> code \<le> max_a" if "min_a > max_a"
    using that by (rule angle_gate_gt)
  show "unpack_reading K rd scanMsg pkt i j (n, pc) = Inr (n, pc)"
    if "\<not> angle_gate (uint (rotation (blocks (raw pkt) i))) (min_angle (config rd)) (max_angle (config rd))"
    using that by (rule unpack_reading_skip)
  show "unpack_reading K rd scanMsg pkt i j (n, pc) =
            Inr (n + 1, pc\<lparr> points := (points pc)[idx :=
                   unpack_written K rd scanMsg pkt i j (pc_frame_id pc) (points pc ! idx)] \<rparr>)"
    if "angle_gate (uint (rotation (blocks (raw pkt) i))) (min_angle (config rd)) (max_angle (config rd)) \<and>
    uint (rotation (blocks (raw pkt) i)) < int (ROTATION_MAX_UNITS K) \<and>
    num_lasers (calibration rd) \<noteq> 0 \<and>
    pc_at pc (int (n div num_lasers (calibration rd)))
      (int (num_lasers (calibration rd)) - 1 - laser_ring (unpack_corrections K rd pkt i j)) = Inr idx"
    using that by (intro unpack_reading_written) simp_all
  show "vlp16_reading K rd scanMsg packet dual block az d firing dsr pc = Inr pc"
    if "\<not> angle_gate (vlp16_azimuth_corrected K az d firing dsr) (min_angle (config rd)) (max_angle (config rd))"
    using that by (rule vlp16_reading_skip)
  show "vlp16_reading K rd scanMsg packet dual block az d firing dsr pc =
            Inr (pc\<lparr> points := (points pc)[idx' :=
                   vlp16_written K rd scanMsg packet block az d firing dsr] \<rparr>)"
    if "angle_gate (vlp16_azimuth_corrected K az d firing dsr) (min_angle (config rd)) (max_angle (config rd)) \<and>
    0 \<le> vlp16_azimuth_corrected K az d firing dsr \<and>
    vlp16_azimuth_corrected K az d firing dsr < int (ROTATION_MAX_UNITS K) \<and>
    pc_at pc (int (vlp16_col K dual packet block firing))
      (int (num_lasers (calibration rd)) - 1 - laser_ring (laser_corrections (calibration rd) dsr)) = Inr idx'"
    using that by (intro vlp16_reading_written) simp_all
  show "min_angle (setParameters cfg mr xr vd vw f ff) \<noteq> max_angle (setParameters cfg mr xr vd vw f ff)"
    by (simp add: setParameters_angles)
  show "min_angle (setParameters cfg mr xr vd vw f ff) = 0"
    if "hardware_angle (vd + vw / 2) = hardware_angle (vd - vw / 2)"
    using that by (simp add: setParameters_angles)
  show "max_angle (setParameters cfg mr xr vd vw f ff) = 36000"
    if "hardware_angle (vd + vw / 2) = hardware_angle (vd - vw / 2)"
    using that by (simp add: setParameters_angles)
  show "angle_gate rot (min_angle (setParameters cfg mr xr vd vw f ff))
           (max_angle (setParameters cfg mr xr vd vw f ff))"
    if "hardware_angle (vd + vw / 2) = hardware_angle (vd - vw / 2)" "0 \<le> rot \<and> rot \<le> 36000" for rot
    using that by (simp add: setParameters_angles angle_gate_def)
qed

theorem angle_window_witness:
  "angle_gate 150 100 200 \<and> \<not> angle_gate 500 100 200 \<and> angle_gate 100 35900 200 \<and>
   \<not> angle_gate 18000 35900 200 \<and>
   unpack_reading velodyne_h ((example_rd 32)\<lparr> config := example_config\<lparr> min_angle := 100, max_angle := 200 \<rparr> \<rparr>)
     example_scan example_packet 0 0 (0, example_cloud 12 32) = Inr (0, example_cloud 12 32) \<and>
   unpack_reading velodyne_h (example_rd 32) example_scan example_packet 0 0 (0, example_cloud 12 32)
     = Inr (1, (example_cloud 12 32)\<lparr> points := (points (example_cloud 12 32))
                 [372 := \<lparr> x = Some 2, y = Some 0, z = Some 0, intensity = example_intensity,
                            ring = 0 \<rparr>] \<rparr>) \<and>
   vlp16_reading velodyne_h ((example_rd 16)\<lparr> config := example_config\<lparr> min_angle := 100, max_angle := 200 \<rparr> \<rparr>)
     example_scan 0 False 0 0 0 0 0 (example_cloud 24 16) = Inr (example_cloud 24 16) \<and>
   vlp16_reading velodyne_h (example_rd 16) example_scan 0 False 0 0 0 0 0 (example_cloud 24 16)
     = Inr ((example_cloud 24 16)\<lparr> points := (points (example_cloud 24 16))
              [360 := \<lparr> x = Some 2, y = Some 0, z = Some 0, intensity = 100, ring = 0 \<rparr>] \<rparr>) \<and>
   min_angle (setParameters example_config 0.4 130 0 0 [] []) = 0 \<and>
   max_angle (setParameters example_config 0.4 130 0 0 [] []) = 36000 \<and>
   angle_gate 18000 (min_angle (setParameters example_config 0.4 130 0 0 [] []))
     (max_angle (setParameters example_config 0.4 130 0 0 [] []))"
proof -
  let ?cfg = "example_config\<lparr> min_angle := 100, max_angle := 200 \<rparr>"
  let ?rdA = "(example_rd 32)\<lparr> config := ?cfg \<rparr>"
  let ?rdB = "(example_rd 16)\<lparr> config := ?cfg \<rparr>"
  have g0: "\<not> angle_gate 0 100 200" and g1: "angle_gate 0 0 36000"
    by (simp_all add: angle_gate_def)
  have rot: "uint (rotation (blocks (raw example_packet) 0)) = 0"
    by (simp add: example_packet_def example_block_def)
  have cfg: "min_angle example_config = 0" "max_angle example_config = 36000"
    by (simp_all add: example_config_def)
  have cl: "points (example_cloud 12 32) ! 372 = nan_point"
    "points (example_cloud 24 16) ! 360 = nan_point"
    by (simp_all add: example_cloud_def)
  have h1: "\<not> angle_gate (uint (rotation (blocks (raw example_packet) 0)))
              (min_angle (config ?rdA)) (max_angle (config ?rdA))"
    using g0 by (simp add: rot)
  have h2: "angle_gate (uint (rotation (blocks (raw example_packet) 0)))
         (min_angle (config (example_rd 32))) (max_angle (config (example_rd 32))) \<and>
       uint (rotation (blocks (raw example_packet) 0)) < int (ROTATION_MAX_UNITS velodyne_h) \<and>
       num_lasers (calibration (example_rd 32)) \<noteq> 0 \<and>
       pc_at (example_cloud 12 32) (int (0 div num_lasers (calibration (example_rd 32))))
         (int (num_lasers (calibration (example_rd 32))) - 1
            - laser_ring (unpack_corrections velodyne_h (example_rd 32) example_packet 0 0)) = Inr 372"
    by (simp add: rot cfg g1 example_rd_simps velodyne_h_simps example_corrections example_cloud_at)
  have h3: "\<not> angle_gate (vlp16_azimuth_corrected velodyne_h 0 0 0 0)
              (min_angle (config ?rdB)) (max_angle (config ?rdB))"
    using g0 by (simp add: example_azimuth)
  have h4: "angle_gate (vlp16_azimuth_corrected velodyne_h 0 0 0 0)
         (min_angle (config (example_rd 16))) (max_angle (config (example_rd 16))) \<and>
       0 \<le> vlp16_azimuth_corrected velodyne_h 0 0 0 0 \<and>
       vlp16_azimuth_corrected velodyne_h 0 0 0 0 < int (ROTATION_MAX_UNITS velodyne_h) \<and>
       pc_at (example_cloud 24 16) (int (vlp16_col velodyne_h False 0 0 0))
         (int (num_lasers (calibration (example_rd 16))) - 1
            - laser_ring (laser_corrections (calibration (example_rd 16)) 0)) = Inr 360"
    by (simp add: example_azimuth cfg g1 example_rd_simps velodyne_h_simps example_cloud_at
        vlp16_col_def)
  have h5: "hardware_angle (0 + 0 / 2) = hardware_angle (0 - 0 / 2)" by simp
  have h6: "(0::int) \<le> 18000 \<and> (18000::int) \<le> 36000" by simp
  note a = angle_window [where min_a = 100 and max_a = 200 and code = 150
      and pkt = example_packet and i = 0 and j = 0 and rd = ?rdA and K = velodyne_h
      and scanMsg = example_scan and n = 0 and pc = "example_cloud 12 32"
      and cfg = example_config and mr = "0.4" and xr = 130
      and vd = 0 and vw = 0 and f = "[]" and ff = "[]"]
  note b = angle_window [where pkt = example_packet and i = 0 and j = 0 and rd = "example_rd 32"
      and K = velodyne_h and scanMsg = example_scan and n = 0 and pc = "example_cloud 12 32"
      and idx = 372]
  note c = angle_window [where rd = ?rdB and K = velodyne_h and scanMsg = example_scan
      and az = 0 and d = 0 and firing = 0 and dsr = 0 and packet = 0 and dual = False
      and block = 0 and pc = "example_cloud 24 16"]
  note e = angle_window [where rd = "example_rd 16" and K = velodyne_h and scanMsg = example_scan
      and az = 0 and d = 0 and firing = 0 and dsr = 0 and packet = 0 and dual = False
      and block = 0 and pc = "example_cloud 24 16" and idx' = 360]
  note w2 = angle_window [where min_a = 100 and max_a = 200 and code = 500]
  note w3 = angle_window [where min_a = 35900 and max_a = 200 and code = 100]
  note w4 = angle_window [where min_a = 35900 and max_a = 200 and code = 18000]
  have A: "unpack_reading velodyne_h ?rdA example_scan example_packet 0 0 (0, example_cloud 12 32)
             = Inr (0, example_cloud 12 32)"
    using a h1 by blast
  have B: "unpack_reading velodyne_h (example_rd 32) example_scan example_packet 0 0 (0, example_cloud 12 32)
     = Inr (1, (example_cloud 12 32)\<lparr> points := (points (example_cloud 12 32))
                 [372 := \<lparr> x = Some 2, y = Some 0, z = Some 0, intensity = example_intensity,
                            ring = 0 \<rparr>] \<rparr>)"
    using b [THEN conjunct2, THEN conjunct2, THEN conjunct2, THEN conjunct1, rule_format, OF h2]
    by (simp add: cl example_written)
  have C: "vlp16_reading velodyne_h ?rdB example_scan 0 False 0 0 0 0 0 (example_cloud 24 16)
             = Inr (example_cloud 24 16)"
    using c h3 by blast
  have D: "vlp16_reading velodyne_h (example_rd 16) example_scan 0 False 0 0 0 0 0 (example_cloud 24 16)
     = Inr ((example_cloud 24 16)\<lparr> points := (points (example_cloud 24 16))
              [360 := \<lparr> x = Some 2, y = Some 0, z = Some 0, intensity = 100, ring = 0 \<rparr>] \<rparr>)"
    using e [THEN conjunct2, THEN conjunct2, THEN conjunct2, THEN conjunct2, THEN conjunct2,
        THEN conjunct1, rule_format, OF h4]
    by (simp add: example_written)
  have S: "min_angle (setParameters example_config 0.4 130 0 0 [] []) = 0 \<and>
     max_angle (setParameters example_config 0.4 130 0 0 [] []) = 36000 \<and>
     angle_gate 18000 (min_angle (setParameters example_config 0.4 130 0 0 [] []))
       (max_angle (setParameters example_config 0.4 130 0 0 [] []))"
    using a h5 h6 by blast
  have G: "angle_gate 150 100 200 \<and> \<not> angle_gate 500 100 200 \<and> angle_gate 100 35900 200 \<and>
     \<not> angle_gate 18000 35900 200"
    using a w2 w3 w4 by simp
  from A B C D S G show ?thesis by blast
qed

subsection \<open>The columns of the 16-beam decoder\<close>

lemma digit_unique:
  fixes b b' f f' F :: nat
  assumes "f < F" "f' < F" "b * F + f = b' * F + f'"
  shows "b = b' \<and> f = f'"
proof -
  have 1: "(b * F + f) div F = b" using assms(1) by simp
  have 2: "(b' * F + f') div F = b'" using assms(2) by simp
  have "b = b'" by (metis 1 2 assms(3))
  with assms(3) show ?thesis by simp
qed

lemma vlp16_col_single_inj:
  assumes "firing < VLP16_FIRINGS_PER_BLOCK K" "firing' < VLP16_FIRINGS_PER_BLOCK K"
    and "block < BLOCKS_PER_PACKET K" "block' < BLOCKS_PER_PACKET K"
    and "vlp16_col K False packet block firing = vlp16_col K False packet' block' firing'"
  shows "packet = packet' \<and> block = block' \<and> firing = firing'"
proof -
  let ?F = "VLP16_FIRINGS_PER_BLOCK K" and ?B = "BLOCKS_PER_PACKET K"
  have lt: "block * ?F + firing < ?B * ?F" "block' * ?F + firing' < ?B * ?F"
  proof -
    have "block * ?F + firing < (block + 1) * ?F" using assms(1) by simp
    also have "\<dots> \<le> ?B * ?F" using assms(3) by (intro mult_le_mono1) simp
    finally show "block * ?F + firing < ?B * ?F" .
    have "block' * ?F + firing' < (block' + 1) * ?F" using assms(2) by simp
    also have "\<dots> \<le> ?B * ?F" using assms(4) by (intro mult_le_mono1) simp
    finally show "block' * ?F + firing' < ?B * ?F" .
  qed
  have eq: "packet * (?B * ?F) + (block * ?F + firing) = packet' * (?B * ?F) + (block' * ?F + firing')"
    using assms(5) by (simp add: vlp16_col_def mult.assoc add.assoc)
  from digit_unique [OF lt eq] have p: "packet = packet'" and e: "block * ?F + firing = block' * ?F + firing'"
    by simp_all
  from digit_unique [OF assms(1,2) e] p show ?thesis by simp
qed

text \<open>
  C5. A reading of the 16-beam decoder that passes the angle gate, with a corrected
  azimuth inside the tables, is written to the cell of its row in the column that
  follows. Under dual return the readings of firing \<open>firing\<close> of the blocks \<open>2 * b\<close> and
  \<open>2 * b + 1\<close> of a packet, which hold the two returns of the same firing, are written to
  the columns \<open>base\<close> and \<open>base + 1\<close> with
  \<open>base = packet * BLOCKS_PER_PACKET * FIRINGS + b * 2 * FIRINGS + firing * 2\<close>: two adjacent
  columns, never the same. Under single return the reading is written to the column
  \<open>packet * BLOCKS_PER_PACKET * FIRINGS + block * FIRINGS + firing\<close>, and two readings with
  the same column have the same packet, block and firing. The cell of column \<open>c\<close> and row
  \<open>r\<close> is the element \<open>r * width + c\<close> of the cloud, and the value written is the one
  computed for the reading.
\<close>

theorem vlp16_columns:
  assumes "angle_gate (vlp16_azimuth_corrected K az d firing dsr) (min_angle (config rd)) (max_angle (config rd))"
    and "0 \<le> vlp16_azimuth_corrected K az d firing dsr"
    and "vlp16_azimuth_corrected K az d firing dsr < int (ROTATION_MAX_UNITS K)"
  shows
  "(pc_at pc (int (packet * BLOCKS_PER_PACKET K * VLP16_FIRINGS_PER_BLOCK K
                    + b * 2 * VLP16_FIRINGS_PER_BLOCK K + firing * 2))
      (int (num_lasers (calibration rd)) - 1 - laser_ring (laser_corrections (calibration rd) dsr)) = Inr idx
      \<longrightarrow> vlp16_reading K rd scanMsg packet True (2 * b) az d firing dsr pc =
            Inr (pc\<lparr> points := (points pc)[idx :=
                   vlp16_written K rd scanMsg packet (2 * b) az d firing dsr] \<rparr>)) \<and>
   (pc_at pc (int (packet * BLOCKS_PER_PACKET K * VLP16_FIRINGS_PER_BLOCK K
                    + b * 2 * VLP16_FIRINGS_PER_BLOCK K + firing * 2 + 1))
      (int (num_lasers (calibration rd)) - 1 - laser_ring (laser_corrections (calibration rd) dsr)) = Inr idx
      \<longrightarrow> vlp16_reading K rd scanMsg packet True (2 * b + 1) az d firing dsr pc =
            Inr (pc\<lparr> points := (points pc)[idx :=
                   vlp16_written K rd scanMsg packet (2 * b + 1) az d firing dsr] \<rparr>)) \<and>
   (pc_at pc (int (packet * BLOCKS_PER_PACKET K * VLP16_FIRINGS_PER_BLOCK K
                    + block * VLP16_FIRINGS_PER_BLOCK K + firing))
      (int (num_lasers (calibration rd)) - 1 - laser_ring (laser_corrections (calibration rd) dsr)) = Inr idx
      \<longrightarrow> vlp16_reading K rd scanMsg packet False block az d firing dsr pc =
            Inr (pc\<lparr> points := (points pc)[idx :=
                   vlp16_written K rd scanMsg packet block az d firing dsr] \<rparr>)) \<and>
   (pc_at pc c r = Inr idx \<longrightarrow> int idx = r * int (width pc) + c \<and> idx < length (points pc)) \<and>
   vlp16_col K True packet (2 * b) firing
     = packet * BLOCKS_PER_PACKET K * VLP16_FIRINGS_PER_BLOCK K
       + b * 2 * VLP16_FIRINGS_PER_BLOCK K + firing * 2 \<and>
   vlp16_col K True packet (2 * b + 1) firing
     = packet * BLOCKS_PER_PACKET K * VLP16_FIRINGS_PER_BLOCK K
       + b * 2 * VLP16_FIRINGS_PER_BLOCK K + firing * 2 + 1 \<and>
   vlp16_col K True packet (2 * b) firing \<noteq> vlp16_col K True packet (2 * b + 1) firing \<and>
   vlp16_col K False packet block firing
     = packet * BLOCKS_PER_PACKET K * VLP16_FIRINGS_PER_BLOCK K
       + block * VLP16_FIRINGS_PER_BLOCK K + firing \<and>
   (firing < VLP16_FIRINGS_PER_BLOCK K \<and> firing' < VLP16_FIRINGS_PER_BLOCK K \<and>
    block < BLOCKS_PER_PACKET K \<and> block' < BLOCKS_PER_PACKET K \<and>
    vlp16_col K False packet block firing = vlp16_col K False packet' block' firing'
    \<longrightarrow> packet = packet' \<and> block = block' \<and> firing = firing')"
proof -
  let ?row = "int (num_lasers (calibration rd)) - 1 - laser_ring (laser_corrections (calibration rd) dsr)"
  have c0: "vlp16_col K True packet (2 * b) firing
     = packet * BLOCKS_PER_PACKET K * VLP16_FIRINGS_PER_BLOCK K
       + b * 2 * VLP16_FIRINGS_PER_BLOCK K + firing * 2"
    by (simp add: vlp16_col_def)
  have c1: "vlp16_col K True packet (2 * b + 1) firing
     = packet * BLOCKS_PER_PACKET K * VLP16_FIRINGS_PER_BLOCK K
       + b * 2 * VLP16_FIRINGS_PER_BLOCK K + firing * 2 + 1"
    by (simp add: vlp16_col_def)
  have c2: "vlp16_col K False packet block firing
     = packet * BLOCKS_PER_PACKET K * VLP16_FIRINGS_PER_BLOCK K
       + block * VLP16_FIRINGS_PER_BLOCK K + firing"
    by (simp add: vlp16_col_def)
  have w: "vlp16_reading K rd scanMsg packet dual blk az d firing dsr pc =
            Inr (pc\<lparr> points := (points pc)[idx :=
                   vlp16_written K rd scanMsg packet blk az d firing dsr] \<rparr>)"
    if "pc_at pc (int (vlp16_col K dual packet blk firing)) ?row = Inr idx" for dual blk
    by (rule vlp16_reading_written [OF assms that])
  have w0: "vlp16_reading K rd scanMsg packet True (2 * b) az d firing dsr pc =
            Inr (pc\<lparr> points := (points pc)[idx :=
                   vlp16_written K rd scanMsg packet (2 * b) az d firing dsr] \<rparr>)"
    if "pc_at pc (int (packet * BLOCKS_PER_PACKET K * VLP16_FIRINGS_PER_BLOCK K
                    + b * 2 * VLP16_FIRINGS_PER_BLOCK K + firing * 2)) ?row = Inr idx"
    using that by (intro w) (simp only: c0)
  have w1: "vlp16_reading K rd scanMsg packet True (2 * b + 1) az d firing dsr pc =
            Inr (pc\<lparr> points := (points pc)[idx :=
                   vlp16_written K rd scanMsg packet (2 * b + 1) az d firing dsr] \<rparr>)"
    if "pc_at pc (int (packet * BLOCKS_PER_PACKET K * VLP16_FIRINGS_PER_BLOCK K
                    + b * 2 * VLP16_FIRINGS_PER_BLOCK K + firing * 2 + 1)) ?row = Inr idx"
    using that by (intro w) (simp only: c1)
  have w2: "vlp16_reading K rd scanMsg packet False block az d firing dsr pc =
            Inr (pc\<lparr> points := (points pc)[idx :=
                   vlp16_written K rd scanMsg packet block az d firing dsr] \<rparr>)"
    if "pc_at pc (int (packet * BLOCKS_PER_PACKET K * VLP16_FIRINGS_PER_BLOCK K
                    + block * VLP16_FIRINGS_PER_BLOCK K + firing)) ?row = Inr idx"
    using that by (intro w) (simp only: c2)
  have at: "int idx = r * int (width pc) + c \<and> idx < length (points pc)" if "pc_at pc c r = Inr idx"
    using pc_at_Inr [OF that] by simp
  have ne: "vlp16_col K True packet (2 * b) firing \<noteq> vlp16_col K True packet (2 * b + 1) firing"
    by (simp add: vlp16_col_def)
  have inj: "packet = packet' \<and> block = block' \<and> firing = firing'"
    if "firing < VLP16_FIRINGS_PER_BLOCK K \<and> firing' < VLP16_FIRINGS_PER_BLOCK K \<and>
    block < BLOCKS_PER_PACKET K \<and> block' < BLOCKS_PER_PACKET K \<and>
    vlp16_col K False packet block firing = vlp16_col K False packet' block' firing'"
    using that by (elim conjE) (rule vlp16_col_single_inj; assumption)
  from w0 w1 w2 at c0 c1 ne c2 inj show ?thesis by blast
qed

theorem vlp16_columns_witness:
  "vlp16_reading velodyne_h (example_rd 16) example_scan 0 True 2 0 0 1 0 (example_cloud 24 16)
     = Inr ((example_cloud 24 16)\<lparr> points := (points (example_cloud 24 16))
              [366 := \<lparr> x = Some 2, y = Some 0, z = Some 0, intensity = 100, ring = 0 \<rparr>] \<rparr>) \<and>
   vlp16_reading velodyne_h (example_rd 16) example_scan 0 True 3 0 0 1 0 (example_cloud 24 16)
     = Inr ((example_cloud 24 16)\<lparr> points := (points (example_cloud 24 16))
              [367 := \<lparr> x = Some 2, y = Some 0, z = Some 0, intensity = 100, ring = 0 \<rparr>] \<rparr>) \<and>
   vlp16_reading velodyne_h (example_rd 16) example_scan 0 False 3 0 0 1 0 (example_cloud 24 16)
     = Inr ((example_cloud 24 16)\<lparr> points := (points (example_cloud 24 16))
              [367 := \<lparr> x = Some 2, y = Some 0, z = Some 0, intensity = 100, ring = 0 \<rparr>] \<rparr>) \<and>
   (366 :: int) = 15 * int (width (example_cloud 24 16)) + 6 \<and>
   vlp16_col velodyne_h True 1 6 1 = 38 \<and> vlp16_col velodyne_h True 1 7 1 = 39 \<and>
   vlp16_col velodyne_h False 1 6 1 = 37 \<and> vlp16_col velodyne_h False 1 6 1 \<noteq> vlp16_col velodyne_h False 0 11 1"
proof -
  let ?rd = "example_rd 16"
  let ?pc = "example_cloud 24 16"
  have g: "angle_gate (vlp16_azimuth_corrected velodyne_h 0 0 1 0) (min_angle (config ?rd)) (max_angle (config ?rd))"
    "0 \<le> vlp16_azimuth_corrected velodyne_h 0 0 1 0"
    "vlp16_azimuth_corrected velodyne_h 0 0 1 0 < int (ROTATION_MAX_UNITS velodyne_h)"
    by (simp_all only: example_azimuth(1))
      (simp_all add: example_rd_simps example_config_def angle_gate_def velodyne_h_simps)
  have at: "pc_at ?pc 6 15 = Inr 366" "pc_at ?pc 7 15 = Inr 367"
    by (simp_all add: pc_at_def example_cloud_def)
  have h: "(1::nat) < VLP16_FIRINGS_PER_BLOCK velodyne_h" "(6::nat) < BLOCKS_PER_PACKET velodyne_h"
    "(11::nat) < BLOCKS_PER_PACKET velodyne_h"
    by (simp_all add: velodyne_h_def)
  have wr: "vlp16_written velodyne_h ?rd example_scan 0 blk 0 0 1 0
     = \<lparr> x = Some 2, y = Some 0, z = Some 0, intensity = 100, ring = 0 \<rparr>" for blk
  proof -
    have code: "vlp16_code velodyne_h (packets example_scan ! 0) blk 1 0 = 1000"
      by (simp add: vlp16_code_def two_bytes_def velodyne_h_simps example_defs)
    have pos: "vlp16_position velodyne_h (example_correction\<lparr> laser_ring := q \<rparr>) 1 0 1000 = (2, 0, 0, 2)" for q
      by (simp add: vlp16_position_def example_correction_def velodyne_h_simps Let_def)
    have int2: "vlp16_intensity (example_correction\<lparr> laser_ring := q \<rparr>) 1000 100 = 100" for q
      by (simp add: vlp16_intensity_def example_correction_def Let_def)
    have d2: "data (blocks (raw (packets example_scan ! 0)) blk) 50 = 100"
      by (simp add: example_packet_def example_block_def example_scan_def)
    have u8: "float_to_uint8 100 = 100"
      by (simp add: float_to_uint8_def double_to_int_def)
    have az: "nat (vlp16_azimuth_corrected velodyne_h 0 0 1 0) = 0"
      by (simp add: example_azimuth(1))
    show ?thesis
      unfolding vlp16_written_def Let_def az code
      by (simp add: example_reading_values example_rd_simps pos int2 d2 velodyne_h_simps
          vlp16_cell_def pointInRange_def example_config_def u8 del: One_nat_def)
  qed
  note w = vlp16_columns [OF g, where pc = ?pc and scanMsg = example_scan and packet = 0]
  have A: "vlp16_reading velodyne_h ?rd example_scan 0 True 2 0 0 1 0 ?pc
     = Inr (?pc\<lparr> points := (points ?pc)
              [366 := \<lparr> x = Some 2, y = Some 0, z = Some 0, intensity = 100, ring = 0 \<rparr>] \<rparr>)"
    using w [where b = 1 and idx = 366, THEN conjunct1] at
    by (simp add: velodyne_h_simps example_rd_simps wr wr [unfolded One_nat_def])
  have B: "vlp16_reading velodyne_h ?rd example_scan 0 True 3 0 0 1 0 ?pc
     = Inr (?pc\<lparr> points := (points ?pc)
              [367 := \<lparr> x = Some 2, y = Some 0, z = Some 0, intensity = 100, ring = 0 \<rparr>] \<rparr>)"
    using w [where b = 1 and idx = 367, THEN conjunct2, THEN conjunct1] at
    by (simp add: velodyne_h_simps example_rd_simps wr wr [unfolded One_nat_def])
  have C: "vlp16_reading velodyne_h ?rd example_scan 0 False 3 0 0 1 0 ?pc
     = Inr (?pc\<lparr> points := (points ?pc)
              [367 := \<lparr> x = Some 2, y = Some 0, z = Some 0, intensity = 100, ring = 0 \<rparr>] \<rparr>)"
    using w [where block = 3 and idx = 367, THEN conjunct2, THEN conjunct2, THEN conjunct1] at
    by (simp add: velodyne_h_simps example_rd_simps wr wr [unfolded One_nat_def])
  have D: "(366 :: int) = 15 * int (width ?pc) + 6"
    using w [where c = 6 and r = 15 and idx = 366, THEN conjunct2, THEN conjunct2, THEN conjunct2,
        THEN conjunct1] at
    by simp
  note v = vlp16_columns [OF g, where packet = 1 and b = 3 and block = 6 and firing' = 1
      and block' = 11 and packet' = 0]
  have E: "vlp16_col velodyne_h True 1 6 1 = 38 \<and> vlp16_col velodyne_h True 1 7 1 = 39 \<and>
   vlp16_col velodyne_h False 1 6 1 = 37 \<and> vlp16_col velodyne_h False 1 6 1 \<noteq> vlp16_col velodyne_h False 0 11 1"
    using v h by (auto simp: velodyne_h_def)
  from A B C D E show ?thesis by blast
qed

subsection \<open>The azimuth of a beam in the 16-beam decoder\<close>

lemma smod_nonneg: "0 \<le> a \<Longrightarrow> (a::int) smod 36000 = a mod 36000"
  by (simp add: smod_int_alt_def sgn_if)

lemma c_round_nonneg: "0 \<le> r \<Longrightarrow> double_to_int (c_round r) = round r"
  by (simp add: c_round_def double_to_int_def round_def)

lemma vlp16_azimuth_diff_eq:
  assumes "uint (rotation (blocks rw block)) < 36000"
  shows "vlp16_azimuth_diff K rw block i_diff prev =
     (let d = (if int block < int (BLOCKS_PER_PACKET K) - i_diff
               then of_int ((36000 + uint (rotation (blocks rw (nat (int block + i_diff))))
                              - uint (rotation (blocks rw block))) mod 36000)
               else prev)
      in (d, d))"
proof -
  have "0 \<le> 36000 + uint (rotation (blocks rw (nat (int block + i_diff)))) - uint (rotation (blocks rw block))"
    using assms uint_nonnegative [of "rotation (blocks rw (nat (int block + i_diff)))"] by linarith
  then show ?thesis
    by (simp add: vlp16_azimuth_diff_def Let_def smod_nonneg)
qed

lemma vlp16_t_beam_nonneg:
  "0 \<le> VLP16_DSR_TOFFSET K \<Longrightarrow> 0 \<le> VLP16_FIRING_TOFFSET K \<Longrightarrow> 0 \<le> vlp16_t_beam K firing dsr"
  unfolding vlp16_t_beam_def
  by (intro float_of_nonneg add_nonneg_nonneg mult_nonneg_nonneg) simp_all

lemma vlp16_azimuth_f_nonneg:
  assumes "0 \<le> azimuth" "0 \<le> azimuth_diff" "0 \<le> VLP16_DSR_TOFFSET K" "0 \<le> VLP16_FIRING_TOFFSET K"
    "0 < VLP16_BLOCK_TDURATION K"
  shows "0 \<le> float_of (azimuth + float_of (float_of (azimuth_diff * vlp16_t_beam K firing dsr)
                                            / VLP16_BLOCK_TDURATION K))"
  using assms
  by (intro float_of_nonneg add_nonneg_nonneg divide_nonneg_pos mult_nonneg_nonneg
      vlp16_t_beam_nonneg)

lemma vlp16_azimuth_corrected_eq:
  assumes "0 \<le> azimuth" "0 \<le> azimuth_diff" "0 \<le> VLP16_DSR_TOFFSET K" "0 \<le> VLP16_FIRING_TOFFSET K"
    "0 < VLP16_BLOCK_TDURATION K"
  shows "vlp16_azimuth_corrected K azimuth azimuth_diff firing dsr =
     round (float_of (azimuth + float_of (float_of (azimuth_diff
              * float_of (float_of (real dsr * VLP16_DSR_TOFFSET K)
                          + float_of (real firing * VLP16_FIRING_TOFFSET K)))
              / VLP16_BLOCK_TDURATION K))) mod 36000"
proof -
  let ?f = "float_of (azimuth + float_of (float_of (azimuth_diff * vlp16_t_beam K firing dsr)
                                            / VLP16_BLOCK_TDURATION K))"
  have f: "0 \<le> ?f" by (rule vlp16_azimuth_f_nonneg [OF assms])
  then have r: "0 \<le> round ?f" by (simp add: round_def)
  have "vlp16_azimuth_corrected K azimuth azimuth_diff firing dsr = round ?f mod 36000"
    using f r by (simp add: vlp16_azimuth_corrected_def Let_def c_round_nonneg smod_nonneg)
  then show ?thesis by (simp only: vlp16_t_beam_def)
qed

lemma vlp16_azimuth_corrected_range:
  assumes "0 \<le> azimuth" "0 \<le> azimuth_diff" "0 \<le> VLP16_DSR_TOFFSET K" "0 \<le> VLP16_FIRING_TOFFSET K"
    "0 < VLP16_BLOCK_TDURATION K"
  shows "0 \<le> vlp16_azimuth_corrected K azimuth azimuth_diff firing dsr \<and>
         vlp16_azimuth_corrected K azimuth azimuth_diff firing dsr < 36000"
  by (simp add: vlp16_azimuth_corrected_eq [OF assms])

lemma vlp16_block_Continue:
  assumes "vlp16_block K rd scanMsg packet dual block st = Inr (Continue st')"
  shows "fst st' = snd (vlp16_azimuth_diff K (raw (packets scanMsg ! packet)) block
                         (1 + (if dual then 1 else 0)) (fst st))"
  using assms
  by (auto simp: vlp16_block_def Let_def split: if_splits sum.splits prod.splits)

lemma for_loop_skip:
  "(\<And>i s. i \<in> set ns \<Longrightarrow> body i s = Inr s) \<Longrightarrow> for_loop ns body s = Inr s"
  by (induction ns arbitrary: s) simp_all

lemma vlp16_block_closed_gate:
  assumes "UPPER_BANK K = header (blocks (raw (packets scanMsg ! packet)) block)"
    and "min_angle (config rd) = max_angle (config rd)"
  shows "vlp16_block K rd scanMsg packet dual block st =
           Inr (Continue (snd (vlp16_azimuth_diff K (raw (packets scanMsg ! packet)) block
                                 (1 + (if dual then 1 else 0)) (fst st)), snd st))"
proof -
  have skip: "vlp16_reading K rd scanMsg packet dual block az d firing dsr pc = Inr pc"
    for az d firing dsr pc
    by (rule vlp16_reading_skip) (simp add: assms(2) angle_gate_eq)
  have "for_loop [0..<VLP16_FIRINGS_PER_BLOCK K]
          (\<lambda>firing. for_loop [0..<VLP16_SCANS_PER_FIRING K]
             (\<lambda>dsr. vlp16_reading K rd scanMsg packet dual block az d firing dsr)) pc = Inr pc"
    for az d pc
    by (intro for_loop_skip skip)
  then show ?thesis
    using assms(1) by (simp add: vlp16_block_def Let_def case_prod_beta)
qed

text \<open>
  C4. The claim gives the corrected azimuth as the value of
  \<open>round (azimuth + diff * (dsr * DSR_TOFFSET + f * FIRING_TOFFSET) / BLOCK_TDURATION) mod 36000\<close>.
  The decoder computes the sum in single precision, and the rounding of the operations
  moves a value across a half. With the rotation code 35990, the difference 40 and beam
  3 of firing 0 the exact value of the sum is just below 35992.5 and rounds to 35992; the
  decoder gets 35992.5 and the code 35993. With the rotation code 0, the difference 2
  and beam 12, and the decimal constants 2.304, 55.296 and 110.592, the exact value is
  0.5 and rounds to 1; the decoder gets a number below 0.5 and the code 0.
\<close>

theorem vlp16_azimuth_counterexample:
  "vlp16_azimuth_corrected velodyne_h 35990 40 0 3 = 35993 \<and>
   round (35990 + 40 * (real 3 * VLP16_DSR_TOFFSET velodyne_h + real 0 * VLP16_FIRING_TOFFSET velodyne_h)
                    / VLP16_BLOCK_TDURATION velodyne_h) mod 36000 = 35992 \<and>
   vlp16_azimuth_corrected velodyne_h 0 2 0 12 = 0 \<and>
   round (0 + 2 * (real 12 * 2.304 + real 0 * 55.296) / 110.592 :: real) mod 36000 = 1"
proof -
  have a: "round (35990 + 40 * (real 3 * VLP16_DSR_TOFFSET velodyne_h + real 0 * VLP16_FIRING_TOFFSET velodyne_h)
                    / VLP16_BLOCK_TDURATION velodyne_h) mod 36000 = 35992"
    by (simp add: velodyne_h_simps round_def floor_eq_iff)
  have b: "round (0 + 2 * (real 12 * 2.304 + real 0 * 55.296) / 110.592 :: real) mod 36000 = 1"
    by (simp add: round_def floor_eq_iff)
  from example_azimuth(2) a example_azimuth(5) b show ?thesis by blast
qed

text \<open>
  C4, amended. With \<open>s\<close> = 2 under dual return and 1 under single return, the azimuth
  difference of block \<open>i\<close> is \<open>(36000 + rotation (i + s) - rotation i) mod 36000\<close> when
  \<open>i < BLOCKS_PER_PACKET - s\<close> and the last computed difference otherwise (the rotation
  code of the block being below 36000, so that the truncating \<^verbatim>\<open>%\<close> is the modulus); the
  decoder keeps it as the last difference and runs every beam of the block with it and
  with the rotation code of the block. A beam that passes the gate is computed with the
  table entries of its corrected azimuth. The corrected azimuth of beam \<open>dsr\<close> of firing
  \<open>f\<close> is the value of
  \<open>round (azimuth + diff * (dsr * DSR_TOFFSET + f * FIRING_TOFFSET) / BLOCK_TDURATION) mod 36000\<close>
  with the result of each of the two products of the time, of their sum, of the product
  with the difference, of the quotient and of the last sum rounded to single precision
  (the operands being non-negative, so that C's \<^verbatim>\<open>round\<close> and \<^verbatim>\<open>%\<close> are these); it lies in
  \<open>[0, 36000)\<close>.
\<close>

theorem vlp16_azimuth:
  "(uint (rotation (blocks rw block)) < 36000 \<longrightarrow>
      vlp16_azimuth_diff K rw block (1 + (if dual then 1 else 0)) prev =
        (let s = (if dual then 2 else 1);
             d = (if int block < int (BLOCKS_PER_PACKET K) - s
                  then of_int ((36000 + uint (rotation (blocks rw (nat (int block + s))))
                                 - uint (rotation (blocks rw block))) mod 36000)
                  else prev)
         in (d, d))) \<and>
   (vlp16_block K rd scanMsg packet dual block st = Inr (Continue st') \<longrightarrow>
      fst st' = snd (vlp16_azimuth_diff K (raw (packets scanMsg ! packet)) block
                       (1 + (if dual then 1 else 0)) (fst st))) \<and>
   (UPPER_BANK K = header (blocks (raw (packets scanMsg ! packet)) block) \<longrightarrow>
      vlp16_block K rd scanMsg packet dual block st =
        (case for_loop [0..<VLP16_FIRINGS_PER_BLOCK K]
                (\<lambda>firing. for_loop [0..<VLP16_SCANS_PER_FIRING K]
                   (\<lambda>dsr. vlp16_reading K rd scanMsg packet dual block
                             (of_int (uint (rotation (blocks (raw (packets scanMsg ! packet)) block))))
                             (fst (vlp16_azimuth_diff K (raw (packets scanMsg ! packet)) block
                                     (1 + (if dual then 1 else 0)) (fst st)))
                             firing dsr))
                (snd st) of
           Inl e \<Rightarrow> Inl e
         | Inr pc \<Rightarrow>
           Inr (Continue (snd (vlp16_azimuth_diff K (raw (packets scanMsg ! packet)) block
                                 (1 + (if dual then 1 else 0)) (fst st)), pc)))) \<and>
   (angle_gate (vlp16_azimuth_corrected K azimuth azimuth_diff firing dsr)
      (min_angle (config rd)) (max_angle (config rd)) \<and>
    0 \<le> vlp16_azimuth_corrected K azimuth azimuth_diff firing dsr \<and>
    vlp16_azimuth_corrected K azimuth azimuth_diff firing dsr < int (ROTATION_MAX_UNITS K) \<longrightarrow>
      vlp16_reading K rd scanMsg packet dual block azimuth azimuth_diff firing dsr pc =
        (let pkt = packets scanMsg ! packet;
             c = laser_corrections (calibration rd) dsr;
             tmp = vlp16_code K pkt block firing dsr;
             r = nat (vlp16_azimuth_corrected K azimuth azimuth_diff firing dsr);
             pos = vlp16_position K c (cos_rot_table rd r) (sin_rot_table rd r) tmp
         in vlp16_store K rd scanMsg c (fst pos) (fst (snd pos)) (fst (snd (snd pos)))
              (reading_distance K c tmp)
              (vlp16_intensity c tmp
                 (data (blocks (raw pkt) block)
                    ((firing * VLP16_SCANS_PER_FIRING K + dsr) * RAW_SCAN_SIZE K + 2)))
              (stamp pkt + (real block * VLP16_BLOCK_TDURATION K + vlp16_t_beam K firing dsr)
                             * (1 / 1000000))
              (vlp16_col K dual packet block firing) pc)) \<and>
   (0 \<le> azimuth \<and> 0 \<le> azimuth_diff \<and> 0 \<le> VLP16_DSR_TOFFSET K \<and>
    0 \<le> VLP16_FIRING_TOFFSET K \<and> 0 < VLP16_BLOCK_TDURATION K \<longrightarrow>
      vlp16_azimuth_corrected K azimuth azimuth_diff firing dsr =
        round (float_of (azimuth + float_of (float_of (azimuth_diff
                 * float_of (float_of (real dsr * VLP16_DSR_TOFFSET K)
                             + float_of (real firing * VLP16_FIRING_TOFFSET K)))
                 / VLP16_BLOCK_TDURATION K))) mod 36000 \<and>
      0 \<le> vlp16_azimuth_corrected K azimuth azimuth_diff firing dsr \<and>
      vlp16_azimuth_corrected K azimuth azimuth_diff firing dsr < 36000)"
proof (intro conjI impI)
  assume "uint (rotation (blocks rw block)) < 36000"
  from vlp16_azimuth_diff_eq [OF this]
  show "vlp16_azimuth_diff K rw block (1 + (if dual then 1 else 0)) prev =
        (let s = (if dual then 2 else 1);
             d = (if int block < int (BLOCKS_PER_PACKET K) - s
                  then of_int ((36000 + uint (rotation (blocks rw (nat (int block + s))))
                                 - uint (rotation (blocks rw block))) mod 36000)
                  else prev)
         in (d, d))"
    by (simp add: Let_def)
next
  assume "vlp16_block K rd scanMsg packet dual block st = Inr (Continue st')"
  then show "fst st' = snd (vlp16_azimuth_diff K (raw (packets scanMsg ! packet)) block
                       (1 + (if dual then 1 else 0)) (fst st))"
    by (rule vlp16_block_Continue)
next
  assume "UPPER_BANK K = header (blocks (raw (packets scanMsg ! packet)) block)"
  then show "vlp16_block K rd scanMsg packet dual block st =
        (case for_loop [0..<VLP16_FIRINGS_PER_BLOCK K]
                (\<lambda>firing. for_loop [0..<VLP16_SCANS_PER_FIRING K]
                   (\<lambda>dsr. vlp16_reading K rd scanMsg packet dual block
                             (of_int (uint (rotation (blocks (raw (packets scanMsg ! packet)) block))))
                             (fst (vlp16_azimuth_diff K (raw (packets scanMsg ! packet)) block
                                     (1 + (if dual then 1 else 0)) (fst st)))
                             firing dsr))
                (snd st) of
           Inl e \<Rightarrow> Inl e
         | Inr pc \<Rightarrow>
           Inr (Continue (snd (vlp16_azimuth_diff K (raw (packets scanMsg ! packet)) block
                                 (1 + (if dual then 1 else 0)) (fst st)), pc)))"
    by (simp add: vlp16_block_def Let_def case_prod_beta)
next
  assume "angle_gate (vlp16_azimuth_corrected K azimuth azimuth_diff firing dsr)
      (min_angle (config rd)) (max_angle (config rd)) \<and>
    0 \<le> vlp16_azimuth_corrected K azimuth azimuth_diff firing dsr \<and>
    vlp16_azimuth_corrected K azimuth azimuth_diff firing dsr < int (ROTATION_MAX_UNITS K)"
  then show "vlp16_reading K rd scanMsg packet dual block azimuth azimuth_diff firing dsr pc =
        (let pkt = packets scanMsg ! packet;
             c = laser_corrections (calibration rd) dsr;
             tmp = vlp16_code K pkt block firing dsr;
             r = nat (vlp16_azimuth_corrected K azimuth azimuth_diff firing dsr);
             pos = vlp16_position K c (cos_rot_table rd r) (sin_rot_table rd r) tmp
         in vlp16_store K rd scanMsg c (fst pos) (fst (snd pos)) (fst (snd (snd pos)))
              (reading_distance K c tmp)
              (vlp16_intensity c tmp
                 (data (blocks (raw pkt) block)
                    ((firing * VLP16_SCANS_PER_FIRING K + dsr) * RAW_SCAN_SIZE K + 2)))
              (stamp pkt + (real block * VLP16_BLOCK_TDURATION K + vlp16_t_beam K firing dsr)
                             * (1 / 1000000))
              (vlp16_col K dual packet block firing) pc)"
    by (intro vlp16_reading_gated) simp_all
next
  assume a: "0 \<le> azimuth \<and> 0 \<le> azimuth_diff \<and> 0 \<le> VLP16_DSR_TOFFSET K \<and>
    0 \<le> VLP16_FIRING_TOFFSET K \<and> 0 < VLP16_BLOCK_TDURATION K"
  then show "vlp16_azimuth_corrected K azimuth azimuth_diff firing dsr =
        round (float_of (azimuth + float_of (float_of (azimuth_diff
                 * float_of (float_of (real dsr * VLP16_DSR_TOFFSET K)
                             + float_of (real firing * VLP16_FIRING_TOFFSET K)))
                 / VLP16_BLOCK_TDURATION K))) mod 36000"
    by (intro vlp16_azimuth_corrected_eq) simp_all
  from a show "0 \<le> vlp16_azimuth_corrected K azimuth azimuth_diff firing dsr"
    using vlp16_azimuth_corrected_range [of azimuth azimuth_diff K firing dsr] by simp
  from a show "vlp16_azimuth_corrected K azimuth azimuth_diff firing dsr < 36000"
    using vlp16_azimuth_corrected_range [of azimuth azimuth_diff K firing dsr] by simp
qed

theorem vlp16_azimuth_witness:
  "vlp16_azimuth_diff velodyne_h example_turn 0 1 0 = (40, 40) \<and>
   vlp16_azimuth_diff velodyne_h example_turn 11 1 40 = (40, 40) \<and>
   vlp16_azimuth_diff velodyne_h example_turn 10 2 40 = (40, 40) \<and>
   vlp16_block velodyne_h ((example_rd 16)\<lparr> config := example_config\<lparr> max_angle := 0 \<rparr> \<rparr>)
     (example_scan\<lparr> packets := [\<lparr> stamp = 0, raw = example_turn \<rparr>] \<rparr>) 0 False 0 (0, empty_cloud)
     = Inr (Continue (40, empty_cloud)) \<and>
   vlp16_block velodyne_h (example_rd 16)
     (example_scan\<lparr> packets := [\<lparr> stamp = 0, raw = example_turn \<rparr>] \<rparr>) 0 False 0 (0, example_cloud 24 16)
     = (case for_loop [0..<2]
               (\<lambda>firing. for_loop [0..<16]
                  (\<lambda>dsr. vlp16_reading velodyne_h (example_rd 16)
                            (example_scan\<lparr> packets := [\<lparr> stamp = 0, raw = example_turn \<rparr>] \<rparr>)
                            0 False 0 35990 40 firing dsr))
               (example_cloud 24 16) of
          Inl e \<Rightarrow> Inl e
        | Inr pc \<Rightarrow> Inr (Continue (40, pc))) \<and>
   vlp16_azimuth_corrected velodyne_h 35990 40 1 15 = 23 \<and>
   vlp16_reading velodyne_h (example_rd 16)
     (example_scan\<lparr> packets := [\<lparr> stamp = 0, raw = example_turn \<rparr>] \<rparr>)
     0 False 0 35990 40 1 15 (example_cloud 24 16)
     = Inr ((example_cloud 24 16)\<lparr> points := (points (example_cloud 24 16))
              [1 := \<lparr> x = Some (2 * cos_rot_table (example_rd 16) 23),
                       y = Some (- (2 * sin_rot_table (example_rd 16) 23)),
                       z = Some 0, intensity = 100, ring = 15 \<rparr>] \<rparr>)"
proof -
  let ?rd = "(example_rd 16)\<lparr> config := example_config\<lparr> max_angle := 0 \<rparr> \<rparr>"
  let ?scan = "example_scan\<lparr> packets := [\<lparr> stamp = 0, raw = example_turn \<rparr>] \<rparr>"
  have r: "uint (rotation (blocks example_turn 0)) < 36000"
    "uint (rotation (blocks example_turn 11)) < 36000"
    "uint (rotation (blocks example_turn 10)) < 36000"
    by (simp_all add: example_turn_def)
  have k: "0 \<le> (35990::real) \<and> 0 \<le> (40::real) \<and> 0 \<le> VLP16_DSR_TOFFSET velodyne_h \<and>
    0 \<le> VLP16_FIRING_TOFFSET velodyne_h \<and> 0 < VLP16_BLOCK_TDURATION velodyne_h"
    by (simp add: velodyne_h_simps)
  note w1 = vlp16_azimuth [where K = velodyne_h and rw = example_turn and block = 0 and dual = False
      and prev = 0 and rd = ?rd and scanMsg = ?scan and packet = 0 and st = "(0, empty_cloud)"
      and st' = "(40, empty_cloud)" and azimuth = 35990 and azimuth_diff = 40 and firing = 1 and dsr = 15]
  note w2 = vlp16_azimuth [where K = velodyne_h and rw = example_turn and block = 11 and dual = False
      and prev = 40]
  note w3 = vlp16_azimuth [where K = velodyne_h and rw = example_turn and block = 10 and dual = True
      and prev = 40]
  note w4 = vlp16_azimuth [where K = velodyne_h and rd = "example_rd 16" and scanMsg = ?scan
      and packet = 0 and dual = False and block = 0 and st = "(0, example_cloud 24 16)"
      and azimuth = 35990 and azimuth_diff = 40 and firing = 1 and dsr = 15
      and pc = "example_cloud 24 16"]
  have d0: "vlp16_azimuth_diff velodyne_h example_turn 0 1 0 = (40, 40)"
    using w1 [THEN conjunct1, rule_format, OF r(1)]
    by (simp add: velodyne_h_simps example_turn_def Let_def)
  have d1: "vlp16_azimuth_diff velodyne_h example_turn 11 1 40 = (40, 40)"
    using w2 [THEN conjunct1, rule_format, OF r(2)]
    by (simp add: velodyne_h_simps example_turn_def Let_def)
  have d2: "vlp16_azimuth_diff velodyne_h example_turn 10 2 40 = (40, 40)"
    using w3 [THEN conjunct1, rule_format, OF r(3)]
    by (simp add: velodyne_h_simps example_turn_def Let_def)
  have "vlp16_block velodyne_h ?rd ?scan 0 False 0 (0, empty_cloud) =
      Inr (Continue (snd (vlp16_azimuth_diff velodyne_h (raw (packets ?scan ! 0)) 0
                                 (1 + (if False then 1 else 0)) (fst (0 :: real, empty_cloud))),
                     snd (0 :: real, empty_cloud)))"
    by (rule vlp16_block_closed_gate)
      (simp_all add: velodyne_h_simps example_turn_def example_block_def example_config_def)
  then have bl: "vlp16_block velodyne_h ?rd ?scan 0 False 0 (0, empty_cloud) = Inr (Continue (40, empty_cloud))"
    using d0 by simp
  have c2: "fst (40::real, empty_cloud) = snd (vlp16_azimuth_diff velodyne_h (raw (packets ?scan ! 0)) 0
                       (1 + (if False then 1 else 0)) (fst (0::real, empty_cloud)))"
    using w1 [THEN conjunct2, THEN conjunct1, rule_format, OF bl] .
  have hd: "UPPER_BANK velodyne_h = header (blocks (raw (packets ?scan ! 0)) 0)"
    by (simp add: velodyne_h_simps example_turn_def example_block_def)
  have rot0: "uint (rotation (blocks (raw (packets ?scan ! 0)) 0)) = 35990"
    by (simp add: example_turn_def)
  have e1: "real_of_int (uint (rotation (blocks (raw (packets ?scan ! 0)) 0))) = 35990"
    by (simp add: example_turn_def)
  have e2: "vlp16_azimuth_diff velodyne_h (raw (packets ?scan ! 0)) 0 (1 + (if False then 1 else 0))
              0 = (40, 40)"
    using d0 by simp
  have open_block: "vlp16_block velodyne_h (example_rd 16) ?scan 0 False 0 (0, example_cloud 24 16)
     = (case for_loop [0..<2]
               (\<lambda>firing. for_loop [0..<16]
                  (\<lambda>dsr. vlp16_reading velodyne_h (example_rd 16) ?scan 0 False 0 35990 40 firing dsr))
               (example_cloud 24 16) of
          Inl e \<Rightarrow> Inl e
        | Inr pc \<Rightarrow> Inr (Continue (40, pc)))"
    using w4 [THEN conjunct2, THEN conjunct2, THEN conjunct1, rule_format, OF hd]
    unfolding fst_conv snd_conv e1 e2 velodyne_h_simps(7,8) fst_conv snd_conv .
  have az: "vlp16_azimuth_corrected velodyne_h 35990 40 1 15 = 23"
    using w1 [THEN conjunct2, THEN conjunct2, THEN conjunct2, THEN conjunct2, rule_format, OF k, THEN conjunct1]
      example_azimuth(3)
    by simp
  have g: "angle_gate (vlp16_azimuth_corrected velodyne_h 35990 40 1 15)
      (min_angle (config (example_rd 16))) (max_angle (config (example_rd 16))) \<and>
    0 \<le> vlp16_azimuth_corrected velodyne_h 35990 40 1 15 \<and>
    vlp16_azimuth_corrected velodyne_h 35990 40 1 15 < int (ROTATION_MAX_UNITS velodyne_h)"
    by (simp only: example_azimuth(3))
      (simp add: example_rd_simps example_config_def angle_gate_def velodyne_h_simps)
  have code: "vlp16_code velodyne_h (packets ?scan ! 0) 0 1 15 = 1000"
    by (simp add: vlp16_code_def two_bytes_def velodyne_h_simps example_turn_def example_block_def)
  have pos: "vlp16_position velodyne_h (example_correction\<lparr> laser_ring := q \<rparr>) cr sr 1000
               = (2 * cr, - (2 * sr), 0, 2)" for q cr sr
    by (simp add: vlp16_position_def example_correction_def velodyne_h_simps Let_def)
  have int2: "vlp16_intensity (example_correction\<lparr> laser_ring := q \<rparr>) 1000 100 = 100" for q
    by (simp add: vlp16_intensity_def example_correction_def Let_def)
  have dat: "data (blocks (raw (packets ?scan ! 0)) 0) 95 = 100" "data (blocks example_turn 0) 95 = 100"
    by (simp_all add: example_turn_def example_block_def)
  have u8: "float_to_uint8 100 = 100"
    by (simp add: float_to_uint8_def double_to_int_def)
  have at: "pc_at (example_cloud 24 16) (int (vlp16_col velodyne_h False 0 0 1))
              (int (num_lasers (calibration (example_rd 16))) - 1
                 - laser_ring (example_correction\<lparr> laser_ring := 15 \<rparr>)) = Inr 1"
    by (simp add: pc_at_def example_cloud_def vlp16_col_def velodyne_h_simps example_rd_simps)
  have n23: "nat (vlp16_azimuth_corrected velodyne_h 35990 40 1 15) = 23"
    using example_azimuth(3) by simp
  have rd: "vlp16_reading velodyne_h (example_rd 16) ?scan 0 False 0 35990 40 1 15 (example_cloud 24 16)
     = Inr ((example_cloud 24 16)\<lparr> points := (points (example_cloud 24 16))
              [1 := \<lparr> x = Some (2 * cos_rot_table (example_rd 16) 23),
                       y = Some (- (2 * sin_rot_table (example_rd 16) 23)),
                       z = Some 0, intensity = 100, ring = 15 \<rparr>] \<rparr>)"
    apply (subst w4 [THEN conjunct2, THEN conjunct2, THEN conjunct2, THEN conjunct1, rule_format, OF g])
    apply (simp only: Let_def n23 code)
    apply (simp add: example_rd_simps pos int2 dat velodyne_h_simps example_reading_values
        del: One_nat_def)
    apply (subst vlp16_store_Inr [where idx = 1])
     apply (simp add: example_rd_simps pc_at_def example_cloud_def vlp16_col_def velodyne_h_simps)
    apply (simp add: vlp16_cell_def pointInRange_def example_rd_simps example_config_def u8)
    done
  from d0 d1 d2 bl open_block az rd show ?thesis by blast
qed

subsection \<open>Set-up\<close>

text \<open>
  C9. The claim is that the set-up step fails whenever the calibration is missing or the
  beam count is not a supported one, and never proceeds with a default calibration. It
  does proceed: with no calibration parameter it reads the packaged file
  \<^verbatim>\<open>64e_utexas.yaml\<close> and returns 0, and with a readable file of five lasers it returns 0.
\<close>

theorem setup_proceeds_counterexample:
  "fst (RawData_setup velodyne_h None ''/opt/velodyne_pointcloud'' example_read None (example_rd 0)) = 0 \<and>
   calibration (fst (snd (RawData_setup velodyne_h None ''/opt/velodyne_pointcloud'' example_read None
     (example_rd 0)))) = example_calibration 64 \<and>
   fst (RawData_setup velodyne_h (Some ''/opt/five.yaml'') ''/opt/velodyne_pointcloud'' example_read None
     (example_rd 0)) = 0 \<and>
   num_lasers (calibration (fst (snd (RawData_setup velodyne_h (Some ''/opt/five.yaml'')
     ''/opt/velodyne_pointcloud'' example_read None (example_rd 0))))) = 5"
  by (simp add: RawData_setup_def example_read_def example_calibration_def Let_def)

text \<open>
  C9, amended. The set-up step reads the calibration from the file named by the
  calibration parameter or, when the parameter is not set, from the file
  \<^verbatim>\<open>params/64e_utexas.yaml\<close> of the package, after an error message that says so. It
  returns -1 exactly when the calibration read is not initialized, whatever the number
  of lasers, and 0 otherwise. When it returns -1 it has logged that the file cannot be
  opened and has neither built the tables nor stored the listener: they are as before
  the call. When it returns 0 the entries of the tables below \<^verbatim>\<open>ROTATION_MAX_UNITS\<close> are
  the cosine and the sine of the rotation codes and the listener is the one given. In
  both cases the decoder holds the name of the file and the calibration read.
\<close>

theorem setup_result:
  "fst (RawData_setup K calibration_param pkgPath read tf rd) =
     (if initialized (read (setup_file calibration_param pkgPath) (calibration rd)) then 0 else - 1) \<and>
   config (fst (snd (RawData_setup K calibration_param pkgPath read tf rd)))
     = (config rd)\<lparr> calibrationFile := setup_file calibration_param pkgPath \<rparr> \<and>
   calibration (fst (snd (RawData_setup K calibration_param pkgPath read tf rd)))
     = read (setup_file calibration_param pkgPath) (calibration rd) \<and>
   setup_file None pkgPath = pkgPath @ ''/params/64e_utexas.yaml'' \<and>
   setup_file (Some f) pkgPath = f \<and>
   (\<not> initialized (read (setup_file calibration_param pkgPath) (calibration rd)) \<longrightarrow>
      cos_rot_table (fst (snd (RawData_setup K calibration_param pkgPath read tf rd))) = cos_rot_table rd \<and>
      sin_rot_table (fst (snd (RawData_setup K calibration_param pkgPath read tf rd))) = sin_rot_table rd \<and>
      tf_listener (fst (snd (RawData_setup K calibration_param pkgPath read tf rd))) = tf_listener rd \<and>
      snd (snd (RawData_setup K calibration_param pkgPath read tf rd))
        = (case calibration_param of
             Some f \<Rightarrow> []
           | None \<Rightarrow> [''No calibration angles specified! Using test values!''])
          @ [''Unable to open calibration file: '' @ setup_file calibration_param pkgPath]) \<and>
   (initialized (read (setup_file calibration_param pkgPath) (calibration rd)) \<longrightarrow>
      (\<forall>i. i < ROTATION_MAX_UNITS K \<longrightarrow>
         cos_rot_table (fst (snd (RawData_setup K calibration_param pkgPath read tf rd))) i
           = cos (from_degrees (ROTATION_RESOLUTION K * real i)) \<and>
         sin_rot_table (fst (snd (RawData_setup K calibration_param pkgPath read tf rd))) i
           = sin (from_degrees (ROTATION_RESOLUTION K * real i))) \<and>
      tf_listener (fst (snd (RawData_setup K calibration_param pkgPath read tf rd))) = tf \<and>
      snd (snd (RawData_setup K calibration_param pkgPath read tf rd))
        = (case calibration_param of
             Some f \<Rightarrow> []
           | None \<Rightarrow> [''No calibration angles specified! Using test values!'']))"
  by (simp add: RawData_setup_def setup_file_def Let_def)

theorem setup_result_witness:
  "RawData_setup velodyne_h (Some ''/opt/missing.yaml'') ''/opt/velodyne_pointcloud'' example_read
     (Some failing_listener) (example_rd 0)
   = (- 1,
      (example_rd 0)\<lparr> config := example_config\<lparr> calibrationFile := ''/opt/missing.yaml'' \<rparr>,
                       calibration := (example_calibration 0)\<lparr> initialized := False \<rparr> \<rparr>,
      [''Unable to open calibration file: /opt/missing.yaml'']) \<and>
   fst (RawData_setup velodyne_h None ''/opt/velodyne_pointcloud'' example_read
          (Some failing_listener) (example_rd 0)) = 0 \<and>
   calibrationFile (config (fst (snd (RawData_setup velodyne_h None ''/opt/velodyne_pointcloud''
          example_read (Some failing_listener) (example_rd 0)))))
     = ''/opt/velodyne_pointcloud/params/64e_utexas.yaml'' \<and>
   num_lasers (calibration (fst (snd (RawData_setup velodyne_h None ''/opt/velodyne_pointcloud''
          example_read (Some failing_listener) (example_rd 0))))) = 64 \<and>
   cos_rot_table (fst (snd (RawData_setup velodyne_h None ''/opt/velodyne_pointcloud''
          example_read (Some failing_listener) (example_rd 0)))) 18000 = - 1 \<and>
   tf_listener (fst (snd (RawData_setup velodyne_h None ''/opt/velodyne_pointcloud''
          example_read (Some failing_listener) (example_rd 0)))) = Some failing_listener \<and>
   snd (snd (RawData_setup velodyne_h None ''/opt/velodyne_pointcloud''
          example_read (Some failing_listener) (example_rd 0)))
     = [''No calibration angles specified! Using test values!'']"
proof -
  let ?p = "''/opt/velodyne_pointcloud''"
  let ?A = "RawData_setup velodyne_h (Some ''/opt/missing.yaml'') ?p example_read
              (Some failing_listener) (example_rd 0)"
  let ?B = "RawData_setup velodyne_h None ?p example_read (Some failing_listener) (example_rd 0)"
  note a = setup_result [where K = velodyne_h and calibration_param = "Some ''/opt/missing.yaml''"
      and pkgPath = ?p and read = example_read and tf = "Some failing_listener" and rd = "example_rd 0"
      and f = "''/opt/missing.yaml''"]
  note b = setup_result [where K = velodyne_h and calibration_param = None
      and pkgPath = ?p and read = example_read and tf = "Some failing_listener" and rd = "example_rd 0"]
  have fa: "setup_file (Some ''/opt/missing.yaml'') ?p = ''/opt/missing.yaml''"
    using a by blast
  have fb: "setup_file None ?p = ''/opt/velodyne_pointcloud/params/64e_utexas.yaml''"
    using b by simp
  have ia: "\<not> initialized (read_a)" if "read_a = example_read ''/opt/missing.yaml'' (calibration (example_rd 0))"
    for read_a using that by (simp add: example_read_def)
  have ib: "initialized (example_read ''/opt/velodyne_pointcloud/params/64e_utexas.yaml''
              (calibration (example_rd 0)))"
    by (simp add: example_read_def example_calibration_def)
  have na: "\<not> initialized (example_read (setup_file (Some ''/opt/missing.yaml'') ?p) (calibration (example_rd 0)))"
    unfolding fa by (rule ia) simp
  have nb: "initialized (example_read (setup_file None ?p) (calibration (example_rd 0)))"
    unfolding fb by (rule ib)
  have A1: "fst ?A = - 1" using a na by simp
  have A2: "config (fst (snd ?A)) = example_config\<lparr> calibrationFile := ''/opt/missing.yaml'' \<rparr>"
    using a fa by (simp add: example_rd_simps)
  have A3: "calibration (fst (snd ?A)) = (example_calibration 0)\<lparr> initialized := False \<rparr>"
    using a fa by (simp add: example_read_def example_rd_def)
  have A4: "cos_rot_table (fst (snd ?A)) = cos_rot_table (example_rd 0) \<and>
            sin_rot_table (fst (snd ?A)) = sin_rot_table (example_rd 0) \<and>
            tf_listener (fst (snd ?A)) = tf_listener (example_rd 0) \<and>
            snd (snd ?A) = [''Unable to open calibration file: /opt/missing.yaml'']"
    using a [THEN conjunct2, THEN conjunct2, THEN conjunct2, THEN conjunct2, THEN conjunct2,
        THEN conjunct1, rule_format, OF na] fa
    by simp
  have A: "?A = (- 1,
      (example_rd 0)\<lparr> config := example_config\<lparr> calibrationFile := ''/opt/missing.yaml'' \<rparr>,
                       calibration := (example_calibration 0)\<lparr> initialized := False \<rparr> \<rparr>,
      [''Unable to open calibration file: /opt/missing.yaml''])"
  proof -
    have "fst (snd ?A) = (example_rd 0)\<lparr> config := example_config\<lparr> calibrationFile := ''/opt/missing.yaml'' \<rparr>,
                       calibration := (example_calibration 0)\<lparr> initialized := False \<rparr> \<rparr>"
      using A2 A3 A4 by (cases "fst (snd ?A)") (simp add: example_rd_def)
    with A1 A4 show ?thesis by (cases ?A) simp
  qed
  note B' = b [THEN conjunct2, THEN conjunct2, THEN conjunct2, THEN conjunct2, THEN conjunct2,
        THEN conjunct2, rule_format, OF nb]
  have B1: "fst ?B = 0" using b nb by simp
  have B2: "calibrationFile (config (fst (snd ?B))) = ''/opt/velodyne_pointcloud/params/64e_utexas.yaml''"
    using b fb by simp
  have B3: "num_lasers (calibration (fst (snd ?B))) = 64"
    using b fb by (simp add: example_read_def example_calibration_def)
  have lt: "(18000::nat) < ROTATION_MAX_UNITS velodyne_h" by (simp add: velodyne_h_simps)
  have rr: "ROTATION_RESOLUTION velodyne_h = 1 / 100" by (simp add: velodyne_h_def)
  have B4: "cos_rot_table (fst (snd ?B)) 18000 = - 1"
    using B' [THEN conjunct1, rule_format, OF lt]
    by (simp add: rr from_degrees_def)
  have B5: "tf_listener (fst (snd ?B)) = Some failing_listener"
    using B' by simp
  have B6: "snd (snd ?B) = [''No calibration angles specified! Using test values!'']"
    using B' by simp
  from A B1 B2 B3 B4 B5 B6 show ?thesis by blast
qed

subsection \<open>The range gate\<close>

text \<open>
  C6. A reading that passes the angle gate and whose corrected distance is outside the
  range: the legacy decoder advances its counter and sets the ring of the cell, nothing
  else, so that a cell with the default position and intensity keeps them; the 16-beam
  decoder assigns to the cell the default point with the ring of the laser. In both
  decoders no other cell changes. The conditions are those under which the reads of the
  tables and the write to the cell are in bounds.
\<close>

theorem range_gate_keeps_ring:
  "(angle_gate (uint (rotation (blocks (raw pkt) i))) (min_angle (config rd)) (max_angle (config rd)) \<and>
    uint (rotation (blocks (raw pkt) i)) < int (ROTATION_MAX_UNITS K) \<and>
    num_lasers (calibration rd) \<noteq> 0 \<and>
    pc_at pc (int (n div num_lasers (calibration rd)))
      (int (num_lasers (calibration rd)) - 1 - laser_ring (unpack_corrections K rd pkt i j)) = Inr idx \<and>
    \<not> pointInRange (config rd)
        (reading_distance K (unpack_corrections K rd pkt i j) (unpack_code K pkt i j))
    \<longrightarrow> unpack_reading K rd scanMsg pkt i j (n, pc) =
          Inr (n + 1, pc\<lparr> points := (points pc)[idx :=
                 (points pc ! idx)\<lparr> ring := laser_ring (unpack_corrections K rd pkt i j) \<rparr>] \<rparr>)) \<and>
   (x p = None \<and> y p = None \<and> z p = None \<and> intensity p = 0
    \<longrightarrow> (p :: VPoint)\<lparr> ring := r \<rparr> = nan_point\<lparr> ring := r \<rparr>) \<and>
   (angle_gate (vlp16_azimuth_corrected K az d firing dsr) (min_angle (config rd)) (max_angle (config rd)) \<and>
    0 \<le> vlp16_azimuth_corrected K az d firing dsr \<and>
    vlp16_azimuth_corrected K az d firing dsr < int (ROTATION_MAX_UNITS K) \<and>
    pc_at pc (int (vlp16_col K dual packet block firing))
      (int (num_lasers (calibration rd)) - 1 - laser_ring (laser_corrections (calibration rd) dsr)) = Inr idx' \<and>
    \<not> pointInRange (config rd)
        (reading_distance K (laser_corrections (calibration rd) dsr)
           (vlp16_code K (packets scanMsg ! packet) block firing dsr))
    \<longrightarrow> vlp16_reading K rd scanMsg packet dual block az d firing dsr pc =
          Inr (pc\<lparr> points := (points pc)[idx' :=
                 nan_point\<lparr> ring := laser_ring (laser_corrections (calibration rd) dsr) \<rparr>] \<rparr>))"
proof (intro conjI impI)
  assume a: "angle_gate (uint (rotation (blocks (raw pkt) i))) (min_angle (config rd)) (max_angle (config rd)) \<and>
    uint (rotation (blocks (raw pkt) i)) < int (ROTATION_MAX_UNITS K) \<and>
    num_lasers (calibration rd) \<noteq> 0 \<and>
    pc_at pc (int (n div num_lasers (calibration rd)))
      (int (num_lasers (calibration rd)) - 1 - laser_ring (unpack_corrections K rd pkt i j)) = Inr idx \<and>
    \<not> pointInRange (config rd)
        (reading_distance K (unpack_corrections K rd pkt i j) (unpack_code K pkt i j))"
  then show "unpack_reading K rd scanMsg pkt i j (n, pc) =
          Inr (n + 1, pc\<lparr> points := (points pc)[idx :=
                 (points pc ! idx)\<lparr> ring := laser_ring (unpack_corrections K rd pkt i j) \<rparr>] \<rparr>)"
    by (simp add: unpack_reading_gated Let_def unpack_store_Inr unpack_cell_out_of_range)
next
  assume "x p = None \<and> y p = None \<and> z p = None \<and> intensity p = 0"
  then show "p\<lparr> ring := r \<rparr> = nan_point\<lparr> ring := r \<rparr>"
    by (cases p) (simp add: nan_point_def)
next
  assume a: "angle_gate (vlp16_azimuth_corrected K az d firing dsr) (min_angle (config rd)) (max_angle (config rd)) \<and>
    0 \<le> vlp16_azimuth_corrected K az d firing dsr \<and>
    vlp16_azimuth_corrected K az d firing dsr < int (ROTATION_MAX_UNITS K) \<and>
    pc_at pc (int (vlp16_col K dual packet block firing))
      (int (num_lasers (calibration rd)) - 1 - laser_ring (laser_corrections (calibration rd) dsr)) = Inr idx' \<and>
    \<not> pointInRange (config rd)
        (reading_distance K (laser_corrections (calibration rd) dsr)
           (vlp16_code K (packets scanMsg ! packet) block firing dsr))"
  then show "vlp16_reading K rd scanMsg packet dual block az d firing dsr pc =
          Inr (pc\<lparr> points := (points pc)[idx' :=
                 nan_point\<lparr> ring := laser_ring (laser_corrections (calibration rd) dsr) \<rparr>] \<rparr>)"
    by (simp add: vlp16_reading_gated Let_def vlp16_store_Inr vlp16_cell_out_of_range)
qed

theorem range_gate_keeps_ring_witness:
  "unpack_reading velodyne_h
     (example_rd 32\<lparr> config := example_config\<lparr> min_range := 10 \<rparr>, tf_listener := None \<rparr>)
     example_scan example_packet 0 0 (0, example_cloud 12 32)
     = Inr (1, (example_cloud 12 32)\<lparr> points :=
                  (points (example_cloud 12 32))[372 := nan_point\<lparr> ring := 0 \<rparr>] \<rparr>) \<and>
   vlp16_reading velodyne_h
     (example_rd 16\<lparr> config := example_config\<lparr> min_range := 10 \<rparr>, tf_listener := None \<rparr>)
     example_scan 0 False 0 0 0 0 0 (example_cloud 24 16)
     = Inr ((example_cloud 24 16)\<lparr> points :=
              (points (example_cloud 24 16))[360 := nan_point\<lparr> ring := 0 \<rparr>] \<rparr>)"
proof -
  let ?cfg = "example_config\<lparr> min_range := 10 \<rparr>"
  let ?rdA = "example_rd 32\<lparr> config := ?cfg, tf_listener := None \<rparr>"
  let ?rdB = "example_rd 16\<lparr> config := ?cfg, tf_listener := None \<rparr>"
  have cfg: "min_angle ?cfg = 0" "max_angle ?cfg = 36000" "min_range ?cfg = 10"
    by (simp_all add: example_config_def)
  have g: "angle_gate 0 0 36000" by (simp add: angle_gate_def)
  have rot: "uint (rotation (blocks (raw example_packet) 0)) = 0"
    by (simp add: example_packet_def example_block_def)
  note nl = example_rd_simps
  have hA: "angle_gate (uint (rotation (blocks (raw example_packet) 0)))
         (min_angle (config ?rdA)) (max_angle (config ?rdA)) \<and>
       uint (rotation (blocks (raw example_packet) 0)) < int (ROTATION_MAX_UNITS velodyne_h) \<and>
       num_lasers (calibration ?rdA) \<noteq> 0 \<and>
       pc_at (example_cloud 12 32) (int (0 div num_lasers (calibration ?rdA)))
         (int (num_lasers (calibration ?rdA)) - 1
            - laser_ring (unpack_corrections velodyne_h ?rdA example_packet 0 0)) = Inr 372 \<and>
       \<not> pointInRange (config ?rdA)
           (reading_distance velodyne_h (unpack_corrections velodyne_h ?rdA example_packet 0 0)
              (unpack_code velodyne_h example_packet 0 0))"
    by (simp add: rot cfg g nl velodyne_h_simps example_reading_values example_cloud_at
        pointInRange_def)
  have hB: "angle_gate (vlp16_azimuth_corrected velodyne_h 0 0 0 0)
         (min_angle (config ?rdB)) (max_angle (config ?rdB)) \<and>
       0 \<le> vlp16_azimuth_corrected velodyne_h 0 0 0 0 \<and>
       vlp16_azimuth_corrected velodyne_h 0 0 0 0 < int (ROTATION_MAX_UNITS velodyne_h) \<and>
       pc_at (example_cloud 24 16) (int (vlp16_col velodyne_h False 0 0 0))
         (int (num_lasers (calibration ?rdB)) - 1
            - laser_ring (laser_corrections (calibration ?rdB) 0)) = Inr 360 \<and>
       \<not> pointInRange (config ?rdB)
           (reading_distance velodyne_h (laser_corrections (calibration ?rdB) 0)
              (vlp16_code velodyne_h (packets example_scan ! 0) 0 0 0))"
    by (simp add: example_azimuth cfg g nl velodyne_h_simps example_reading_values
        example_cloud_at pointInRange_def vlp16_col_def)
  note w = range_gate_keeps_ring [where K = velodyne_h and pkt = example_packet and i = 0 and j = 0
      and rd = ?rdA and n = 0 and pc = "example_cloud 12 32" and idx = 372
      and scanMsg = example_scan]
  note v = range_gate_keeps_ring [where K = velodyne_h and rd = ?rdB and az = 0 and d = 0
      and firing = 0 and dsr = 0 and dual = False and packet = 0 and block = 0
      and pc = "example_cloud 24 16" and idx' = 360 and scanMsg = example_scan]
  have A: "unpack_reading velodyne_h ?rdA example_scan example_packet 0 0 (0, example_cloud 12 32)
     = Inr (1, (example_cloud 12 32)\<lparr> points :=
                  (points (example_cloud 12 32))[372 := nan_point\<lparr> ring := 0 \<rparr>] \<rparr>)"
    using w [THEN conjunct1, rule_format, OF hA]
    by (simp add: example_reading_values example_cloud_def)
  have B: "vlp16_reading velodyne_h ?rdB example_scan 0 False 0 0 0 0 0 (example_cloud 24 16)
     = Inr ((example_cloud 24 16)\<lparr> points :=
              (points (example_cloud 24 16))[360 := nan_point\<lparr> ring := 0 \<rparr>] \<rparr>)"
    using v [THEN conjunct2, THEN conjunct2, rule_format, OF hB]
    by (simp add: nl)
  from A B show ?thesis by simp
qed

subsection \<open>A failure of the transform\<close>

text \<open>
  C8. The claim is that a point whose transform fails keeps the default position and the
  default intensity. In the 16-beam decoder it does. The legacy decoder has written the
  intensity (line 316) before it calls the transform (line 341): with a listener that
  fails, the first reading of the example packet leaves the intensity of its cell at
  about 107.75, and the position at the default.
\<close>

theorem transform_failure_keeps_intensity:
  "unpack_reading velodyne_h
     (example_rd 32\<lparr> config := example_config\<lparr> frame_id := ''odom'' \<rparr>,
                     tf_listener := Some failing_listener \<rparr>)
     example_scan example_packet 0 0 (0, example_cloud 12 32)
     = Inr (1, (example_cloud 12 32)\<lparr> points :=
                  (points (example_cloud 12 32))
                    [372 := nan_point\<lparr> intensity := example_intensity, ring := 0 \<rparr>] \<rparr>) \<and>
   107 < example_intensity \<and>
   vlp16_reading velodyne_h
     (example_rd 16\<lparr> config := example_config\<lparr> frame_id := ''odom'' \<rparr>,
                     tf_listener := Some failing_listener \<rparr>)
     example_scan 0 False 0 0 0 0 0 (example_cloud 24 16)
     = Inr ((example_cloud 24 16)\<lparr> points :=
              (points (example_cloud 24 16))[360 := nan_point\<lparr> ring := 0 \<rparr>] \<rparr>)"
proof -
  let ?cfg = "example_config\<lparr> frame_id := ''odom'' \<rparr>"
  let ?rdA = "example_rd 32\<lparr> config := ?cfg, tf_listener := Some failing_listener \<rparr>"
  let ?rdB = "example_rd 16\<lparr> config := ?cfg, tf_listener := Some failing_listener \<rparr>"
  have cfg: "min_angle ?cfg = 0" "max_angle ?cfg = 36000" "min_range ?cfg = 0.4"
    "max_range ?cfg = 130" "frame_id ?cfg = ''odom''"
    by (simp_all add: example_config_def)
  have g: "angle_gate 0 0 36000" by (simp add: angle_gate_def)
  have rot: "uint (rotation (blocks (raw example_packet) 0)) = 0"
    by (simp add: example_packet_def example_block_def)
  note nl = example_rd_simps
  have int1: "unpack_intensity (example_correction\<lparr> laser_ring := 0 \<rparr>) 1000 100 = example_intensity"
    by (simp add: unpack_intensity_def example_intensity_def example_correction_def Let_def)
  have d2: "data (blocks (raw example_packet) 0) (Suc (Suc 0)) = 100"
    by (simp add: example_packet_def example_block_def)
  have A: "unpack_reading velodyne_h ?rdA example_scan example_packet 0 0 (0, example_cloud 12 32)
     = Inr (1, (example_cloud 12 32)\<lparr> points :=
                  (points (example_cloud 12 32))
                    [372 := nan_point\<lparr> intensity := example_intensity, ring := 0 \<rparr>] \<rparr>)"
    apply (subst unpack_reading_gated)
      apply (simp add: rot cfg g)
     apply (simp add: rot velodyne_h_simps)
    apply (simp add: Let_def example_reading_values int1 del: One_nat_def)
    apply (subst unpack_store_Inr [where idx = 372])
      apply (simp add: nl example_cloud_at)
     apply (simp add: nl)
    apply (simp add: unpack_cell_def pointInRange_def cfg failing_listener_def example_cloud_def
        nan_point_def int1 d2)
    done
  have B: "vlp16_reading velodyne_h ?rdB example_scan 0 False 0 0 0 0 0 (example_cloud 24 16)
     = Inr ((example_cloud 24 16)\<lparr> points :=
              (points (example_cloud 24 16))[360 := nan_point\<lparr> ring := 0 \<rparr>] \<rparr>)"
    apply (subst vlp16_reading_gated)
       apply (simp add: example_azimuth cfg g)
      apply (simp add: example_azimuth)
     apply (simp add: example_azimuth velodyne_h_simps)
    apply (simp add: Let_def example_reading_values nl del: One_nat_def)
    apply (subst vlp16_store_Inr [where idx = 360])
     apply (simp add: nl example_cloud_at vlp16_col_def)
    apply (simp add: vlp16_cell_def pointInRange_def cfg failing_listener_def example_cloud_def
        nan_point_def)
    done
  have C: "107 < example_intensity"
    by (simp add: example_intensity_def)
  from A B C show ?thesis by simp
qed

subsection \<open>The counter of the legacy decoder\<close>

lemma for_loop_append:
  "for_loop (ms @ ns) body s =
     (case for_loop ms body s of Inl e \<Rightarrow> Inl e | Inr s' \<Rightarrow> for_loop ns body s')"
  by (induction ms arbitrary: s) (simp_all split: sum.split)

lemma for_loop_map: "for_loop (map g ns) body = for_loop ns (\<lambda>n. body (g n))"
proof
  fix s show "for_loop (map g ns) body s = for_loop ns (\<lambda>n. body (g n)) s"
    by (induction ns arbitrary: s) (simp_all split: sum.split)
qed

lemma for_loop_concat_map:
  "for_loop (concat (map g ns)) body = for_loop ns (\<lambda>n. for_loop (g n) body)"
proof
  fix s show "for_loop (concat (map g ns)) body s = for_loop ns (\<lambda>n. for_loop (g n) body) s"
    by (induction ns arbitrary: s) (simp_all add: for_loop_append split: sum.split)
qed

lemma unpack_packets_fold:
  "unpack_packets K rd scanMsg st = legacy_fold K rd scanMsg (legacy_readings K scanMsg) st"
  by (simp add: unpack_packets_def unpack_packet_def unpack_block_def legacy_fold_def
      legacy_readings_def for_loop_concat_map for_loop_map)

lemma unpack_store_counter:
  "unpack_store rd scanMsg pkt c xc yc zc d i n pc = Inr (n', pc') \<Longrightarrow> n' = n + 1"
proof (cases "num_lasers (calibration rd) = 0")
  case True
  then show "unpack_store rd scanMsg pkt c xc yc zc d i n pc = Inr (n', pc') \<Longrightarrow> n' = n + 1"
    by (simp add: unpack_store_zero)
next
  case False
  assume r: "unpack_store rd scanMsg pkt c xc yc zc d i n pc = Inr (n', pc')"
  show "n' = n + 1"
  proof (cases "pc_at pc (int (n div num_lasers (calibration rd)))
                 (int (num_lasers (calibration rd)) - 1 - laser_ring c)")
    case (Inl e)
    from unpack_store_Inl [OF this False] r show ?thesis by simp
  next
    case (Inr idx)
    from unpack_store_Inr [OF this False] r show ?thesis by simp
  qed
qed

lemma unpack_reading_counter:
  assumes "unpack_reading K rd scanMsg pkt i j (n, pc) = Inr (n', pc')"
  shows "n' = n + (if angle_gate (uint (rotation (blocks (raw pkt) i)))
                        (min_angle (config rd)) (max_angle (config rd)) then 1 else 0)"
proof (cases "angle_gate (uint (rotation (blocks (raw pkt) i))) (min_angle (config rd)) (max_angle (config rd))")
  case False
  with assms show ?thesis by (simp add: unpack_reading_skip)
next
  case True
  with assms show ?thesis
    unfolding unpack_reading_def Let_def
    by (auto split: sum.splits prod.splits dest: unpack_store_counter)
qed

lemma legacy_fold_counter:
  "legacy_fold K rd scanMsg rs (n, pc) = Inr (n', pc') \<Longrightarrow>
     n' = n + length (filter (legacy_gated rd scanMsg) rs)"
proof (induction rs arbitrary: n pc)
  case Nil
  then show ?case by (simp add: legacy_fold_def)
next
  case (Cons r rs)
  from Cons.prems obtain n1 pc1 where
    1: "unpack_reading K rd scanMsg (packets scanMsg ! fst r) (fst (snd r)) (snd (snd r)) (n, pc) = Inr (n1, pc1)"
    and 2: "legacy_fold K rd scanMsg rs (n1, pc1) = Inr (n', pc')"
    by (auto simp: legacy_fold_def split: sum.splits)
  from unpack_reading_counter [OF 1] Cons.IH [OF 2] show ?case
    by (simp add: legacy_gated_def)
qed

lemma unpack_cell_ring:
  "ring (unpack_cell rd scanMsg pkt c xc yc zc d i target p) = laser_ring c"
  by (simp add: unpack_cell_def Let_def split: option.split)

lemma unpack_reading_places_ring:
  assumes "angle_gate (uint (rotation (blocks (raw pkt) i))) (min_angle (config rd)) (max_angle (config rd))"
    and "uint (rotation (blocks (raw pkt) i)) < int (ROTATION_MAX_UNITS K)"
    and "num_lasers (calibration rd) \<noteq> 0"
    and "pc_at pc (int (n div num_lasers (calibration rd)))
           (int (num_lasers (calibration rd)) - 1 - laser_ring (unpack_corrections K rd pkt i j)) = Inr idx"
  shows "\<exists>pc'. unpack_reading K rd scanMsg pkt i j (n, pc) = Inr (n + 1, pc') \<and>
           ring (points pc' ! idx) = laser_ring (unpack_corrections K rd pkt i j)"
proof -
  from assms(4) have "idx < length (points pc)" by (simp add: pc_at_Inr)
  then show ?thesis
    using assms
    by (simp add: unpack_reading_gated Let_def unpack_store_Inr unpack_cell_ring)
qed

text \<open>
  C2. The loops of the legacy decoder are the fold of the body over the readings of the
  scan in the order packets, blocks, readings. Before any reading the counter is the
  number of earlier readings whose block passed the angle gate. A reading that does not
  pass leaves the state as it is. A reading that passes, when its cell
  (column \<open>n div num_lasers\<close>, row \<open>num_lasers - 1 - ring\<close>, with the counter \<open>n\<close> before the
  advance) is in the cloud, advances the counter by one and leaves the ring of its laser
  in that cell, whatever the range gate and the transform do.
\<close>

theorem legacy_counter:
  "unpack_packets K rd scanMsg st = legacy_fold K rd scanMsg (legacy_readings K scanMsg) st \<and>
   (legacy_readings K scanMsg = pre @ (nxt, i, j) # post \<and>
    legacy_fold K rd scanMsg pre (0, pc0) = Inr (n, pc) \<longrightarrow>
      n = length (filter (legacy_gated rd scanMsg) pre) \<and>
      (\<not> legacy_gated rd scanMsg (nxt, i, j) \<longrightarrow>
         unpack_reading K rd scanMsg (packets scanMsg ! nxt) i j (n, pc) = Inr (n, pc)) \<and>
      (legacy_gated rd scanMsg (nxt, i, j) \<and>
       uint (rotation (blocks (raw (packets scanMsg ! nxt)) i)) < int (ROTATION_MAX_UNITS K) \<and>
       num_lasers (calibration rd) \<noteq> 0 \<and>
       pc_at pc (int (n div num_lasers (calibration rd)))
         (int (num_lasers (calibration rd)) - 1
            - laser_ring (unpack_corrections K rd (packets scanMsg ! nxt) i j)) = Inr idx \<longrightarrow>
         (\<exists>pc'. unpack_reading K rd scanMsg (packets scanMsg ! nxt) i j (n, pc) = Inr (n + 1, pc') \<and>
            ring (points pc' ! idx)
              = laser_ring (unpack_corrections K rd (packets scanMsg ! nxt) i j))))"
proof (intro conjI impI)
  show "unpack_packets K rd scanMsg st = legacy_fold K rd scanMsg (legacy_readings K scanMsg) st"
    by (rule unpack_packets_fold)
next
  assume "legacy_readings K scanMsg = pre @ (nxt, i, j) # post \<and>
    legacy_fold K rd scanMsg pre (0, pc0) = Inr (n, pc)"
  then show "n = length (filter (legacy_gated rd scanMsg) pre)"
    using legacy_fold_counter [of K rd scanMsg pre 0 pc0 n pc] by simp
next
  assume "\<not> legacy_gated rd scanMsg (nxt, i, j)"
  then show "unpack_reading K rd scanMsg (packets scanMsg ! nxt) i j (n, pc) = Inr (n, pc)"
    by (simp add: legacy_gated_def unpack_reading_skip)
next
  assume "legacy_gated rd scanMsg (nxt, i, j) \<and>
       uint (rotation (blocks (raw (packets scanMsg ! nxt)) i)) < int (ROTATION_MAX_UNITS K) \<and>
       num_lasers (calibration rd) \<noteq> 0 \<and>
       pc_at pc (int (n div num_lasers (calibration rd)))
         (int (num_lasers (calibration rd)) - 1
            - laser_ring (unpack_corrections K rd (packets scanMsg ! nxt) i j)) = Inr idx"
  then show "\<exists>pc'. unpack_reading K rd scanMsg (packets scanMsg ! nxt) i j (n, pc) = Inr (n + 1, pc') \<and>
            ring (points pc' ! idx)
              = laser_ring (unpack_corrections K rd (packets scanMsg ! nxt) i j)"
    by (intro unpack_reading_places_ring) (simp_all add: legacy_gated_def)
qed

lemma legacy_readings_first:
  assumes "packets scanMsg \<noteq> []" "0 < BLOCKS_PER_PACKET K" "0 < SCANS_PER_BLOCK K"
  shows "legacy_readings K scanMsg = (0, 0, 0) # tl (legacy_readings K scanMsg)"
proof -
  have "legacy_readings K scanMsg \<noteq> [] \<and> hd (legacy_readings K scanMsg) = (0, 0, 0)"
    using assms by (simp add: legacy_readings_def upt_rec [of 0])
  then show ?thesis by (cases "legacy_readings K scanMsg") simp_all
qed

theorem legacy_counter_witness:
  "\<exists>pc'. unpack_reading velodyne_h (example_rd 32) example_scan example_packet 0 0 (0, example_cloud 12 32)
            = Inr (1, pc') \<and> ring (points pc' ! 372) = 0"
proof -
  let ?post = "tl (legacy_readings velodyne_h example_scan)"
  have r: "legacy_readings velodyne_h example_scan = [] @ (0, 0, 0) # ?post"
    using legacy_readings_first [of example_scan velodyne_h]
    by (simp add: example_scan_def velodyne_h_simps)
  have f: "legacy_fold velodyne_h (example_rd 32) example_scan [] (0, example_cloud 12 32)
             = Inr (0, example_cloud 12 32)"
    by (simp add: legacy_fold_def)
  have p: "packets example_scan ! 0 = example_packet" by (simp add: example_scan_def)
  have rot: "uint (rotation (blocks (raw example_packet) 0)) = 0"
    by (simp add: example_packet_def example_block_def)
  have g: "legacy_gated (example_rd 32) example_scan (0, 0, 0)"
    by (simp add: legacy_gated_def p rot example_rd_simps example_config_def angle_gate_def)
  have h: "uint (rotation (blocks (raw (packets example_scan ! 0)) 0)) < int (ROTATION_MAX_UNITS velodyne_h) \<and>
       num_lasers (calibration (example_rd 32)) \<noteq> 0 \<and>
       pc_at (example_cloud 12 32) (int (0 div num_lasers (calibration (example_rd 32))))
         (int (num_lasers (calibration (example_rd 32))) - 1
            - laser_ring (unpack_corrections velodyne_h (example_rd 32) (packets example_scan ! 0) 0 0)) = Inr 372"
    by (simp add: p rot example_corrections example_rd_simps velodyne_h_simps example_cloud_at)
  note w = legacy_counter [where K = velodyne_h and rd = "example_rd 32" and scanMsg = example_scan
      and pre = "[]" and nxt = 0 and i = 0 and j = 0 and post = ?post
      and ?pc0.0 = "example_cloud 12 32" and n = 0 and pc = "example_cloud 12 32" and idx = 372]
  from w [THEN conjunct2, rule_format, OF conjI [OF r f], THEN conjunct2, THEN conjunct2,
      rule_format, OF conjI [OF g h]]
  show ?thesis
    by (simp add: p example_corrections example_rd_simps)
qed

subsection \<open>Bounds of the accesses\<close>

lemma length_resize: "length (resize xs n v) = n"
  by (simp add: resize_def)

lemma pc_at_in_bounds:
  assumes "1 < height pc" "c < width pc" "0 \<le> r" "r < int (height pc)"
    and "length (points pc) = width pc * height pc"
  shows "\<exists>idx. pc_at pc (int c) r = Inr idx"
proof -
  have "r + 1 \<le> int (height pc)" using assms(4) by simp
  then have "(r + 1) * int (width pc) \<le> int (height pc) * int (width pc)"
    by (intro mult_right_mono) simp_all
  then have "r * int (width pc) + int c < int (height pc) * int (width pc)"
    using assms(2) by (simp add: algebra_simps)
  moreover have "0 \<le> r * int (width pc) + int c" using assms(3) by simp
  ultimately show ?thesis
    using assms(1,5) by (simp add: pc_at_def Let_def mult.commute)
qed

lemma cloud_dims_update:
  "cloud_dims w h pc \<Longrightarrow> cloud_dims w h (pc\<lparr> points := (points pc)[idx := p] \<rparr>)"
  by (simp add: cloud_dims_def)

lemma unpack_reading_ok:
  assumes L: "1 < num_lasers (calibration rd)"
    and rk: "0 \<le> laser_ring (unpack_corrections K rd pkt i j) \<and>
             laser_ring (unpack_corrections K rd pkt i j) < int (num_lasers (calibration rd))"
    and rot: "uint (rotation (blocks (raw pkt) i)) < int (ROTATION_MAX_UNITS K)"
    and dims: "cloud_dims w (num_lasers (calibration rd)) pc"
    and n: "n < w * num_lasers (calibration rd)"
  shows "\<exists>n' pc'. unpack_reading K rd scanMsg pkt i j (n, pc) = Inr (n', pc') \<and> n' \<le> n + 1 \<and>
           cloud_dims w (num_lasers (calibration rd)) pc'"
proof (cases "angle_gate (uint (rotation (blocks (raw pkt) i))) (min_angle (config rd)) (max_angle (config rd))")
  case False
  then show ?thesis using dims by (simp add: unpack_reading_skip)
next
  case True
  let ?L = "num_lasers (calibration rd)"
  let ?c = "unpack_corrections K rd pkt i j"
  have col: "n div ?L < width pc"
    using n dims L by (simp add: cloud_dims_def less_mult_imp_div_less)
  have row: "0 \<le> int ?L - 1 - laser_ring ?c" "int ?L - 1 - laser_ring ?c < int (height pc)"
    using rk dims by (simp_all add: cloud_dims_def)
  from pc_at_in_bounds [OF _ col row] dims L
  obtain idx where at: "pc_at pc (int (n div ?L)) (int ?L - 1 - laser_ring ?c) = Inr idx"
    by (auto simp: cloud_dims_def)
  have L0: "?L \<noteq> 0" using L by simp
  show ?thesis
    using dims
    by (simp add: unpack_reading_gated [OF True rot] Let_def unpack_store_Inr [OF at L0]
        cloud_dims_update)
qed

lemma legacy_fold_ok:
  assumes L: "1 < num_lasers (calibration rd)"
    and rings: "\<forall>r \<in> set rs.
                 0 \<le> laser_ring (unpack_corrections K rd (packets scanMsg ! fst r) (fst (snd r)) (snd (snd r))) \<and>
                 laser_ring (unpack_corrections K rd (packets scanMsg ! fst r) (fst (snd r)) (snd (snd r)))
                   < int (num_lasers (calibration rd))"
    and rots: "\<forall>r \<in> set rs. uint (rotation (blocks (raw (packets scanMsg ! fst r)) (fst (snd r))))
                 < int (ROTATION_MAX_UNITS K)"
    and dims: "cloud_dims w (num_lasers (calibration rd)) pc"
    and n: "n + length rs \<le> w * num_lasers (calibration rd)"
  shows "\<exists>n' pc'. legacy_fold K rd scanMsg rs (n, pc) = Inr (n', pc') \<and> n' \<le> n + length rs \<and>
           cloud_dims w (num_lasers (calibration rd)) pc'"
  using rings rots dims n
proof (induction rs arbitrary: n pc)
  case Nil
  then show ?case by (simp add: legacy_fold_def)
next
  case (Cons r rs)
  from Cons.prems have rot: "uint (rotation (blocks (raw (packets scanMsg ! fst r)) (fst (snd r))))
                 < int (ROTATION_MAX_UNITS K)" and n: "n < w * num_lasers (calibration rd)"
    and rk: "0 \<le> laser_ring (unpack_corrections K rd (packets scanMsg ! fst r) (fst (snd r)) (snd (snd r))) \<and>
             laser_ring (unpack_corrections K rd (packets scanMsg ! fst r) (fst (snd r)) (snd (snd r)))
               < int (num_lasers (calibration rd))"
    by simp_all
  from unpack_reading_ok [OF L rk rot Cons.prems(3) n]
  obtain n1 pc1 where
    1: "unpack_reading K rd scanMsg (packets scanMsg ! fst r) (fst (snd r)) (snd (snd r)) (n, pc) = Inr (n1, pc1)"
    and n1: "n1 \<le> n + 1" and d1: "cloud_dims w (num_lasers (calibration rd)) pc1"
    by blast
  have "n1 + length rs \<le> w * num_lasers (calibration rd)"
    using n1 Cons.prems(4) by simp
  from Cons.IH [OF _ _ d1 this] Cons.prems(1,2)
  obtain n' pc' where 2: "legacy_fold K rd scanMsg rs (n1, pc1) = Inr (n', pc')"
    and n': "n' \<le> n1 + length rs" and d': "cloud_dims w (num_lasers (calibration rd)) pc'"
    by auto
  show ?case
    using 1 2 n' n1 d' by (simp add: legacy_fold_def)
qed

lemma legacy_readings_length:
  "length (legacy_readings K scanMsg)
     = length (packets scanMsg) * (BLOCKS_PER_PACKET K * SCANS_PER_BLOCK K)"
  by (simp add: legacy_readings_def length_concat comp_def sum_list_triv)

lemma legacy_readings_set:
  "r \<in> set (legacy_readings K scanMsg) \<Longrightarrow>
     fst r < length (packets scanMsg) \<and> fst (snd r) < BLOCKS_PER_PACKET K \<and>
     snd (snd r) < SCANS_PER_BLOCK K"
  by (auto simp: legacy_readings_def)

lemma unpack_init_dims:
  assumes "num_lasers (calibration rd) \<noteq> 0"
  shows "\<exists>pc0. unpack_init K rd scanMsg pc = Inr pc0 \<and>
           cloud_dims (length (packets scanMsg) * SCANS_PER_PACKET K div num_lasers (calibration rd))
             (num_lasers (calibration rd)) pc0"
  using assms by (simp add: unpack_init_def Let_def cloud_dims_def length_resize)

lemma vlp16_col_local_bound:
  assumes "block < BLOCKS_PER_PACKET K" "firing < VLP16_FIRINGS_PER_BLOCK K"
    and "even (BLOCKS_PER_PACKET K)"
  shows "vlp16_col K dual packet block firing
           < (packet + 1) * (BLOCKS_PER_PACKET K * VLP16_FIRINGS_PER_BLOCK K) \<and>
         packet * (BLOCKS_PER_PACKET K * VLP16_FIRINGS_PER_BLOCK K)
           \<le> vlp16_col K dual packet block firing"
proof -
  let ?B = "BLOCKS_PER_PACKET K" and ?F = "VLP16_FIRINGS_PER_BLOCK K"
  have single: "block * ?F + firing < ?B * ?F"
  proof -
    have "block * ?F + firing < (block + 1) * ?F" using assms(2) by simp
    also have "\<dots> \<le> ?B * ?F" using assms(1) by (intro mult_le_mono1) simp
    finally show ?thesis .
  qed
  have dual: "(block div 2) * 2 * ?F + firing * 2 + block mod 2 < ?B * ?F"
  proof -
    from assms(3) obtain h where h: "?B = 2 * h" by (auto elim: evenE)
    have "block div 2 < h" using assms(1) h by simp
    then have "block div 2 + 1 \<le> h" by simp
    then have "(block div 2 + 1) * (2 * ?F) \<le> h * (2 * ?F)" by (rule mult_le_mono1)
    moreover have "firing * 2 + block mod 2 < 2 * ?F" using assms(2) by simp
    ultimately have "(block div 2) * (2 * ?F) + firing * 2 + block mod 2 < h * (2 * ?F)"
      by (simp add: algebra_simps)
    then show ?thesis by (simp add: h mult.assoc)
  qed
  show ?thesis
    using single dual by (auto simp: vlp16_col_def algebra_simps)
qed

lemma vlp16_col_bound:
  assumes "packet < P" "block < BLOCKS_PER_PACKET K" "firing < VLP16_FIRINGS_PER_BLOCK K"
    and "even (BLOCKS_PER_PACKET K)"
  shows "vlp16_col K dual packet block firing < P * BLOCKS_PER_PACKET K * VLP16_FIRINGS_PER_BLOCK K"
proof -
  have "vlp16_col K dual packet block firing
           < (packet + 1) * (BLOCKS_PER_PACKET K * VLP16_FIRINGS_PER_BLOCK K)"
    using vlp16_col_local_bound [OF assms(2,3,4)] by simp
  also have "\<dots> \<le> P * (BLOCKS_PER_PACKET K * VLP16_FIRINGS_PER_BLOCK K)"
    using assms(1) by (intro mult_le_mono1) simp
  finally show ?thesis by (simp add: mult.assoc)
qed

lemma vlp16_azimuth_diff_nonneg:
  assumes "uint (rotation (blocks rw block)) < 36000" "0 \<le> prev"
  shows "0 \<le> fst (vlp16_azimuth_diff K rw block i_diff prev) \<and>
         0 \<le> snd (vlp16_azimuth_diff K rw block i_diff prev)"
  using assms(2) by (simp add: vlp16_azimuth_diff_eq [OF assms(1)] Let_def)

lemma pc_at_column:
  assumes "pc_at pc (int c) r = Inr idx" "0 \<le> r" "c < width pc"
  shows "idx mod width pc = c"
proof -
  from assms(1) have "int idx = r * int (width pc) + int c" by (simp add: pc_at_Inr)
  then have "int idx = int (nat r * width pc + c)" using assms(2) by simp
  then have "idx = nat r * width pc + c" by (simp only: int_int_eq)
  then show ?thesis using assms(3) by simp
qed

lemma cloud_inv_update:
  assumes "cloud_inv w h C pc" "idx mod width pc \<in> C"
  shows "cloud_inv w h C (pc\<lparr> points := (points pc)[idx := p] \<rparr>)"
proof -
  have "untouched C (pc\<lparr> points := (points pc)[idx := p] \<rparr>)"
    unfolding untouched_def
  proof (intro allI impI)
    fix m
    assume "m < length (points (pc\<lparr> points := (points pc)[idx := p] \<rparr>)) \<and>
            m mod width (pc\<lparr> points := (points pc)[idx := p] \<rparr>) \<notin> C"
    then have m: "m < length (points pc)" "m mod width pc \<notin> C" by simp_all
    from assms(1) m have n: "points pc ! m = nan_point"
      by (simp add: cloud_inv_def untouched_def)
    from m(2) assms(2) have "m \<noteq> idx" by auto
    with n show "points (pc\<lparr> points := (points pc)[idx := p] \<rparr>) ! m = nan_point" by simp
  qed
  then show ?thesis
    using assms(1) by (simp add: cloud_inv_def cloud_dims_def)
qed

lemma vlp16_reading_ok:
  assumes L: "1 < num_lasers (calibration rd)"
    and rk: "0 \<le> laser_ring (laser_corrections (calibration rd) dsr) \<and>
             laser_ring (laser_corrections (calibration rd) dsr) < int (num_lasers (calibration rd))"
    and K: "ROTATION_MAX_UNITS K = 36000" "timing_valid K"
    and az: "0 \<le> az" "0 \<le> d"
    and inv: "cloud_inv w (num_lasers (calibration rd)) C pc"
    and col: "vlp16_col K dual packet block firing < w" "vlp16_col K dual packet block firing \<in> C"
  shows "\<exists>pc'. vlp16_reading K rd scanMsg packet dual block az d firing dsr pc = Inr pc' \<and>
           cloud_inv w (num_lasers (calibration rd)) C pc'"
proof (cases "angle_gate (vlp16_azimuth_corrected K az d firing dsr) (min_angle (config rd)) (max_angle (config rd))")
  case False
  then show ?thesis using inv by (simp add: vlp16_reading_skip)
next
  case True
  let ?L = "num_lasers (calibration rd)"
  let ?c = "laser_corrections (calibration rd) dsr"
  from inv have dims: "cloud_dims w ?L pc" by (simp add: cloud_inv_def)
  have r: "0 \<le> vlp16_azimuth_corrected K az d firing dsr"
    "vlp16_azimuth_corrected K az d firing dsr < int (ROTATION_MAX_UNITS K)"
    using vlp16_azimuth_corrected_range [of az d K firing dsr] az K
    by (simp_all add: timing_valid_def)
  have row: "0 \<le> int ?L - 1 - laser_ring ?c" "int ?L - 1 - laser_ring ?c < int (height pc)"
    using rk dims by (simp_all add: cloud_dims_def)
  have c: "vlp16_col K dual packet block firing < width pc"
    using col dims by (simp add: cloud_dims_def)
  from pc_at_in_bounds [OF _ c row] dims L
  obtain idx where at: "pc_at pc (int (vlp16_col K dual packet block firing))
                          (int ?L - 1 - laser_ring ?c) = Inr idx"
    by (auto simp: cloud_dims_def)
  from pc_at_column [OF at row(1) c] col(2) have "idx mod width pc \<in> C" by simp
  from cloud_inv_update [OF inv this]
  show ?thesis
    by (simp add: vlp16_reading_gated [OF True r] Let_def vlp16_store_Inr [OF at])
qed

lemma for_loop_inv:
  assumes "\<And>i s. i \<in> set ns \<Longrightarrow> I s \<Longrightarrow> \<exists>s'. body i s = Inr s' \<and> I s'" and "I s"
  shows "\<exists>s'. for_loop ns body s = Inr s' \<and> I s'"
  using assms
proof (induction ns arbitrary: s)
  case Nil
  then show ?case by simp
next
  case (Cons i ns)
  from Cons.prems(1) [of i s] Cons.prems(2) obtain s1 where 1: "body i s = Inr s1" "I s1"
    by auto
  from Cons.IH [OF _ 1(2)] Cons.prems(1) obtain s' where "for_loop ns body s1 = Inr s'" "I s'"
    by auto
  with 1 show ?case by simp
qed

lemma vlp16_block_ok:
  assumes L: "1 < num_lasers (calibration rd)"
    and rings: "\<And>dsr. dsr < VLP16_SCANS_PER_FIRING K \<Longrightarrow>
                  0 \<le> laser_ring (laser_corrections (calibration rd) dsr) \<and>
                  laser_ring (laser_corrections (calibration rd) dsr) < int (num_lasers (calibration rd))"
    and K: "ROTATION_MAX_UNITS K = 36000" "timing_valid K"
    and rot: "uint (rotation (blocks (raw (packets scanMsg ! packet)) block)) < 36000"
    and inv: "vlp16_inv w (num_lasers (calibration rd)) C st"
    and cols: "\<And>firing. firing < VLP16_FIRINGS_PER_BLOCK K \<Longrightarrow>
                 vlp16_col K dual packet block firing < w \<and> vlp16_col K dual packet block firing \<in> C"
    and hd: "UPPER_BANK K = header (blocks (raw (packets scanMsg ! packet)) block)"
  shows "\<exists>st'. vlp16_block K rd scanMsg packet dual block st = Inr (Continue st') \<and>
            vlp16_inv w (num_lasers (calibration rd)) C st'"
proof -
  let ?rw = "raw (packets scanMsg ! packet)"
  let ?i = "1 + (if dual then 1 else 0)"
  let ?az = "of_int (uint (rotation (blocks ?rw block))) :: real"
  let ?d = "fst (vlp16_azimuth_diff K ?rw block ?i (fst st))"
  let ?I = "cloud_inv w (num_lasers (calibration rd)) C"
  have d: "0 \<le> ?d" "0 \<le> snd (vlp16_azimuth_diff K ?rw block ?i (fst st))"
    using vlp16_azimuth_diff_nonneg [OF rot, of "fst st" K ?i] inv
    by (simp_all add: vlp16_inv_def)
  have az: "0 \<le> ?az" by (rule of_int_nonneg) (rule uint_ge_0)
  have "\<exists>pc'. for_loop [0..<VLP16_FIRINGS_PER_BLOCK K]
            (\<lambda>firing. for_loop [0..<VLP16_SCANS_PER_FIRING K]
               (\<lambda>dsr. vlp16_reading K rd scanMsg packet dual block ?az ?d firing dsr)) (snd st) = Inr pc'
          \<and> ?I pc'"
  proof (rule for_loop_inv [where I = ?I])
    show "?I (snd st)"
      using inv by (simp add: vlp16_inv_def)
  next
    fix firing pc1
    assume f: "firing \<in> set [0..<VLP16_FIRINGS_PER_BLOCK K]" and d1: "?I pc1"
    from f cols [of firing]
    have col: "vlp16_col K dual packet block firing < w" "vlp16_col K dual packet block firing \<in> C"
      by simp_all
    show "\<exists>pc'. for_loop [0..<VLP16_SCANS_PER_FIRING K]
                  (\<lambda>dsr. vlp16_reading K rd scanMsg packet dual block ?az ?d firing dsr) pc1 = Inr pc'
               \<and> ?I pc'"
    proof (rule for_loop_inv [where I = ?I])
      show "?I pc1" by (rule d1)
    next
      fix dsr pc2
      assume dsr: "dsr \<in> set [0..<VLP16_SCANS_PER_FIRING K]" and "?I pc2"
      from dsr have "dsr < VLP16_SCANS_PER_FIRING K" by simp
      from vlp16_reading_ok [OF L rings [OF this] K az d(1) \<open>?I pc2\<close> col]
      show "\<exists>pc'. vlp16_reading K rd scanMsg packet dual block ?az ?d firing dsr pc2 = Inr pc'
                   \<and> ?I pc'" .
    qed
  qed
  then obtain pc' where
    "for_loop [0..<VLP16_FIRINGS_PER_BLOCK K]
            (\<lambda>firing. for_loop [0..<VLP16_SCANS_PER_FIRING K]
               (\<lambda>dsr. vlp16_reading K rd scanMsg packet dual block ?az ?d firing dsr)) (snd st) = Inr pc'"
    and "?I pc'"
    by blast
  then show ?thesis
    using hd d by (simp add: vlp16_block_def Let_def case_prod_beta vlp16_inv_def)
qed

lemma vlp16_rings:
  assumes "rings_valid rd" "vlp16_lasers_valid K rd" "dsr < VLP16_SCANS_PER_FIRING K"
  shows "0 \<le> laser_ring (laser_corrections (calibration rd) dsr) \<and>
         laser_ring (laser_corrections (calibration rd) dsr) < int (num_lasers (calibration rd))"
proof -
  from assms(2,3) have "dsr < num_lasers (calibration rd)" by (simp add: vlp16_lasers_valid_def)
  with assms(1) show ?thesis unfolding rings_valid_def by blast
qed

lemma legacy_rings:
  assumes "rings_valid rd" "legacy_lasers_valid K rd scanMsg"
    and "packet < length (packets scanMsg)" "block < BLOCKS_PER_PACKET K" "j < SCANS_PER_BLOCK K"
  shows "0 \<le> laser_ring (unpack_corrections K rd (packets scanMsg ! packet) block j) \<and>
         laser_ring (unpack_corrections K rd (packets scanMsg ! packet) block j)
           < int (num_lasers (calibration rd))"
proof -
  from assms(2-5) have "unpack_laser K (blocks (raw (packets scanMsg ! packet)) block) j
                          < num_lasers (calibration rd)"
    unfolding legacy_lasers_valid_def by blast
  with assms(1) show ?thesis unfolding rings_valid_def unpack_corrections_def by blast
qed

lemma vlp16_block_bad_header:
  "UPPER_BANK K \<noteq> header (blocks (raw (packets scanMsg ! packet)) block) \<Longrightarrow>
     vlp16_block K rd scanMsg packet dual block st = Inr (Return st)"
  by (simp add: vlp16_block_def Let_def)

lemma for_loop_return_flow:
  assumes "\<And>i s. i \<in> set ns \<Longrightarrow> I s \<Longrightarrow> flow_ok E I (body i s)" and "I s"
  shows "flow_ok E I (for_loop_return ns body s)"
  using assms
proof (induction ns arbitrary: s)
  case Nil
  then show ?case by (simp add: flow_ok_def)
next
  case (Cons i ns)
  from Cons.prems(1) [of i s] Cons.prems(2) have 1: "flow_ok E I (body i s)" by simp
  show ?case
  proof (cases "body i s")
    case (Inl e)
    with 1 show ?thesis by (simp add: flow_ok_def)
  next
    case (Inr f)
    show ?thesis
    proof (cases f)
      case (Continue s1)
      with Inr 1 have "I s1" by (simp add: flow_ok_def)
      from Cons.IH [OF _ this] Cons.prems(1) have "flow_ok E I (for_loop_return ns body s1)"
        by simp
      with Inr Continue show ?thesis by simp
    next
      case (Return s1)
      with Inr 1 show ?thesis by (simp add: flow_ok_def)
    qed
  qed
qed

lemma for_loop_return_continue:
  assumes "\<And>i s. i \<in> set ns \<Longrightarrow> I s \<Longrightarrow> \<exists>s'. body i s = Inr (Continue s') \<and> I s'" and "I s"
  shows "\<exists>s'. for_loop_return ns body s = Inr (Continue s') \<and> I s'"
  using assms
proof (induction ns arbitrary: s)
  case Nil
  then show ?case by simp
next
  case (Cons i ns)
  from Cons.prems(1) [of i s] Cons.prems(2) obtain s1 where 1: "body i s = Inr (Continue s1)" "I s1"
    by auto
  from Cons.IH [OF _ 1(2)] Cons.prems(1)
  obtain s' where "for_loop_return ns body s1 = Inr (Continue s')" "I s'"
    by auto
  with 1 show ?case by simp
qed

lemma for_loop_return_append:
  "for_loop_return (ms @ ns) body s =
     (case for_loop_return ms body s of
        Inl e \<Rightarrow> Inl e
      | Inr (Return s') \<Rightarrow> Inr (Return s')
      | Inr (Continue s') \<Rightarrow> for_loop_return ns body s')"
  by (induction ms arbitrary: s) (simp_all split: sum.split flow.split)

lemma vlp16_block_flow:
  assumes L: "1 < num_lasers (calibration rd)"
    and rings: "rings_valid rd" "vlp16_lasers_valid K rd"
    and K: "ROTATION_MAX_UNITS K = 36000" "timing_valid K" "even (BLOCKS_PER_PACKET K)"
    and rots: "rotations_valid K scanMsg"
    and inv: "vlp16_inv (vlp16_width K scanMsg) (num_lasers (calibration rd)) UNIV st"
    and P: "packet < length (packets scanMsg)" "block < BLOCKS_PER_PACKET K"
  shows "flow_ok (\<lambda>e. False) (vlp16_inv (vlp16_width K scanMsg) (num_lasers (calibration rd)) UNIV)
           (vlp16_block K rd scanMsg packet dual block st)"
proof (cases "UPPER_BANK K = header (blocks (raw (packets scanMsg ! packet)) block)")
  case False
  then show ?thesis using inv by (simp add: vlp16_block_bad_header flow_ok_def)
next
  case True
  have rot: "uint (rotation (blocks (raw (packets scanMsg ! packet)) block)) < 36000"
    using rots P by (simp add: rotations_valid_def)
  have cols: "vlp16_col K dual packet block firing < vlp16_width K scanMsg \<and>
              vlp16_col K dual packet block firing \<in> UNIV"
    if "firing < VLP16_FIRINGS_PER_BLOCK K" for firing
    using vlp16_col_bound [OF P(1,2) that K(3)] by (simp add: vlp16_width_def)
  from vlp16_block_ok [OF L vlp16_rings [OF rings] K(1,2) rot inv cols True]
  show ?thesis by (auto simp: flow_ok_def)
qed

lemma vlp16_packet_flow:
  assumes L: "1 < num_lasers (calibration rd)"
    and rings: "rings_valid rd" "vlp16_lasers_valid K rd"
    and K: "ROTATION_MAX_UNITS K = 36000" "timing_valid K" "even (BLOCKS_PER_PACKET K)"
    and rots: "rotations_valid K scanMsg"
    and inv: "vlp16_inv (vlp16_width K scanMsg) (num_lasers (calibration rd)) UNIV st"
    and P: "packet < length (packets scanMsg)"
    and E: "packet_interp_time K (raw (packets scanMsg ! packet)) < 3600 * 1000000 \<or> E AssertionFailed"
  shows "flow_ok E (vlp16_inv (vlp16_width K scanMsg) (num_lasers (calibration rd)) UNIV)
           (vlp16_packet K rd scanMsg packet st)"
proof (cases "packet_interp_time K (raw (packets scanMsg ! packet)) < 3600 * 1000000")
  case False
  with E show ?thesis by (simp add: vlp16_packet_def Let_def flow_ok_def)
next
  case True
  let ?I = "vlp16_inv (vlp16_width K scanMsg) (num_lasers (calibration rd)) UNIV"
  have "flow_ok (\<lambda>e. False) ?I
          (for_loop_return [0..<BLOCKS_PER_PACKET K]
             (\<lambda>block. vlp16_block K rd scanMsg packet (vlp16_dual K scanMsg packet) block) st)"
  proof (rule for_loop_return_flow [where I = ?I])
    show "?I st" by (rule inv)
  next
    fix block st1
    assume "block \<in> set [0..<BLOCKS_PER_PACKET K]" and "?I st1"
    then show "flow_ok (\<lambda>e. False) ?I
                 (vlp16_block K rd scanMsg packet (vlp16_dual K scanMsg packet) block st1)"
      by (intro vlp16_block_flow L rings K rots P) simp_all
  qed
  then have "flow_ok E ?I
          (for_loop_return [0..<BLOCKS_PER_PACKET K]
             (\<lambda>block. vlp16_block K rd scanMsg packet (vlp16_dual K scanMsg packet) block) st)"
    by (simp add: flow_ok_def split: sum.splits flow.splits)
  with True show ?thesis
    by (simp add: vlp16_packet_def Let_def vlp16_dual_def)
qed

lemma vlp16_init_inv:
  "cloud_dims (vlp16_width K scanMsg) (num_lasers (calibration rd)) (vlp16_init K rd scanMsg pc)"
  "points pc = [] \<Longrightarrow>
     cloud_inv (vlp16_width K scanMsg) (num_lasers (calibration rd)) C (vlp16_init K rd scanMsg pc)"
  by (simp_all add: vlp16_init_def vlp16_width_def Let_def cloud_inv_def cloud_dims_def
      untouched_def length_resize resize_def)

lemma cloud_inv_UNIV: "cloud_inv w h UNIV pc = cloud_dims w h pc"
  by (simp add: cloud_inv_def untouched_def)

lemma unpack_vlp16_flow:
  assumes L: "1 < num_lasers (calibration rd)"
    and rings: "rings_valid rd" "vlp16_lasers_valid K rd"
    and K: "ROTATION_MAX_UNITS K = 36000" "timing_valid K" "even (BLOCKS_PER_PACKET K)"
    and rots: "rotations_valid K scanMsg"
    and E: "\<And>packet. packet < length (packets scanMsg) \<Longrightarrow>
              packet_interp_time K (raw (packets scanMsg ! packet)) < 3600 * 1000000 \<or> E AssertionFailed"
  shows "(\<exists>r. unpack_vlp16 K rd scanMsg pc = Inr r) \<or>
         (\<exists>e. unpack_vlp16 K rd scanMsg pc = Inl e \<and> E e)"
proof -
  let ?I = "vlp16_inv (vlp16_width K scanMsg) (num_lasers (calibration rd)) UNIV"
  have "flow_ok E ?I
          (for_loop_return [0..<length (packets scanMsg)] (\<lambda>packet. vlp16_packet K rd scanMsg packet)
             (0, vlp16_init K rd scanMsg pc))"
  proof (rule for_loop_return_flow [where I = ?I])
    show "?I (0, vlp16_init K rd scanMsg pc)"
      by (simp add: vlp16_inv_def cloud_inv_UNIV vlp16_init_inv)
  next
    fix packet st1
    assume "packet \<in> set [0..<length (packets scanMsg)]" and "?I st1"
    then show "flow_ok E ?I (vlp16_packet K rd scanMsg packet st1)"
      by (intro vlp16_packet_flow L rings K rots E) simp_all
  qed
  then show ?thesis
    by (auto simp: unpack_vlp16_def flow_ok_def split: sum.splits flow.splits)
qed

lemma unpack_legacy_ok:
  assumes K: "ROTATION_MAX_UNITS K = 36000"
      "SCANS_PER_PACKET K = BLOCKS_PER_PACKET K * SCANS_PER_BLOCK K"
    and rots: "rotations_valid K scanMsg"
    and rings: "rings_valid rd" "legacy_lasers_valid K rd scanMsg"
    and L: "1 < num_lasers (calibration rd)" "num_lasers (calibration rd) dvd SCANS_PER_PACKET K"
    and init: "unpack_init K rd scanMsg pc = Inr pc0"
    and pre: "length pre \<le> length (legacy_readings K scanMsg)"
      "set pre \<subseteq> set (legacy_readings K scanMsg)"
  shows "\<exists>n pc1. legacy_fold K rd scanMsg pre (0, pc0) = Inr (n, pc1) \<and> n \<le> length pre \<and>
           cloud_dims (length (packets scanMsg) * SCANS_PER_PACKET K div num_lasers (calibration rd))
             (num_lasers (calibration rd)) pc1"
proof -
  let ?L = "num_lasers (calibration rd)"
  let ?w = "length (packets scanMsg) * SCANS_PER_PACKET K div ?L"
  from L(1) have L0: "?L \<noteq> 0" by simp
  from unpack_init_dims [OF L0, of K scanMsg pc] init have d0: "cloud_dims ?w ?L pc0" by simp
  have "?L dvd length (packets scanMsg) * SCANS_PER_PACKET K" using L(2) by simp
  then have wl: "?w * ?L = length (packets scanMsg) * SCANS_PER_PACKET K"
    by (rule dvd_div_mult_self)
  have len: "length (legacy_readings K scanMsg) = ?w * ?L"
    using wl K(2) by (simp add: legacy_readings_length)
  have r: "\<forall>r \<in> set pre. uint (rotation (blocks (raw (packets scanMsg ! fst r)) (fst (snd r))))
             < int (ROTATION_MAX_UNITS K)"
  proof
    fix r assume "r \<in> set pre"
    with pre(2) have "r \<in> set (legacy_readings K scanMsg)" by auto
    from legacy_readings_set [OF this] rots show
      "uint (rotation (blocks (raw (packets scanMsg ! fst r)) (fst (snd r)))) < int (ROTATION_MAX_UNITS K)"
      by (simp add: rotations_valid_def K(1))
  qed
  have rk: "\<forall>r \<in> set pre.
              0 \<le> laser_ring (unpack_corrections K rd (packets scanMsg ! fst r) (fst (snd r)) (snd (snd r))) \<and>
              laser_ring (unpack_corrections K rd (packets scanMsg ! fst r) (fst (snd r)) (snd (snd r)))
                < int ?L"
  proof
    fix r assume "r \<in> set pre"
    with pre(2) have "r \<in> set (legacy_readings K scanMsg)" by auto
    from legacy_readings_set [OF this]
    show "0 \<le> laser_ring (unpack_corrections K rd (packets scanMsg ! fst r) (fst (snd r)) (snd (snd r))) \<and>
          laser_ring (unpack_corrections K rd (packets scanMsg ! fst r) (fst (snd r)) (snd (snd r)))
            < int ?L"
      by (intro legacy_rings [OF rings]) simp_all
  qed
  have n: "0 + length pre \<le> ?w * ?L" using pre(1) len by simp
  from legacy_fold_ok [OF L(1) rk r d0 n] show ?thesis by simp
qed

text \<open>
  C10, amended. Assume that the rotation codes of the scan are below 36000, that the
  calibration gives every beam a ring in \<open>[0, num_lasers)\<close>, that every laser number that
  the decoder looks up for the scan is the number of a beam, and that the number of
  lasers is 16 or is more than 1 and divides the number of readings of a packet (as 32
  and 64 divide 384); the constants are those of a layout with 36000 rotation codes, an
  even number of blocks, and \<open>SCANS_PER_PACKET = BLOCKS_PER_PACKET * SCANS_PER_BLOCK\<close>.
  Then no read of a table and no write to the cloud is out of bounds: the decoder
  returns a cloud, or fails the assertion on the time of a packet (16-beam decoder
  only). In the legacy decoder the cell of every reading, computed from the counter
  reached before it, has its column below the width and its row in \<open>[0, height)\<close>, and
  the laser number of the reading is below the number of lasers; in the 16-beam decoder
  the column of every (packet, block, firing) is below the width, the row of every beam
  is in \<open>[0, height)\<close>, the azimuth difference is not negative, and the corrected azimuth
  is in \<open>[0, 36000)\<close>.
\<close>

theorem accesses_in_bounds:
  assumes K: "ROTATION_MAX_UNITS K = 36000"
      "SCANS_PER_PACKET K = BLOCKS_PER_PACKET K * SCANS_PER_BLOCK K"
      "even (BLOCKS_PER_PACKET K)" "timing_valid K"
    and rots: "rotations_valid K scanMsg"
    and rings: "rings_valid rd"
    and lasers: "lasers_valid K rd scanMsg"
    and L: "num_lasers (calibration rd) = 16 \<or>
            1 < num_lasers (calibration rd) \<and> num_lasers (calibration rd) dvd SCANS_PER_PACKET K"
  shows
    "((\<exists>r. unpack K rd scanMsg pc = Inr r) \<or> unpack K rd scanMsg pc = Inl AssertionFailed) \<and>
     (num_lasers (calibration rd) \<noteq> 16 \<longrightarrow> (\<exists>r. unpack K rd scanMsg pc = Inr r)) \<and>
     ((\<forall>packet. packet < length (packets scanMsg) \<longrightarrow>
          packet_interp_time K (raw (packets scanMsg ! packet)) < 3600 * 1000000)
        \<longrightarrow> (\<exists>r. unpack K rd scanMsg pc = Inr r)) \<and>
     (num_lasers (calibration rd) \<noteq> 16 \<and> unpack_init K rd scanMsg pc = Inr pc0 \<and>
      legacy_readings K scanMsg = pre @ r # post \<and>
      legacy_fold K rd scanMsg pre (0, pc0) = Inr (n, pc1) \<longrightarrow>
        n div num_lasers (calibration rd) < width pc1 \<and>
        0 \<le> int (num_lasers (calibration rd)) - 1
              - laser_ring (unpack_corrections K rd (packets scanMsg ! fst r) (fst (snd r)) (snd (snd r))) \<and>
        int (num_lasers (calibration rd)) - 1
          - laser_ring (unpack_corrections K rd (packets scanMsg ! fst r) (fst (snd r)) (snd (snd r)))
          < int (height pc1) \<and>
        unpack_laser K (blocks (raw (packets scanMsg ! fst r)) (fst (snd r))) (snd (snd r))
          < num_lasers (calibration rd) \<and>
        uint (rotation (blocks (raw (packets scanMsg ! fst r)) (fst (snd r))))
          < int (ROTATION_MAX_UNITS K)) \<and>
     (packet < length (packets scanMsg) \<and> block < BLOCKS_PER_PACKET K \<and>
      firing < VLP16_FIRINGS_PER_BLOCK K \<longrightarrow>
        vlp16_col K dual packet block firing < width (vlp16_init K rd scanMsg pc) \<and>
        (0 \<le> prev \<longrightarrow>
           0 \<le> fst (vlp16_azimuth_diff K (raw (packets scanMsg ! packet)) block i_diff prev))) \<and>
     (num_lasers (calibration rd) = 16 \<and> dsr < VLP16_SCANS_PER_FIRING K \<longrightarrow>
        dsr < num_lasers (calibration rd) \<and>
        0 \<le> int (num_lasers (calibration rd)) - 1 - laser_ring (laser_corrections (calibration rd) dsr) \<and>
        int (num_lasers (calibration rd)) - 1 - laser_ring (laser_corrections (calibration rd) dsr)
          < int (height (vlp16_init K rd scanMsg pc))) \<and>
     (0 \<le> az \<and> 0 \<le> d \<longrightarrow>
        0 \<le> vlp16_azimuth_corrected K az d firing dsr \<and>
        vlp16_azimuth_corrected K az d firing dsr < int (ROTATION_MAX_UNITS K))"
proof -
  let ?L = "num_lasers (calibration rd)"
  have L1: "1 < ?L" using L by auto
  have lv: "legacy_lasers_valid K rd scanMsg" if "?L \<noteq> 16"
    using lasers that by (simp add: lasers_valid_def)
  have vv: "vlp16_lasers_valid K rd" if "?L = 16"
    using lasers that by (simp add: lasers_valid_def)
  have legacy: "\<exists>r. unpack K rd scanMsg pc = Inr r" if "?L \<noteq> 16"
  proof -
    from that L have Ld: "?L dvd SCANS_PER_PACKET K" by auto
    from L1 have "?L \<noteq> 0" by simp
    from unpack_init_dims [OF this, of K scanMsg pc]
    obtain pc0 where init: "unpack_init K rd scanMsg pc = Inr pc0" by blast
    from unpack_legacy_ok [OF K(1,2) rots rings lv [OF that] L1 Ld init, of "legacy_readings K scanMsg"]
    obtain n pc1 where "legacy_fold K rd scanMsg (legacy_readings K scanMsg) (0, pc0) = Inr (n, pc1)"
      by auto
    with init that have "unpack K rd scanMsg pc = Inr (pc1, False)"
      by (simp add: unpack_def unpack_packets_fold)
    then show ?thesis by blast
  qed
  have vlp: "(\<exists>r. unpack K rd scanMsg pc = Inr r) \<or> (\<exists>e. unpack K rd scanMsg pc = Inl e \<and> E e)"
    if "?L = 16"
      and "\<And>packet. packet < length (packets scanMsg) \<Longrightarrow>
              packet_interp_time K (raw (packets scanMsg ! packet)) < 3600 * 1000000 \<or> E AssertionFailed"
    for E
    using unpack_vlp16_flow [where E = E and pc = pc, OF L1 rings vv [OF that(1)] K(1,4,3) rots that(2)]
      that(1)
    by (simp add: unpack_def)
  have c1: "(\<exists>r. unpack K rd scanMsg pc = Inr r) \<or> unpack K rd scanMsg pc = Inl AssertionFailed"
  proof (cases "?L = 16")
    case True
    from vlp [OF True, of "\<lambda>e. e = AssertionFailed"] show ?thesis by auto
  next
    case False
    from legacy [OF this] show ?thesis by simp
  qed
  have c3: "\<exists>r. unpack K rd scanMsg pc = Inr r"
    if "\<forall>packet. packet < length (packets scanMsg) \<longrightarrow>
          packet_interp_time K (raw (packets scanMsg ! packet)) < 3600 * 1000000"
  proof (cases "?L = 16")
    case True
    from vlp [OF True, of "\<lambda>e. False"] that show ?thesis by auto
  next
    case False
    from legacy [OF this] show ?thesis by simp
  qed
  have c4: "n div ?L < width pc1 \<and>
        0 \<le> int ?L - 1
              - laser_ring (unpack_corrections K rd (packets scanMsg ! fst r) (fst (snd r)) (snd (snd r))) \<and>
        int ?L - 1
          - laser_ring (unpack_corrections K rd (packets scanMsg ! fst r) (fst (snd r)) (snd (snd r)))
          < int (height pc1) \<and>
        unpack_laser K (blocks (raw (packets scanMsg ! fst r)) (fst (snd r))) (snd (snd r)) < ?L \<and>
        uint (rotation (blocks (raw (packets scanMsg ! fst r)) (fst (snd r))))
          < int (ROTATION_MAX_UNITS K)"
    if a: "?L \<noteq> 16 \<and> unpack_init K rd scanMsg pc = Inr pc0 \<and>
      legacy_readings K scanMsg = pre @ r # post \<and>
      legacy_fold K rd scanMsg pre (0, pc0) = Inr (n, pc1)"
  proof -
    let ?w = "length (packets scanMsg) * SCANS_PER_PACKET K div ?L"
    from a L have Ld: "?L dvd SCANS_PER_PACKET K" by auto
    from a have n16: "?L \<noteq> 16" by simp
    from a have pre: "length pre \<le> length (legacy_readings K scanMsg)"
      "set pre \<subseteq> set (legacy_readings K scanMsg)" by auto
    from a have init: "unpack_init K rd scanMsg pc = Inr pc0"
      and fold: "legacy_fold K rd scanMsg pre (0, pc0) = Inr (n, pc1)" by simp_all
    from unpack_legacy_ok [OF K(1,2) rots rings lv [OF n16] L1 Ld init pre] fold
    have n: "n \<le> length pre" and d: "cloud_dims ?w ?L pc1" by auto
    have "?L dvd length (packets scanMsg) * SCANS_PER_PACKET K" using Ld by simp
    then have wl: "?w * ?L = length (packets scanMsg) * SCANS_PER_PACKET K"
      by (rule dvd_div_mult_self)
    have "length pre < length (legacy_readings K scanMsg)" using a by simp
    with n wl K(2) have "n < ?w * ?L" by (simp add: legacy_readings_length)
    then have col: "n div ?L < ?w" using L1 by (simp add: less_mult_imp_div_less)
    have "r \<in> set (legacy_readings K scanMsg)" using a by simp
    from legacy_readings_set [OF this]
    have b: "fst r < length (packets scanMsg)" "fst (snd r) < BLOCKS_PER_PACKET K"
      "snd (snd r) < SCANS_PER_BLOCK K" by simp_all
    from b rots
    have rot: "uint (rotation (blocks (raw (packets scanMsg ! fst r)) (fst (snd r))))
          < int (ROTATION_MAX_UNITS K)"
      by (simp add: rotations_valid_def K(1))
    from lv [OF n16] b
    have las: "unpack_laser K (blocks (raw (packets scanMsg ! fst r)) (fst (snd r))) (snd (snd r)) < ?L"
      unfolding legacy_lasers_valid_def by blast
    show ?thesis
      using col rot d las legacy_rings [OF rings lv [OF n16] b]
      by (simp add: cloud_dims_def)
  qed
  have c5: "vlp16_col K dual packet block firing < width (vlp16_init K rd scanMsg pc) \<and>
        (0 \<le> prev \<longrightarrow>
           0 \<le> fst (vlp16_azimuth_diff K (raw (packets scanMsg ! packet)) block i_diff prev))"
    if a: "packet < length (packets scanMsg) \<and> block < BLOCKS_PER_PACKET K \<and>
      firing < VLP16_FIRINGS_PER_BLOCK K"
  proof -
    from a have "vlp16_col K dual packet block firing < vlp16_width K scanMsg"
      unfolding vlp16_width_def by (intro vlp16_col_bound K) simp_all
    moreover have "uint (rotation (blocks (raw (packets scanMsg ! packet)) block)) < 36000"
      using rots a by (simp add: rotations_valid_def)
    ultimately show ?thesis
      using vlp16_init_inv(1) [of K scanMsg rd pc]
      by (simp add: cloud_dims_def vlp16_azimuth_diff_nonneg)
  qed
  have c5': "dsr < ?L \<and>
        0 \<le> int ?L - 1 - laser_ring (laser_corrections (calibration rd) dsr) \<and>
        int ?L - 1 - laser_ring (laser_corrections (calibration rd) dsr)
          < int (height (vlp16_init K rd scanMsg pc))"
    if a: "?L = 16 \<and> dsr < VLP16_SCANS_PER_FIRING K"
  proof -
    from a have v: "vlp16_lasers_valid K rd" and dsr: "dsr < VLP16_SCANS_PER_FIRING K"
      using vv by simp_all
    from v dsr have "dsr < ?L" by (simp add: vlp16_lasers_valid_def)
    then show ?thesis
      using vlp16_rings [OF rings v dsr] vlp16_init_inv(1) [of K scanMsg rd pc]
      by (simp add: cloud_dims_def)
  qed
  have c6: "0 \<le> vlp16_azimuth_corrected K az d firing dsr \<and>
        vlp16_azimuth_corrected K az d firing dsr < int (ROTATION_MAX_UNITS K)"
    if "0 \<le> az \<and> 0 \<le> d"
    using vlp16_azimuth_corrected_range [of az d K firing dsr] that K
    by (simp add: timing_valid_def)
  from c1 legacy c3 c4 c5 c5' c6 show ?thesis by blast
qed

lemma for_loop_first_error:
  "0 < n \<Longrightarrow> body 0 s = Inl e \<Longrightarrow> for_loop [0..<n] body s = Inl e"
  by (simp add: upt_rec [of 0])

lemma example_rings_valid: "rings_valid (example_rd lasers)"
  by (simp add: rings_valid_def example_rd_simps)

lemma example_lasers_valid:
  "32 \<le> lasers \<Longrightarrow> lasers_valid velodyne_h (example_rd lasers) example_scan"
  "lasers_valid velodyne_h (example_rd 16) scanMsg"
  by (simp_all add: lasers_valid_def legacy_lasers_valid_def vlp16_lasers_valid_def example_rd_simps
      example_scan_def example_packet_def example_block_def unpack_laser_def velodyne_h_simps)

lemma example_rotations_valid: "rotations_valid velodyne_h example_scan"
  by (simp add: rotations_valid_def example_scan_def example_packet_def example_block_def)

lemma unpack_first_error:
  assumes init: "unpack_init velodyne_h rd scanMsg pc = Inr pc0"
    and L: "num_lasers (calibration rd) \<noteq> 16"
    and len: "length (packets scanMsg) = 1"
    and reading: "unpack_reading velodyne_h rd scanMsg (packets scanMsg ! 0) 0 0 (0, pc0) = Inl e"
  shows "unpack velodyne_h rd scanMsg pc = Inl e"
proof -
  have block: "unpack_block velodyne_h rd scanMsg (packets scanMsg ! 0) 0 (0, pc0) = Inl e"
    unfolding unpack_block_def
    by (rule for_loop_first_error) (simp_all add: velodyne_h_simps reading)
  have packet: "unpack_packet velodyne_h rd scanMsg 0 (0, pc0) = Inl e"
    unfolding unpack_packet_def
    by (rule for_loop_first_error) (simp_all add: velodyne_h_simps block)
  have packets: "unpack_packets velodyne_h rd scanMsg (0, pc0) = Inl e"
    unfolding unpack_packets_def
    by (rule for_loop_first_error) (simp_all add: packet len)
  show ?thesis
    using L by (simp add: unpack_def init packets)
qed

text \<open>
  C10. The claim is that, with rotation codes below 36000 and rings in
  \<open>[0, num_lasers)\<close>, every write to the cloud is in bounds. It fails in the legacy decoder
  when the number of lasers does not divide the number of readings of the scan: with 500
  lasers and one packet the width is \<open>384 div 500 = 0\<close>, the cloud has no point, and the
  first reading writes to column 0 of row 499, which \<^verbatim>\<open>at\<close> refuses. It fails also when
  the decoder looks up a laser number that is not the number of a beam: with 32 beams
  whose rings are 0 to 31 and a block of the lower bank, the first reading of the block
  looks up the laser number 32, about whose ring the claim assumes nothing; with the
  ring 99 there the row is -68, which \<^verbatim>\<open>at\<close> refuses.
\<close>

theorem width_formula_counterexample:
  "rings_valid (example_rd 500) \<and> lasers_valid velodyne_h (example_rd 500) example_scan \<and>
   rotations_valid velodyne_h example_scan \<and>
   unpack_init velodyne_h (example_rd 500) example_scan empty_cloud
     = Inr (empty_cloud\<lparr> pc_frame_id := ''velodyne'', height := 500 \<rparr>) \<and>
   pc_at (empty_cloud\<lparr> pc_frame_id := ''velodyne'', height := 500 \<rparr>) 0 499 = Inl out_of_range \<and>
   unpack velodyne_h (example_rd 500) example_scan empty_cloud = Inl out_of_range \<and>
   rings_valid example_rd_32 \<and> rotations_valid velodyne_h example_lower_scan \<and>
   unpack_laser velodyne_h (blocks (raw (packets example_lower_scan ! 0)) 0) 0 = 32 \<and>
   unpack_init velodyne_h example_rd_32 example_lower_scan empty_cloud = Inr (example_cloud 12 32) \<and>
   pc_at (example_cloud 12 32) 0 (- 68) = Inl out_of_range \<and>
   unpack velodyne_h example_rd_32 example_lower_scan empty_cloud = Inl out_of_range"
proof -
  let ?rd = "example_rd 500"
  let ?pc0 = "empty_cloud\<lparr> pc_frame_id := ''velodyne'', height := 500 \<rparr>"
  have init: "unpack_init velodyne_h ?rd example_scan empty_cloud = Inr ?pc0"
    by (simp add: unpack_init_def example_rd_simps velodyne_h_simps example_scan_def
        empty_cloud_def example_config_def resize_def Let_def)
  have at: "pc_at ?pc0 0 499 = Inl out_of_range"
    by (simp add: pc_at_def empty_cloud_def)
  have rot: "uint (rotation (blocks (raw example_packet) 0)) = 0"
    by (simp add: example_packet_def example_block_def)
  have g: "angle_gate (uint (rotation (blocks (raw example_packet) 0)))
             (min_angle (config ?rd)) (max_angle (config ?rd))"
    by (simp add: rot example_rd_simps example_config_def angle_gate_def)
  have r: "uint (rotation (blocks (raw example_packet) 0)) < int (ROTATION_MAX_UNITS velodyne_h)"
    by (simp add: rot velodyne_h_simps)
  have at': "pc_at ?pc0 (int (0 div num_lasers (calibration ?rd)))
               (int (num_lasers (calibration ?rd)) - 1
                  - laser_ring (unpack_corrections velodyne_h ?rd example_packet 0 0)) = Inl out_of_range"
    using at by (simp add: example_corrections example_rd_simps)
  have L0: "num_lasers (calibration ?rd) \<noteq> 0" by (simp add: example_rd_simps)
  have reading: "unpack_reading velodyne_h ?rd example_scan example_packet 0 0 (0, ?pc0) = Inl out_of_range"
    by (simp add: unpack_reading_gated [OF g r] Let_def unpack_store_Inl [OF at' L0])
  have p: "packets example_scan ! 0 = example_packet" "length (packets example_scan) = 1"
    by (simp_all add: example_scan_def)
  have A: "unpack velodyne_h ?rd example_scan empty_cloud = Inl out_of_range"
    by (rule unpack_first_error [OF init]) (simp_all add: example_rd_simps p reading)
  let ?pkt = "packets example_lower_scan ! 0"
  have rd32: "num_lasers (calibration example_rd_32) = 32"
    "laser_corrections (calibration example_rd_32) k
       = example_correction\<lparr> laser_ring := (if k < 32 then int k else 99) \<rparr>"
    "config example_rd_32 = example_config" "tf_listener example_rd_32 = None" for k
    by (simp_all add: example_rd_32_def example_rd_def example_calibration_def)
  have rv: "rings_valid example_rd_32"
    by (simp add: rings_valid_def rd32)
  have rots: "rotations_valid velodyne_h example_lower_scan"
    by (simp add: rotations_valid_def example_lower_scan_def example_packet_def example_block_def)
  have las: "unpack_laser velodyne_h (blocks (raw ?pkt) 0) 0 = 32"
    by (simp add: unpack_laser_def example_lower_scan_def velodyne_h_simps)
  have init2: "unpack_init velodyne_h example_rd_32 example_lower_scan empty_cloud = Inr (example_cloud 12 32)"
    by (simp add: unpack_init_def rd32 velodyne_h_simps example_lower_scan_def example_scan_def
        empty_cloud_def example_config_def example_cloud_def resize_def Let_def)
  have at2: "pc_at (example_cloud 12 32) 0 (- 68) = Inl out_of_range"
    by (simp add: pc_at_def example_cloud_def)
  have rot2: "uint (rotation (blocks (raw ?pkt) 0)) = 0"
    by (simp add: example_lower_scan_def example_block_def)
  have g2: "angle_gate (uint (rotation (blocks (raw ?pkt) 0)))
             (min_angle (config example_rd_32)) (max_angle (config example_rd_32))"
    by (simp add: rot2 rd32 example_config_def angle_gate_def)
  have r2: "uint (rotation (blocks (raw ?pkt) 0)) < int (ROTATION_MAX_UNITS velodyne_h)"
    by (simp add: rot2 velodyne_h_simps)
  have at2': "pc_at (example_cloud 12 32) (int (0 div num_lasers (calibration example_rd_32)))
               (int (num_lasers (calibration example_rd_32)) - 1
                  - laser_ring (unpack_corrections velodyne_h example_rd_32 ?pkt 0 0)) = Inl out_of_range"
    using at2 by (simp add: unpack_corrections_def las rd32)
  have L2: "num_lasers (calibration example_rd_32) \<noteq> 0" by (simp add: rd32)
  have reading2: "unpack_reading velodyne_h example_rd_32 example_lower_scan ?pkt 0 0 (0, example_cloud 12 32)
                    = Inl out_of_range"
    by (simp add: unpack_reading_gated [OF g2 r2] Let_def unpack_store_Inl [OF at2' L2])
  have len2: "length (packets example_lower_scan) = 1"
    by (simp add: example_lower_scan_def)
  have B: "unpack velodyne_h example_rd_32 example_lower_scan empty_cloud = Inl out_of_range"
    by (rule unpack_first_error [OF init2]) (simp_all add: rd32 reading2 len2)
  from init at A example_rings_valid [of 500] example_lasers_valid(1) [of 500] example_rotations_valid
    rv rots las init2 at2 B
  show ?thesis by simp
qed

theorem accesses_in_bounds_witness:
  "(\<exists>r. unpack velodyne_h (example_rd 32) example_scan empty_cloud = Inr r) \<and>
   (\<exists>r. unpack velodyne_h (example_rd 16) example_scan empty_cloud = Inr r)"
proof -
  have K: "ROTATION_MAX_UNITS velodyne_h = 36000"
    "SCANS_PER_PACKET velodyne_h = BLOCKS_PER_PACKET velodyne_h * SCANS_PER_BLOCK velodyne_h"
    "even (BLOCKS_PER_PACKET velodyne_h)" "timing_valid velodyne_h"
    by (simp_all add: velodyne_h_simps timing_valid_def)
  have L32: "num_lasers (calibration (example_rd 32)) = 16 \<or>
            1 < num_lasers (calibration (example_rd 32)) \<and>
            num_lasers (calibration (example_rd 32)) dvd SCANS_PER_PACKET velodyne_h"
    by (simp add: example_rd_simps velodyne_h_simps)
  have L16: "num_lasers (calibration (example_rd 16)) = 16 \<or>
            1 < num_lasers (calibration (example_rd 16)) \<and>
            num_lasers (calibration (example_rd 16)) dvd SCANS_PER_PACKET velodyne_h"
    by (simp add: example_rd_simps)
  have t: "\<forall>packet. packet < length (packets example_scan) \<longrightarrow>
          packet_interp_time velodyne_h (raw (packets example_scan ! packet)) < 3600 * 1000000"
    by (simp add: velodyne_h_simps)
  have n: "num_lasers (calibration (example_rd 32)) \<noteq> 16" by (simp add: example_rd_simps)
  have l32: "lasers_valid velodyne_h (example_rd 32) example_scan"
    by (rule example_lasers_valid(1)) simp
  note a = accesses_in_bounds [OF K example_rotations_valid example_rings_valid l32 L32,
      where pc = empty_cloud]
  note b = accesses_in_bounds [OF K example_rotations_valid example_rings_valid
      example_lasers_valid(2) L16, where pc = empty_cloud]
  from mp [OF a [THEN conjunct2, THEN conjunct1] n]
    mp [OF b [THEN conjunct2, THEN conjunct2, THEN conjunct1] t]
  show ?thesis by simp
qed

subsection \<open>An invalid block in the 16-beam decoder\<close>

lemma vlp16_col_inj_packet:
  assumes "firing < VLP16_FIRINGS_PER_BLOCK K" "firing' < VLP16_FIRINGS_PER_BLOCK K"
    and "vlp16_col K dual packet block firing = vlp16_col K dual packet block' firing'"
  shows "block = block' \<and> firing = firing'"
proof (cases dual)
  case False
  with assms(3) have "block * VLP16_FIRINGS_PER_BLOCK K + firing
                      = block' * VLP16_FIRINGS_PER_BLOCK K + firing'"
    by (simp add: vlp16_col_def)
  from digit_unique [OF assms(1,2) this] show ?thesis .
next
  case True
  let ?F = "VLP16_FIRINGS_PER_BLOCK K"
  have lt: "firing * 2 + block mod 2 < 2 * ?F" "firing' * 2 + block' mod 2 < 2 * ?F"
    using assms(1,2) by simp_all
  from True assms(3)
  have "(block div 2) * (2 * ?F) + (firing * 2 + block mod 2)
        = (block' div 2) * (2 * ?F) + (firing' * 2 + block' mod 2)"
    by (simp add: vlp16_col_def algebra_simps)
  from digit_unique [OF lt this]
  have d: "block div 2 = block' div 2" and e: "firing * 2 + block mod 2 = firing' * 2 + block' mod 2"
    by simp_all
  from e have "(firing * 2 + block mod 2) mod 2 = (firing' * 2 + block' mod 2) mod 2" by simp
  then have m: "block mod 2 = block' mod 2" by simp
  with e have "firing = firing'" by simp
  moreover have "block = block'" using d m by (metis div_mult_mod_eq)
  ultimately show ?thesis by simp
qed

lemma later_column_not_before:
  assumes even: "even (BLOCKS_PER_PACKET K)"
    and later: "q < packet' \<or> packet' = q \<and> b \<le> block'"
    and bounds: "block' < BLOCKS_PER_PACKET K" "firing' < VLP16_FIRINGS_PER_BLOCK K"
  shows "vlp16_col K (vlp16_dual K scanMsg packet') packet' block' firing'
           \<notin> columns_before K scanMsg q b"
proof
  let ?BF = "BLOCKS_PER_PACKET K * VLP16_FIRINGS_PER_BLOCK K"
  let ?c' = "vlp16_col K (vlp16_dual K scanMsg packet') packet' block' firing'"
  assume "?c' \<in> columns_before K scanMsg q b"
  then obtain packet block firing where
    eq: "?c' = vlp16_col K (vlp16_dual K scanMsg packet) packet block firing"
    and f: "firing < VLP16_FIRINGS_PER_BLOCK K" and bl: "block < BLOCKS_PER_PACKET K"
    and before: "packet < q \<or> packet = q \<and> block < b"
    by (auto simp: columns_before_def)
  from vlp16_col_local_bound [OF bounds even, of "vlp16_dual K scanMsg packet'" packet']
  have c': "packet' * ?BF \<le> ?c'" by simp
  from vlp16_col_local_bound [OF bl f even, of "vlp16_dual K scanMsg packet" packet] eq
  have c: "?c' < (packet + 1) * ?BF" by simp
  have "packet' \<le> packet"
  proof (rule ccontr)
    assume "\<not> packet' \<le> packet"
    then have "packet + 1 \<le> packet'" by simp
    then have "(packet + 1) * ?BF \<le> packet' * ?BF" by (rule mult_le_mono1)
    with c c' show False by simp
  qed
  with later before have p: "packet = q" "packet' = q" and blocks: "block < b" "b \<le> block'"
    by auto
  from eq p have "vlp16_col K (vlp16_dual K scanMsg q) q block' firing'
                  = vlp16_col K (vlp16_dual K scanMsg q) q block firing" by simp
  from vlp16_col_inj_packet [OF bounds(2) f this] blocks show False by simp
qed

lemma vlp16_blocks_continue:
  assumes L: "1 < num_lasers (calibration rd)"
    and rings: "rings_valid rd" "vlp16_lasers_valid K rd"
    and K: "ROTATION_MAX_UNITS K = 36000" "timing_valid K" "even (BLOCKS_PER_PACKET K)"
    and rots: "\<And>block. block < b \<Longrightarrow>
                 uint (rotation (blocks (raw (packets scanMsg ! packet)) block)) < 36000"
    and inv: "vlp16_inv (vlp16_width K scanMsg) (num_lasers (calibration rd)) C st"
    and P: "packet < length (packets scanMsg)" "b \<le> BLOCKS_PER_PACKET K"
    and hd: "\<And>block. block < b \<Longrightarrow>
               UPPER_BANK K = header (blocks (raw (packets scanMsg ! packet)) block)"
    and cols: "\<And>block firing. block < b \<Longrightarrow> firing < VLP16_FIRINGS_PER_BLOCK K \<Longrightarrow>
                 vlp16_col K dual packet block firing \<in> C"
  shows "\<exists>st'. for_loop_return [0..<b] (\<lambda>block. vlp16_block K rd scanMsg packet dual block) st
                  = Inr (Continue st') \<and>
               vlp16_inv (vlp16_width K scanMsg) (num_lasers (calibration rd)) C st'"
proof (rule for_loop_return_continue
    [where I = "vlp16_inv (vlp16_width K scanMsg) (num_lasers (calibration rd)) C"])
  show "vlp16_inv (vlp16_width K scanMsg) (num_lasers (calibration rd)) C st" by (rule inv)
next
  fix block st1
  assume "block \<in> set [0..<b]"
    and i1: "vlp16_inv (vlp16_width K scanMsg) (num_lasers (calibration rd)) C st1"
  then have bl: "block < b" "block < BLOCKS_PER_PACKET K" using P(2) by simp_all
  have rot: "uint (rotation (blocks (raw (packets scanMsg ! packet)) block)) < 36000"
    by (rule rots [OF bl(1)])
  have c: "vlp16_col K dual packet block firing < vlp16_width K scanMsg \<and>
           vlp16_col K dual packet block firing \<in> C"
    if "firing < VLP16_FIRINGS_PER_BLOCK K" for firing
    using vlp16_col_bound [OF P(1) bl(2) that K(3)] cols [OF bl(1) that]
    by (simp add: vlp16_width_def)
  show "\<exists>st'. vlp16_block K rd scanMsg packet dual block st1 = Inr (Continue st') \<and>
              vlp16_inv (vlp16_width K scanMsg) (num_lasers (calibration rd)) C st'"
    by (rule vlp16_block_ok [OF L vlp16_rings [OF rings] K(1,2) rot i1 c hd [OF bl(1)]])
qed

lemma vlp16_packets_continue:
  assumes L: "1 < num_lasers (calibration rd)"
    and rings: "rings_valid rd" "vlp16_lasers_valid K rd"
    and K: "ROTATION_MAX_UNITS K = 36000" "timing_valid K" "even (BLOCKS_PER_PACKET K)"
    and rots: "rotations_valid_before K scanMsg q b"
    and inv: "vlp16_inv (vlp16_width K scanMsg) (num_lasers (calibration rd))
                (columns_before K scanMsg q b) st"
    and q: "q \<le> length (packets scanMsg)"
    and good: "headers_valid_before K scanMsg q b"
    and times: "\<And>packet. packet < q \<Longrightarrow>
                  packet_interp_time K (raw (packets scanMsg ! packet)) < 3600 * 1000000"
  shows "\<exists>st'. for_loop_return [0..<q] (vlp16_packet K rd scanMsg) st = Inr (Continue st') \<and>
               vlp16_inv (vlp16_width K scanMsg) (num_lasers (calibration rd))
                 (columns_before K scanMsg q b) st'"
proof (rule for_loop_return_continue
    [where I = "vlp16_inv (vlp16_width K scanMsg) (num_lasers (calibration rd))
                  (columns_before K scanMsg q b)"])
  show "vlp16_inv (vlp16_width K scanMsg) (num_lasers (calibration rd))
          (columns_before K scanMsg q b) st" by (rule inv)
next
  fix packet st1
  assume "packet \<in> set [0..<q]"
    and i1: "vlp16_inv (vlp16_width K scanMsg) (num_lasers (calibration rd))
               (columns_before K scanMsg q b) st1"
  then have p: "packet < q" "packet < length (packets scanMsg)" using q by simp_all
  have hd: "UPPER_BANK K = header (blocks (raw (packets scanMsg ! packet)) block)"
    if "block < BLOCKS_PER_PACKET K" for block
    using good p(1) that unfolding headers_valid_before_def by blast
  have cols: "vlp16_col K (vlp16_dual K scanMsg packet) packet block firing
                \<in> columns_before K scanMsg q b"
    if "block < BLOCKS_PER_PACKET K" "firing < VLP16_FIRINGS_PER_BLOCK K" for block firing
    using that p(1) unfolding columns_before_def by blast
  have rot: "uint (rotation (blocks (raw (packets scanMsg ! packet)) block)) < 36000"
    if "block < BLOCKS_PER_PACKET K" for block
    using rots p(1) that unfolding rotations_valid_before_def by blast
  from vlp16_blocks_continue [OF L rings K rot i1 p(2) le_refl hd cols]
  show "\<exists>st'. vlp16_packet K rd scanMsg packet st1 = Inr (Continue st') \<and>
              vlp16_inv (vlp16_width K scanMsg) (num_lasers (calibration rd))
                (columns_before K scanMsg q b) st'"
    using times [OF p(1)] by (simp add: vlp16_packet_def Let_def vlp16_dual_def)
qed

lemma upt_split: "i < n \<Longrightarrow> [0..<n] = [0..<i] @ i # [Suc i..<n]"
proof -
  assume i: "i < n"
  have "[0..<i + (n - i)] = [0..<i] @ [i..<i + (n - i)]"
    by (rule upt_add_eq_append) simp
  with i show ?thesis by (simp add: upt_conv_Cons)
qed

lemma untouched_cell:
  assumes "cloud_inv w h C pc" "c \<notin> C" "c < w" "row < h"
  shows "points pc ! (row * width pc + c) = nan_point"
proof -
  from assms(1) have d: "width pc = w" "length (points pc) = w * h"
    and u: "untouched C pc" by (simp_all add: cloud_inv_def cloud_dims_def)
  have "row + 1 \<le> h" using assms(4) by simp
  then have "(row + 1) * w \<le> h * w" by (rule mult_le_mono1)
  then have "row * w + c < w * h" using assms(3) by (simp add: algebra_simps)
  moreover have "(row * w + c) mod w = c" using assms(3) by simp
  ultimately show ?thesis
    using u assms(2) d unfolding untouched_def by auto
qed

lemma throttle_cases:
  assumes "ROS_WARN_STREAM_THROTTLE period now last_hit = (printed, last')" "last_hit \<le> now"
  shows "printed \<and> last' = now \<and> last_hit + period \<le> now \<or> \<not> printed \<and> last' = last_hit"
  using assms by (auto simp: ROS_WARN_STREAM_THROTTLE_def split: if_splits)

lemma unpack_vlp16_warn_cases:
  assumes "unpack_vlp16_warn K rd scanMsg now last_hit pc = Inr r" "last_hit \<le> now"
  shows "fst (snd r) \<and> snd (snd r) = now \<and> last_hit + LOG_PERIOD K \<le> now \<or>
         \<not> fst (snd r) \<and> snd (snd r) = last_hit"
proof (cases "unpack_vlp16 K rd scanMsg pc")
  case (Inl e)
  with assms(1) show ?thesis by (simp add: unpack_vlp16_warn_def)
next
  case (Inr u)
  show ?thesis
  proof (cases "snd u")
    case False
    with Inr assms(1) show ?thesis by (auto simp: unpack_vlp16_warn_def)
  next
    case True
    with Inr assms(1)
    have r: "r = (fst u, ROS_WARN_STREAM_THROTTLE (LOG_PERIOD K) now last_hit)"
      by (simp add: unpack_vlp16_warn_def)
    obtain printed last' where t: "ROS_WARN_STREAM_THROTTLE (LOG_PERIOD K) now last_hit = (printed, last')"
      by (cases "ROS_WARN_STREAM_THROTTLE (LOG_PERIOD K) now last_hit")
    from throttle_cases [OF t assms(2)] r t show ?thesis by simp
  qed
qed

lemma unpack_vlp16_calls_spaced:
  assumes "0 \<le> LOG_PERIOD K"
  shows "sorted (map fst calls) \<Longrightarrow> \<forall>c \<in> set calls. last_hit \<le> fst c \<Longrightarrow>
           spaced (LOG_PERIOD K) (unpack_vlp16_calls K rd calls last_hit) \<and>
           (\<forall>t \<in> set (unpack_vlp16_calls K rd calls last_hit). last_hit + LOG_PERIOD K \<le> t)"
proof (induction calls arbitrary: last_hit)
  case Nil
  then show ?case by simp
next
  case (Cons c cs)
  from Cons.prems have s: "sorted (map fst cs)" and le: "\<forall>d \<in> set cs. fst c \<le> fst d"
    and l: "last_hit \<le> fst c" and ls: "\<forall>d \<in> set cs. last_hit \<le> fst d"
    by auto
  show ?case
  proof (cases "unpack_vlp16_warn K rd (fst (snd c)) (fst c) last_hit (snd (snd c))")
    case (Inl e)
    then show ?thesis by simp
  next
    case (Inr r)
    from unpack_vlp16_warn_cases [OF Inr l]
    consider "fst (snd r)" "snd (snd r) = fst c" "last_hit + LOG_PERIOD K \<le> fst c"
      | "\<not> fst (snd r)" "snd (snd r) = last_hit"
      by blast
    then show ?thesis
    proof cases
      case 1
      from Cons.IH [OF s le]
      have ih: "spaced (LOG_PERIOD K) (unpack_vlp16_calls K rd cs (fst c))"
        "\<forall>t \<in> set (unpack_vlp16_calls K rd cs (fst c)). fst c + LOG_PERIOD K \<le> t"
        by simp_all
      have "last_hit + LOG_PERIOD K \<le> t" if "t \<in> set (unpack_vlp16_calls K rd cs (fst c))" for t
      proof -
        from ih(2) that have "fst c + LOG_PERIOD K \<le> t" by simp
        with 1(3) assms show ?thesis by linarith
      qed
      with ih 1 Inr show ?thesis by simp
    next
      case 2
      from Cons.IH [OF s ls] 2 Inr show ?thesis by simp
    qed
  qed
qed

text \<open>
  C7. Let block \<open>b\<close> of packet \<open>q\<close> be the first block of the scan whose header is not the
  marker of the upper bank, the blocks before it having rotation codes below 36000 and
  the packets up to \<open>q\<close> times that pass the assertion; the invalid block and the blocks
  and packets after it are arbitrary. The calibration gives the beams rings in
  \<open>[0, num_lasers)\<close>, and the cloud is new. Then the 16-beam decoder processes the packets
  before \<open>q\<close> and the blocks before \<open>b\<close> of packet \<open>q\<close>, and returns the cloud reached
  there, having reached the warning statement: no later block or packet is processed, and
  what was written before stays. In the returned cloud every cell of the columns of
  block \<open>b\<close> and of the later blocks and packets holds the default point. The warning
  statement is run once in the call; it prints nothing when less than \<^verbatim>\<open>LOG_PERIOD_\<close> has
  passed since its last output; and in any sequence of calls at times that do not
  decrease any two warnings printed are at least \<^verbatim>\<open>LOG_PERIOD_\<close> apart.
\<close>

theorem invalid_block_stops:
  assumes K: "ROTATION_MAX_UNITS K = 36000" "timing_valid K" "even (BLOCKS_PER_PACKET K)"
    and rots: "rotations_valid_before K scanMsg q b"
    and rings: "rings_valid rd" "vlp16_lasers_valid K rd"
    and L: "1 < num_lasers (calibration rd)"
    and fresh: "points pc = []"
    and q: "q < length (packets scanMsg)"
    and b: "b < BLOCKS_PER_PACKET K"
    and good: "headers_valid_before K scanMsg q b"
    and bad: "UPPER_BANK K \<noteq> header (blocks (raw (packets scanMsg ! q)) b)"
    and times: "times_valid_upto K scanMsg q"
  shows "\<exists>st1 st2.
     for_loop_return [0..<q] (vlp16_packet K rd scanMsg) (0, vlp16_init K rd scanMsg pc)
       = Inr (Continue st1) \<and>
     for_loop_return [0..<b] (vlp16_block K rd scanMsg q (vlp16_dual K scanMsg q)) st1
       = Inr (Continue st2) \<and>
     unpack_vlp16 K rd scanMsg pc = Inr (snd st2, True) \<and>
     (num_lasers (calibration rd) = 16 \<longrightarrow> unpack K rd scanMsg pc = Inr (snd st2, True)) \<and>
     width (snd st2) = vlp16_width K scanMsg \<and> height (snd st2) = num_lasers (calibration rd) \<and>
     (\<forall>packet' block' firing' row.
        (q < packet' \<or> packet' = q \<and> b \<le> block') \<and> packet' < length (packets scanMsg) \<and>
        block' < BLOCKS_PER_PACKET K \<and> firing' < VLP16_FIRINGS_PER_BLOCK K \<and>
        row < height (snd st2) \<longrightarrow>
          points (snd st2)
            ! (row * width (snd st2)
                 + vlp16_col K (vlp16_dual K scanMsg packet') packet' block' firing')
          = nan_point) \<and>
     (\<forall>now last_hit.
        unpack_vlp16_warn K rd scanMsg now last_hit pc
          = Inr (snd st2, ROS_WARN_STREAM_THROTTLE (LOG_PERIOD K) now last_hit) \<and>
        (last_hit \<le> now \<and> now < last_hit + LOG_PERIOD K \<longrightarrow>
           unpack_vlp16_warn K rd scanMsg now last_hit pc = Inr (snd st2, False, last_hit)) \<and>
        (last_hit + LOG_PERIOD K \<le> now \<longrightarrow>
           unpack_vlp16_warn K rd scanMsg now last_hit pc = Inr (snd st2, True, now))) \<and>
     (\<forall>calls last_hit.
        0 \<le> LOG_PERIOD K \<and> sorted (map fst calls) \<and> (\<forall>c \<in> set calls. last_hit \<le> fst c) \<longrightarrow>
          spaced (LOG_PERIOD K) (unpack_vlp16_calls K rd calls last_hit))"
proof -
  let ?w = "vlp16_width K scanMsg" and ?L = "num_lasers (calibration rd)"
  let ?C = "columns_before K scanMsg q b"
  let ?I = "vlp16_inv ?w ?L ?C"
  let ?P = "length (packets scanMsg)" and ?B = "BLOCKS_PER_PACKET K"
  have i0: "?I (0, vlp16_init K rd scanMsg pc)"
    by (simp add: vlp16_inv_def vlp16_init_inv(2) [OF fresh])
  have t: "packet_interp_time K (raw (packets scanMsg ! packet)) < 3600 * 1000000"
    if "packet \<le> q" for packet
    using times that unfolding times_valid_upto_def by blast
  from vlp16_packets_continue [OF L rings K rots i0 _ good t] q
  obtain st1 where 1: "for_loop_return [0..<q] (vlp16_packet K rd scanMsg)
                         (0, vlp16_init K rd scanMsg pc) = Inr (Continue st1)"
    and i1: "?I st1" by auto
  have hd: "UPPER_BANK K = header (blocks (raw (packets scanMsg ! q)) block)"
    if "block < b" for block
    using good that b unfolding headers_valid_before_def by auto
  have rot: "uint (rotation (blocks (raw (packets scanMsg ! q)) block)) < 36000"
    if "block < b" for block
    using rots that b unfolding rotations_valid_before_def by auto
  have cols: "vlp16_col K (vlp16_dual K scanMsg q) q block firing \<in> ?C"
    if "block < b" "firing < VLP16_FIRINGS_PER_BLOCK K" for block firing
  proof -
    from that b have "firing < VLP16_FIRINGS_PER_BLOCK K \<and> block < BLOCKS_PER_PACKET K \<and>
           (q < q \<or> q = q \<and> block < b)" by simp
    then show ?thesis unfolding columns_before_def by blast
  qed
  from vlp16_blocks_continue [OF L rings K rot i1 q less_imp_le [OF b] hd cols]
  obtain st2 where 2: "for_loop_return [0..<b]
                         (vlp16_block K rd scanMsg q (vlp16_dual K scanMsg q)) st1
                       = Inr (Continue st2)"
    and i2: "?I st2" by auto
  have blocks: "[0..<?B] = [0..<b] @ b # [Suc b..<?B]"
    by (rule upt_split [OF b])
  have pk: "[0..<?P] = [0..<q] @ q # [Suc q..<?P]"
    by (rule upt_split [OF q])
  have packet_q: "vlp16_packet K rd scanMsg q st1 = Inr (Return st2)"
    using t [of q] 2 bad
    by (simp add: vlp16_packet_def Let_def blocks for_loop_return_append
        vlp16_dual_def [symmetric] vlp16_block_bad_header)
  have res: "unpack_vlp16 K rd scanMsg pc = Inr (snd st2, True)"
    by (simp add: unpack_vlp16_def pk for_loop_return_append 1 packet_q)
  from i2 have ci: "cloud_inv ?w ?L ?C (snd st2)" by (simp add: vlp16_inv_def)
  then have dims: "width (snd st2) = ?w" "height (snd st2) = ?L"
    by (simp_all add: cloud_inv_def cloud_dims_def)
  have later: "points (snd st2)
            ! (row * width (snd st2)
                 + vlp16_col K (vlp16_dual K scanMsg packet') packet' block' firing')
          = nan_point"
    if a: "(q < packet' \<or> packet' = q \<and> b \<le> block') \<and> packet' < ?P \<and>
        block' < ?B \<and> firing' < VLP16_FIRINGS_PER_BLOCK K \<and> row < height (snd st2)"
    for packet' block' firing' row
  proof -
    from a have l: "q < packet' \<or> packet' = q \<and> b \<le> block'" and p: "packet' < ?P"
      and bl: "block' < ?B" and f: "firing' < VLP16_FIRINGS_PER_BLOCK K"
      and r: "row < ?L" using dims by simp_all
    have n: "vlp16_col K (vlp16_dual K scanMsg packet') packet' block' firing' \<notin> ?C"
      by (rule later_column_not_before [OF K(3) l bl f])
    have c: "vlp16_col K (vlp16_dual K scanMsg packet') packet' block' firing' < ?w"
      using vlp16_col_bound [OF p bl f K(3)] by (simp add: vlp16_width_def)
    from untouched_cell [OF ci n c r] show ?thesis .
  qed
  have u: "?L = 16 \<longrightarrow> unpack K rd scanMsg pc = Inr (snd st2, True)"
    using res by (simp add: unpack_def)
  from later have l: "\<forall>packet' block' firing' row.
        (q < packet' \<or> packet' = q \<and> b \<le> block') \<and> packet' < ?P \<and>
        block' < ?B \<and> firing' < VLP16_FIRINGS_PER_BLOCK K \<and> row < height (snd st2) \<longrightarrow>
          points (snd st2)
            ! (row * width (snd st2)
                 + vlp16_col K (vlp16_dual K scanMsg packet') packet' block' firing')
          = nan_point"
    by blast
  have w: "\<forall>now last_hit.
        unpack_vlp16_warn K rd scanMsg now last_hit pc
          = Inr (snd st2, ROS_WARN_STREAM_THROTTLE (LOG_PERIOD K) now last_hit) \<and>
        (last_hit \<le> now \<and> now < last_hit + LOG_PERIOD K \<longrightarrow>
           unpack_vlp16_warn K rd scanMsg now last_hit pc = Inr (snd st2, False, last_hit)) \<and>
        (last_hit + LOG_PERIOD K \<le> now \<longrightarrow>
           unpack_vlp16_warn K rd scanMsg now last_hit pc = Inr (snd st2, True, now))"
    by (simp add: unpack_vlp16_warn_def res ROS_WARN_STREAM_THROTTLE_def)
  have s: "\<forall>calls last_hit.
        0 \<le> LOG_PERIOD K \<and> sorted (map fst calls) \<and> (\<forall>c \<in> set calls. last_hit \<le> fst c) \<longrightarrow>
          spaced (LOG_PERIOD K) (unpack_vlp16_calls K rd calls last_hit)"
    using unpack_vlp16_calls_spaced [of K _ _ rd] by blast
  show ?thesis
    by (rule exI [of _ st1], rule exI [of _ st2]) (intro conjI 1 2 res u dims l w s)
qed

theorem invalid_block_stops_witness:
  "\<exists>pc'. unpack velodyne_h (example_rd 16) example_bad_scan empty_cloud = Inr (pc', True) \<and>
         width pc' = 24 \<and> height pc' = 16 \<and>
         points pc' ! (15 * width pc' + 6) = nan_point \<and>
         points pc' ! (0 * width pc' + 23) = nan_point \<and>
         unpack_vlp16_warn velodyne_h (example_rd 16) example_bad_scan 10 0 empty_cloud
           = Inr (pc', True, 10) \<and>
         unpack_vlp16_warn velodyne_h (example_rd 16) example_bad_scan (21 / 2) 10 empty_cloud
           = Inr (pc', False, 10) \<and>
         unpack_vlp16_calls velodyne_h (example_rd 16)
           [(10, example_bad_scan, empty_cloud), (21 / 2, example_bad_scan, empty_cloud),
            (12, example_bad_scan, empty_cloud)] 0 = [10, 12] \<and>
         spaced 1 (unpack_vlp16_calls velodyne_h (example_rd 16)
           [(10, example_bad_scan, empty_cloud), (21 / 2, example_bad_scan, empty_cloud),
            (12, example_bad_scan, empty_cloud)] 0)"
proof -
  let ?rd = "example_rd 16"
  let ?calls = "[(10 :: real, example_bad_scan, empty_cloud), (21 / 2, example_bad_scan, empty_cloud),
            (12, example_bad_scan, empty_cloud)]"
  have K: "ROTATION_MAX_UNITS velodyne_h = 36000" "timing_valid velodyne_h"
    "even (BLOCKS_PER_PACKET velodyne_h)"
    by (simp_all add: velodyne_h_simps timing_valid_def)
  have rots: "rotations_valid_before velodyne_h example_bad_scan 0 3"
    by (simp add: rotations_valid_before_def example_bad_scan_def example_packet_def example_block_def)
  have rings: "rings_valid ?rd" "vlp16_lasers_valid velodyne_h ?rd"
    by (simp_all add: example_rings_valid vlp16_lasers_valid_def example_rd_simps velodyne_h_simps)
  have L: "1 < num_lasers (calibration ?rd)" by (simp add: example_rd_simps)
  have fresh: "points empty_cloud = []" by (simp add: empty_cloud_def)
  have q: "0 < length (packets example_bad_scan)" by (simp add: example_bad_scan_def)
  have b: "3 < BLOCKS_PER_PACKET velodyne_h" by (simp add: velodyne_h_simps)
  have good: "headers_valid_before velodyne_h example_bad_scan 0 3"
    by (simp add: headers_valid_before_def example_bad_scan_def example_packet_def
        example_block_def velodyne_h_simps)
  have bad: "UPPER_BANK velodyne_h \<noteq> header (blocks (raw (packets example_bad_scan ! 0)) 3)"
    by (simp add: example_bad_scan_def velodyne_h_simps)
  have times: "times_valid_upto velodyne_h example_bad_scan 0"
    by (simp add: times_valid_upto_def velodyne_h_simps)
  from invalid_block_stops [OF K rots rings L fresh q b good bad times]
  obtain st1 :: "real \<times> VPointCloud" and st2 :: "real \<times> VPointCloud" where
    "for_loop_return [0..<0] (vlp16_packet velodyne_h ?rd example_bad_scan)
       (0, vlp16_init velodyne_h ?rd example_bad_scan empty_cloud) = Inr (Continue st1)"
    and "for_loop_return [0..<3]
           (vlp16_block velodyne_h ?rd example_bad_scan 0 (vlp16_dual velodyne_h example_bad_scan 0)) st1
         = Inr (Continue st2)"
    and "unpack_vlp16 velodyne_h ?rd example_bad_scan empty_cloud = Inr (snd st2, True)"
    and res: "num_lasers (calibration ?rd) = 16 \<longrightarrow>
            unpack velodyne_h ?rd example_bad_scan empty_cloud = Inr (snd st2, True)"
    and w: "width (snd st2) = vlp16_width velodyne_h example_bad_scan"
    and h: "height (snd st2) = num_lasers (calibration ?rd)"
    and later: "\<forall>packet' block' firing' row.
        (0 < packet' \<or> packet' = 0 \<and> 3 \<le> block') \<and> packet' < length (packets example_bad_scan) \<and>
        block' < BLOCKS_PER_PACKET velodyne_h \<and> firing' < VLP16_FIRINGS_PER_BLOCK velodyne_h \<and>
        row < height (snd st2) \<longrightarrow>
          points (snd st2)
            ! (row * width (snd st2)
                 + vlp16_col velodyne_h (vlp16_dual velodyne_h example_bad_scan packet') packet' block' firing')
          = nan_point"
    and warn: "\<forall>now last_hit.
        unpack_vlp16_warn velodyne_h ?rd example_bad_scan now last_hit empty_cloud
          = Inr (snd st2, ROS_WARN_STREAM_THROTTLE (LOG_PERIOD velodyne_h) now last_hit) \<and>
        (last_hit \<le> now \<and> now < last_hit + LOG_PERIOD velodyne_h \<longrightarrow>
           unpack_vlp16_warn velodyne_h ?rd example_bad_scan now last_hit empty_cloud
             = Inr (snd st2, False, last_hit)) \<and>
        (last_hit + LOG_PERIOD velodyne_h \<le> now \<longrightarrow>
           unpack_vlp16_warn velodyne_h ?rd example_bad_scan now last_hit empty_cloud
             = Inr (snd st2, True, now))"
    and sp: "\<forall>calls last_hit.
        0 \<le> LOG_PERIOD velodyne_h \<and> sorted (map fst calls) \<and> (\<forall>c \<in> set calls. last_hit \<le> fst c) \<longrightarrow>
          spaced (LOG_PERIOD velodyne_h) (unpack_vlp16_calls velodyne_h ?rd calls last_hit)"
    by (elim exE conjE) (rule that, assumption+)
  have dual: "vlp16_dual velodyne_h example_bad_scan 0 = False"
    by (simp add: vlp16_dual_def example_bad_scan_def example_packet_def)
  have h16: "height (snd st2) = 16" using h by (simp add: example_rd_simps)
  have w24: "width (snd st2) = 24"
    using w by (simp add: vlp16_width_def example_bad_scan_def velodyne_h_simps)
  have len: "length (packets example_bad_scan) = 1" by (simp add: example_bad_scan_def)
  have c1: "points (snd st2) ! (15 * width (snd st2) + 6) = nan_point"
    using later [rule_format, of 0 3 0 15] h16
    by (simp add: dual vlp16_col_def velodyne_h_simps len)
  have c2: "points (snd st2) ! (0 * width (snd st2) + 23) = nan_point"
    using later [rule_format, of 0 11 1 0] h16
    by (simp add: dual vlp16_col_def velodyne_h_simps len)
  from res have un: "unpack velodyne_h ?rd example_bad_scan empty_cloud = Inr (snd st2, True)"
    by (simp add: example_rd_simps)
  have w1: "unpack_vlp16_warn velodyne_h ?rd example_bad_scan 10 0 empty_cloud = Inr (snd st2, True, 10)"
    using warn [rule_format, where now = 10 and last_hit = 0]
    by (simp add: velodyne_h_simps ROS_WARN_STREAM_THROTTLE_def)
  have w2: "unpack_vlp16_warn velodyne_h ?rd example_bad_scan (21 / 2) 10 empty_cloud = Inr (snd st2, False, 10)"
    using warn [rule_format, where now = "21 / 2" and last_hit = 10]
    by (simp add: velodyne_h_simps ROS_WARN_STREAM_THROTTLE_def)
  have w3: "unpack_vlp16_warn velodyne_h ?rd example_bad_scan 12 10 empty_cloud = Inr (snd st2, True, 12)"
    using warn [rule_format, where now = 12 and last_hit = 10]
    by (simp add: velodyne_h_simps ROS_WARN_STREAM_THROTTLE_def)
  have calls: "unpack_vlp16_calls velodyne_h ?rd ?calls 0 = [10, 12]"
    by (simp add: w1 w2 w3)
  have "0 \<le> LOG_PERIOD velodyne_h \<and> sorted (map fst ?calls) \<and> (\<forall>c \<in> set ?calls. 0 \<le> fst c)"
    by (simp add: velodyne_h_simps)
  from sp [rule_format, OF this]
  have spc: "spaced 1 (unpack_vlp16_calls velodyne_h ?rd ?calls 0)"
    by (simp only: velodyne_h_simps)
  from un w24 h16 c1 c2 w1 w2 calls spc show ?thesis by blast
qed

end
